theory Spec2Isabelle
  imports Complex_Main "HOL-Library.AList"
begin

section \<open>Python values, exceptions and the parts of the runtime the code calls\<close>

text \<open>
  The repository is dynamically typed Python. Values that cross function boundaries
  untyped (CSV cells, JSON documents, the fields of a health record, the slots of the
  session state) are modelled by one datatype of Python values. A Python \<open>float\<close> is
  idealised as a real number (no rounding, no NaN, no infinities); a \<open>datetime.date\<close>
  is its proleptic Gregorian ordinal (\<open>date.toordinal()\<close>), so that the order of dates
  and \<open>date + timedelta(days=n)\<close> are the order and the addition of integers.
  A dictionary with string keys is an association list in insertion order.
\<close>

datatype pyerr =
  TypeError | ValueError | KeyError | IndexError | AttributeError | OverflowError
  | ZeroDivisionError

type_synonym date = int

datatype pyval =
    PNone
  | PBool bool
  | PInt int
  | PFloat real
  | PStr string
  | PDate date
  | PList "pyval list"
  | PDict "(string \<times> pyval) list"

type_synonym pydict = "(string \<times> pyval) list"

text \<open>Truth value testing (\<open>if x:\<close>, \<open>not x\<close>, \<open>x or y\<close>).\<close>

fun truthy :: "pyval \<Rightarrow> bool" where
  "truthy PNone = False"
| "truthy (PBool b) = b"
| "truthy (PInt i) = (i \<noteq> 0)"
| "truthy (PFloat r) = (r \<noteq> 0)"
| "truthy (PStr s) = (s \<noteq> [])"
| "truthy (PDate d) = True"
| "truthy (PList xs) = (xs \<noteq> [])"
| "truthy (PDict kvs) = (kvs \<noteq> [])"

text \<open>\<open>d.get(k, default)\<close>, \<open>d.get(k)\<close>, \<open>d[k]\<close>, \<open>k in d\<close> and \<open>d[k] = v\<close> on a dictionary.\<close>

definition dict_get :: "('k \<times> pyval) list \<Rightarrow> 'k \<Rightarrow> pyval \<Rightarrow> pyval" where
  "dict_get d k dflt = (case map_of d k of Some v \<Rightarrow> v | None \<Rightarrow> dflt)"

definition dict_index :: "('k \<times> 'v) list \<Rightarrow> 'k \<Rightarrow> pyerr + 'v" where
  "dict_index d k = (case map_of d k of Some v \<Rightarrow> Inr v | None \<Rightarrow> Inl KeyError)"

definition dict_has :: "('k \<times> 'v) list \<Rightarrow> 'k \<Rightarrow> bool" where
  "dict_has d k = (map_of d k \<noteq> None)"

definition dict_set :: "'k \<Rightarrow> 'v \<Rightarrow> ('k \<times> 'v) list \<Rightarrow> ('k \<times> 'v) list" where
  "dict_set k v d = AList.update k v d"

definition keys :: "('k \<times> 'v) list \<Rightarrow> 'k list" where
  "keys d = map fst d"

text \<open>\<open>if k not in d: d[k] = default\<close>, also the lookup \<open>d[k]\<close> of a \<open>defaultdict\<close>.\<close>

definition touch :: "'k \<Rightarrow> 'v \<Rightarrow> ('k \<times> 'v) list \<Rightarrow> ('k \<times> 'v) list" where
  "touch k dflt d = (case map_of d k of None \<Rightarrow> dict_set k dflt d | Some _ \<Rightarrow> d)"

text \<open>
  The functions of the Python runtime that the adapters call on text are parameters of
  the model: \<open>float(s)\<close> and \<open>int(s)\<close> on a string (\<open>None\<close> stands for
  \<open>ValueError\<close>), \<open>datetime.strptime(s, fmt).date()\<close>, and the comparison and sorting
  of values that are not all numbers. Every theorem below holds for any such runtime.
\<close>

record pyrt =
  rt_float :: "string \<Rightarrow> real option"
  rt_int :: "string \<Rightarrow> int option"
  rt_strptime :: "string \<Rightarrow> string \<Rightarrow> date option"
  rt_lt :: "pyval \<Rightarrow> pyval \<Rightarrow> pyerr + bool"
  rt_sorted :: "pyval list \<Rightarrow> pyerr + pyval list"

text \<open>Sequencing of computations that may raise, and \<open>try: ... except (E1, E2): ...\<close>.\<close>

definition ebind :: "pyerr + 'a \<Rightarrow> ('a \<Rightarrow> pyerr + 'b) \<Rightarrow> pyerr + 'b" where
  "ebind m f = (case m of Inl e \<Rightarrow> Inl e | Inr x \<Rightarrow> f x)"

definition try_except :: "pyerr + 'a \<Rightarrow> pyerr list \<Rightarrow> pyerr + 'a \<Rightarrow> pyerr + 'a" where
  "try_except body caught handler =
     (case body of
        Inr x \<Rightarrow> Inr x
      | Inl e \<Rightarrow> if List.member caught e then handler else Inl e)"

text \<open>\<open>int(x)\<close> on a float truncates towards zero.\<close>

definition trunc :: "real \<Rightarrow> int" where
  "trunc r = (if 0 \<le> r then \<lfloor>r\<rfloor> else \<lceil>r\<rceil>)"

fun py_float :: "pyrt \<Rightarrow> pyval \<Rightarrow> pyerr + real" where
  "py_float rt (PStr s) = (case rt_float rt s of Some r \<Rightarrow> Inr r | None \<Rightarrow> Inl ValueError)"
| "py_float rt (PInt i) = Inr (real_of_int i)"
| "py_float rt (PFloat r) = Inr r"
| "py_float rt (PBool b) = Inr (if b then 1 else 0)"
| "py_float rt v = Inl TypeError"

fun py_int :: "pyrt \<Rightarrow> pyval \<Rightarrow> pyerr + int" where
  "py_int rt (PStr s) = (case rt_int rt s of Some i \<Rightarrow> Inr i | None \<Rightarrow> Inl ValueError)"
| "py_int rt (PInt i) = Inr i"
| "py_int rt (PFloat r) = Inr (trunc r)"
| "py_int rt (PBool b) = Inr (if b then 1 else 0)"
| "py_int rt v = Inl TypeError"

fun py_strptime :: "pyrt \<Rightarrow> pyval \<Rightarrow> string \<Rightarrow> pyerr + date" where
  "py_strptime rt (PStr s) fmt =
     (case rt_strptime rt s fmt of Some d \<Rightarrow> Inr d | None \<Rightarrow> Inl ValueError)"
| "py_strptime rt v fmt = Inl TypeError"

text \<open>
  \<open>s.split()\<close>: the maximal runs of non-whitespace characters. A character is its code
  point; the whitespace code points below 256 are listed.
\<close>

definition is_space :: "char \<Rightarrow> bool" where
  "is_space c = List.member [9, 10, 11, 12, 13, 28, 29, 30, 31, 32, 133, 160 :: nat] (of_char c)"

fun split_from :: "string \<Rightarrow> string \<Rightarrow> string list" where
  "split_from cur [] = (if cur = [] then [] else [cur])"
| "split_from cur (c # cs) =
     (if is_space c then (if cur = [] then split_from [] cs else cur # split_from [] cs)
      else split_from (cur @ [c]) cs)"

definition py_split :: "string \<Rightarrow> string list" where
  "py_split s = split_from [] s"

text \<open>\<open>v.split()[0]\<close> on a value that may be \<open>None\<close>.\<close>

fun first_token :: "pyval \<Rightarrow> pyerr + pyval" where
  "first_token (PStr s) = (case py_split s of [] \<Rightarrow> Inl IndexError | t # _ \<Rightarrow> Inr (PStr t))"
| "first_token v = Inl AttributeError"

text \<open>\<open>xs[i]\<close> on a list, \<open>min(xs)\<close> and \<open>max(xs)\<close> on a list of integers.\<close>

definition list_index :: "'a list \<Rightarrow> int \<Rightarrow> pyerr + 'a" where
  "list_index xs i =
     (if 0 \<le> i \<and> i < int (length xs) then Inr (xs ! nat i)
      else if i < 0 \<and> - int (length xs) \<le> i then Inr (xs ! nat (int (length xs) + i))
      else Inl IndexError)"

fun py_min :: "'a::linorder list \<Rightarrow> pyerr + 'a" where
  "py_min [] = Inl ValueError"
| "py_min (x # xs) = Inr (fold (\<lambda>y m. if y < m then y else m) xs x)"

fun py_max :: "'a::linorder list \<Rightarrow> pyerr + 'a" where
  "py_max [] = Inl ValueError"
| "py_max (x # xs) = Inr (fold (\<lambda>y m. if m < y then y else m) xs x)"

text \<open>\<open>sorted(set(a) | set(b) | set(c))\<close> on dates, given the concatenated key lists.\<close>

definition sorted_dates :: "date list \<Rightarrow> date list" where
  "sorted_dates ds = sort (remdups ds)"

definition opt_int :: "int option \<Rightarrow> pyval" where
  "opt_int x = (case x of None \<Rightarrow> PNone | Some i \<Rightarrow> PInt i)"

definition opt_float :: "real option \<Rightarrow> pyval" where
  "opt_float x = (case x of None \<Rightarrow> PNone | Some r \<Rightarrow> PFloat r)"

section \<open>The adapter base class (base.py)\<close>

definition create_empty_record :: "date \<Rightarrow> pydict" where
  "create_empty_record record_date =
     [(''date'', PDate record_date),
      (''sleep_duration'', PNone),
      (''sleep_score'', PNone),
      (''deep_sleep'', PNone),
      (''rem_sleep'', PNone),
      (''light_sleep'', PNone),
      (''awake_time'', PNone),
      (''resting_hr'', PNone),
      (''hrv'', PNone),
      (''hr_min'', PNone),
      (''hr_max'', PNone),
      (''steps'', PNone),
      (''active_calories'', PNone),
      (''total_calories'', PNone),
      (''distance_km'', PNone),
      (''floors_climbed'', PNone),
      (''active_minutes'', PNone),
      (''sedentary_minutes'', PNone),
      (''glucose_avg'', PNone),
      (''glucose_min'', PNone),
      (''glucose_max'', PNone),
      (''glucose_std'', PNone),
      (''time_in_range'', PNone),
      (''readiness_score'', PNone),
      (''stress_score'', PNone),
      (''recovery_score'', PNone)]"

text \<open>The 26 field names of the normalized daily record, in the order of the schema.\<close>

definition canonical_fields :: "string list" where
  "canonical_fields =
     [''date'', ''sleep_duration'', ''sleep_score'', ''deep_sleep'', ''rem_sleep'',
      ''light_sleep'', ''awake_time'', ''resting_hr'', ''hrv'', ''hr_min'', ''hr_max'',
      ''steps'', ''active_calories'', ''total_calories'', ''distance_km'',
      ''floors_climbed'', ''active_minutes'', ''sedentary_minutes'', ''glucose_avg'',
      ''glucose_min'', ''glucose_max'', ''glucose_std'', ''time_in_range'',
      ''readiness_score'', ''stress_score'', ''recovery_score'']"

text \<open>\<open>_safe_int\<close> and \<open>_safe_float\<close>, the same static methods in every adapter that has them.\<close>

definition safe_int :: "pyrt \<Rightarrow> pyval \<Rightarrow> pyerr + int option" where
  "safe_int rt v =
     (if v = PNone \<or> v = PStr [] then Inr None
      else try_except (ebind (py_float rt v) (\<lambda>r. Inr (Some (trunc r))))
             [ValueError, TypeError] (Inr None))"

definition safe_float :: "pyrt \<Rightarrow> pyval \<Rightarrow> pyerr + real option" where
  "safe_float rt v =
     (if v = PNone \<or> v = PStr [] then Inr None
      else try_except (ebind (py_float rt v) (\<lambda>r. Inr (Some r)))
             [ValueError, TypeError] (Inr None))"

section \<open>Fitbit Kaggle adapter (wearables/fitbit_kaggle.py)\<close>

text \<open>
  What the adapter finds on disk: the answer of \<open>is_available()\<close>, and for each of the
  three merged CSV files the rows that \<open>csv.DictReader\<close> yields, or \<open>None\<close> when
  \<open>_find_file\<close> finds no such file. A row maps each column of the header to the text of
  the cell, or to \<open>None\<close> when the line is shorter than the header.
\<close>

record fitbit_files =
  fb_available :: bool
  fb_activity :: "pydict list option"
  fb_sleep :: "pydict list option"
  fb_heartrate :: "pydict list option"

text \<open>The nested \<open>try\<close> of \<open>_load_activity_data\<close>; \<open>None\<close> is \<open>continue\<close>.\<close>

definition activity_date :: "pyrt \<Rightarrow> pydict \<Rightarrow> pyerr + date option" where
  "activity_date rt row =
     try_except
       (ebind (dict_index row ''ActivityDate'') (\<lambda>v.
        ebind (py_strptime rt v ''%m/%d/%Y'') (\<lambda>d. Inr (Some d))))
       [ValueError, KeyError]
       (try_except
          (ebind (dict_index row ''ActivityDate'') (\<lambda>v.
           ebind (py_strptime rt v ''%Y-%m-%d'') (\<lambda>d. Inr (Some d))))
          [ValueError, KeyError]
          (Inr None))"

text \<open>\<open>a + b\<close> where each operand is an \<open>int\<close> or \<open>None\<close>.\<close>

definition add_opt :: "int option \<Rightarrow> int option \<Rightarrow> pyerr + int option" where
  "add_opt a b = (case (a, b) of (Some x, Some y) \<Rightarrow> Inr (Some (x + y)) | _ \<Rightarrow> Inl TypeError)"

definition activity_entry :: "pyrt \<Rightarrow> pydict \<Rightarrow> pyerr + pydict" where
  "activity_entry rt row =
     ebind (safe_int rt (dict_get row ''TotalSteps'' PNone)) (\<lambda>steps.
     ebind (safe_float rt (dict_get row ''TotalDistance'' PNone)) (\<lambda>distance_km.
     ebind (safe_int rt (dict_get row ''Calories'' PNone)) (\<lambda>active_calories.
     ebind (safe_int rt (dict_get row ''Calories'' PNone)) (\<lambda>total_calories.
     ebind (safe_int rt (dict_get row ''VeryActiveMinutes'' (PInt 0))) (\<lambda>very.
     ebind (safe_int rt (dict_get row ''FairlyActiveMinutes'' (PInt 0))) (\<lambda>fairly.
     ebind (add_opt very fairly) (\<lambda>very_fairly.
     ebind (safe_int rt (dict_get row ''LightlyActiveMinutes'' (PInt 0))) (\<lambda>lightly.
     ebind (add_opt very_fairly lightly) (\<lambda>active_minutes.
     ebind (safe_int rt (dict_get row ''SedentaryMinutes'' PNone)) (\<lambda>sedentary_minutes.
     Inr [(''steps'', opt_int steps),
          (''distance_km'', opt_float distance_km),
          (''active_calories'', opt_int active_calories),
          (''total_calories'', opt_int total_calories),
          (''active_minutes'', opt_int active_minutes),
          (''sedentary_minutes'', opt_int sedentary_minutes)]))))))))))"

fun load_activity_rows ::
    "pyrt \<Rightarrow> string \<Rightarrow> pydict list \<Rightarrow> (date \<times> pydict) list \<Rightarrow> pyerr + (date \<times> pydict) list" where
  "load_activity_rows rt subject_id [] result = Inr result"
| "load_activity_rows rt subject_id (row # rows) result =
     (if dict_get row ''Id'' PNone \<noteq> PStr subject_id
      then load_activity_rows rt subject_id rows result
      else case activity_date rt row of
          Inl e \<Rightarrow> Inl e
        | Inr None \<Rightarrow> load_activity_rows rt subject_id rows result
        | Inr (Some record_date) \<Rightarrow>
            (case activity_entry rt row of
               Inl e \<Rightarrow> Inl e
             | Inr entry \<Rightarrow>
                 load_activity_rows rt subject_id rows (dict_set record_date entry result)))"

definition fitbit_load_activity_data ::
    "pyrt \<Rightarrow> fitbit_files \<Rightarrow> string \<Rightarrow> pyerr + (date \<times> pydict) list" where
  "fitbit_load_activity_data rt fs subject_id =
     (case fb_activity fs of
        None \<Rightarrow> Inr []
      | Some rows \<Rightarrow> load_activity_rows rt subject_id rows [])"

definition sleep_date :: "pyrt \<Rightarrow> pydict \<Rightarrow> string \<Rightarrow> pyerr + date option" where
  "sleep_date rt row column =
     try_except
       (ebind (dict_index row column) (\<lambda>v.
        ebind (first_token v) (\<lambda>date_str.
        ebind (py_strptime rt date_str ''%m/%d/%Y'') (\<lambda>d. Inr (Some d)))))
       [ValueError, KeyError]
       (Inr None)"

text \<open>\<open>x if x is truthy\<close> for an optional float: present and not zero.\<close>

definition nonzero :: "real option \<Rightarrow> bool" where
  "nonzero x = (case x of None \<Rightarrow> False | Some r \<Rightarrow> r \<noteq> 0)"

definition sleep_score_of :: "real \<Rightarrow> real option \<Rightarrow> pyval" where
  "sleep_score_of total_minutes time_in_bed =
     (case time_in_bed of
        None \<Rightarrow> PNone
      | Some tib \<Rightarrow>
          if tib \<noteq> 0 \<and> tib > 0
          then (let efficiency = (total_minutes / tib) * 100
                in PInt (min 100 (trunc (efficiency * 1.1))))
          else PNone)"

definition sleep_entry :: "pyrt \<Rightarrow> pydict \<Rightarrow> pyerr + pydict" where
  "sleep_entry rt row =
     ebind (safe_float rt (dict_get row ''TotalMinutesAsleep'' PNone)) (\<lambda>total_minutes.
     let sleep_hours = (if nonzero total_minutes then PFloat (the total_minutes / 60) else PNone)
     in ebind (if nonzero total_minutes
               then ebind (safe_float rt (dict_get row ''TotalTimeInBed'' PNone))
                      (\<lambda>time_in_bed. Inr (sleep_score_of (the total_minutes) time_in_bed))
               else Inr PNone) (\<lambda>sleep_score.
        Inr [(''sleep_duration'', sleep_hours), (''sleep_score'', sleep_score)]))"

fun load_sleep_rows ::
    "pyrt \<Rightarrow> string \<Rightarrow> pydict list \<Rightarrow> (date \<times> pydict) list \<Rightarrow> pyerr + (date \<times> pydict) list" where
  "load_sleep_rows rt subject_id [] result = Inr result"
| "load_sleep_rows rt subject_id (row # rows) result =
     (if dict_get row ''Id'' PNone \<noteq> PStr subject_id
      then load_sleep_rows rt subject_id rows result
      else case sleep_date rt row ''SleepDay'' of
          Inl e \<Rightarrow> Inl e
        | Inr None \<Rightarrow> load_sleep_rows rt subject_id rows result
        | Inr (Some record_date) \<Rightarrow>
            (case sleep_entry rt row of
               Inl e \<Rightarrow> Inl e
             | Inr entry \<Rightarrow>
                 load_sleep_rows rt subject_id rows (dict_set record_date entry result)))"

definition fitbit_load_sleep_data ::
    "pyrt \<Rightarrow> fitbit_files \<Rightarrow> string \<Rightarrow> pyerr + (date \<times> pydict) list" where
  "fitbit_load_sleep_data rt fs subject_id =
     (case fb_sleep fs of
        None \<Rightarrow> Inr []
      | Some rows \<Rightarrow> load_sleep_rows rt subject_id rows [])"

text \<open>
  The body of the \<open>try\<close> in \<open>_load_heart_rate_data\<close>: the day and the value of one row,
  or \<open>None\<close> for \<open>continue\<close>.
\<close>

definition hr_sample :: "pyrt \<Rightarrow> pydict \<Rightarrow> pyerr + (date \<times> int) option" where
  "hr_sample rt row =
     try_except
       (ebind (dict_index row ''Time'') (\<lambda>v.
        ebind (first_token v) (\<lambda>date_str.
        ebind (py_strptime rt date_str ''%m/%d/%Y'') (\<lambda>record_date.
        ebind (dict_index row ''Value'') (\<lambda>w.
        ebind (py_int rt w) (\<lambda>hr_value. Inr (Some (record_date, hr_value))))))))
       [ValueError, KeyError]
       (Inr None)"

text \<open>\<open>daily[k].append(v)\<close> on a \<open>defaultdict(list)\<close>.\<close>

definition append_to :: "'k \<Rightarrow> 'v \<Rightarrow> ('k \<times> 'v list) list \<Rightarrow> ('k \<times> 'v list) list" where
  "append_to k v daily =
     dict_set k ((case map_of daily k of None \<Rightarrow> [] | Some vs \<Rightarrow> vs) @ [v]) daily"

fun group_hr_rows ::
    "pyrt \<Rightarrow> string \<Rightarrow> pydict list \<Rightarrow> (date \<times> int list) list \<Rightarrow> pyerr + (date \<times> int list) list" where
  "group_hr_rows rt subject_id [] daily_hr = Inr daily_hr"
| "group_hr_rows rt subject_id (row # rows) daily_hr =
     (if dict_get row ''Id'' PNone \<noteq> PStr subject_id
      then group_hr_rows rt subject_id rows daily_hr
      else case hr_sample rt row of
          Inl e \<Rightarrow> Inl e
        | Inr None \<Rightarrow> group_hr_rows rt subject_id rows daily_hr
        | Inr (Some (record_date, hr_value)) \<Rightarrow>
            group_hr_rows rt subject_id rows (append_to record_date hr_value daily_hr))"

text \<open>\<open>max(0, int(len(sorted_hr) * 0.1))\<close>.\<close>

definition resting_idx :: "nat \<Rightarrow> int" where
  "resting_idx n = max 0 (trunc (real n * 0.1))"

definition hr_aggregate :: "int list \<Rightarrow> pyerr + pydict" where
  "hr_aggregate hr_values =
     (let sorted_hr = sort hr_values
      in ebind (list_index sorted_hr (resting_idx (length sorted_hr))) (\<lambda>resting.
         ebind (py_min hr_values) (\<lambda>lo.
         ebind (py_max hr_values) (\<lambda>hi.
         Inr [(''resting_hr'', PInt resting), (''hr_min'', PInt lo), (''hr_max'', PInt hi)]))))"

fun aggregate_hr_days ::
    "(date \<times> int list) list \<Rightarrow> (date \<times> pydict) list \<Rightarrow> pyerr + (date \<times> pydict) list" where
  "aggregate_hr_days [] result = Inr result"
| "aggregate_hr_days ((record_date, hr_values) # days) result =
     (if hr_values \<noteq> []
      then (case hr_aggregate hr_values of
              Inl e \<Rightarrow> Inl e
            | Inr entry \<Rightarrow> aggregate_hr_days days (dict_set record_date entry result))
      else aggregate_hr_days days result)"

definition fitbit_daily_hr ::
    "pyrt \<Rightarrow> fitbit_files \<Rightarrow> string \<Rightarrow> pyerr + (date \<times> int list) list" where
  "fitbit_daily_hr rt fs subject_id =
     (case fb_heartrate fs of
        None \<Rightarrow> Inr []
      | Some rows \<Rightarrow> group_hr_rows rt subject_id rows [])"

definition fitbit_load_heart_rate_data ::
    "pyrt \<Rightarrow> fitbit_files \<Rightarrow> string \<Rightarrow> pyerr + (date \<times> pydict) list" where
  "fitbit_load_heart_rate_data rt fs subject_id =
     ebind (fitbit_daily_hr rt fs subject_id) (\<lambda>daily_hr. aggregate_hr_days daily_hr [])"

text \<open>\<open>record[k] = src.get(k)\<close> for each listed key, when the day is in the tributary.\<close>

definition overlay :: "(date \<times> pydict) list \<Rightarrow> date \<Rightarrow> string list \<Rightarrow> pydict \<Rightarrow> pydict" where
  "overlay tributary record_date field_names record =
     (case map_of tributary record_date of
        None \<Rightarrow> record
      | Some src \<Rightarrow> fold (\<lambda>k r. dict_set k (dict_get src k PNone) r) field_names record)"

definition fitbit_record ::
    "(date \<times> pydict) list \<Rightarrow> (date \<times> pydict) list \<Rightarrow> (date \<times> pydict) list \<Rightarrow> date \<Rightarrow> pydict" where
  "fitbit_record activity_data sleep_data hr_data record_date =
     overlay hr_data record_date [''resting_hr'', ''hr_min'', ''hr_max'']
       (overlay sleep_data record_date [''sleep_duration'', ''sleep_score'']
         (overlay activity_data record_date
            [''steps'', ''distance_km'', ''active_calories'', ''total_calories'',
             ''active_minutes'', ''sedentary_minutes'']
            (create_empty_record record_date)))"

definition fitbit_load_health_data :: "pyrt \<Rightarrow> fitbit_files \<Rightarrow> string \<Rightarrow> pyerr + pydict list" where
  "fitbit_load_health_data rt fs subject_id =
     (if \<not> fb_available fs then Inr []
      else
        ebind (fitbit_load_activity_data rt fs subject_id) (\<lambda>activity_data.
        ebind (fitbit_load_sleep_data rt fs subject_id) (\<lambda>sleep_data.
        ebind (fitbit_load_heart_rate_data rt fs subject_id) (\<lambda>hr_data.
        Inr (map (fitbit_record activity_data sleep_data hr_data)
               (sorted_dates (keys activity_data @ keys sleep_data @ keys hr_data)))))))"

section \<open>PMData adapter (wearables/pmdata.py)\<close>

text \<open>
  A JSON document is a Python value built from \<open>None\<close>, booleans, numbers, strings,
  lists and dictionaries. The operations below are the ones the adapter applies to
  such values without knowing their type; each raises what Python raises on a value of
  the wrong type.
\<close>

text \<open>\<open>for x in v\<close>: the elements of a list, the keys of a dictionary, the characters of a string.\<close>

fun py_iter :: "pyval \<Rightarrow> pyerr + pyval list" where
  "py_iter (PList xs) = Inr xs"
| "py_iter (PDict kvs) = Inr (map (\<lambda>kv. PStr (fst kv)) kvs)"
| "py_iter (PStr s) = Inr (map (\<lambda>c. PStr [c]) s)"
| "py_iter v = Inl TypeError"

text \<open>\<open>v[k]\<close> and \<open>v.get(k, default)\<close> with a string key \<open>k\<close>.\<close>

fun py_getitem :: "pyval \<Rightarrow> string \<Rightarrow> pyerr + pyval" where
  "py_getitem (PDict kvs) k = dict_index kvs k"
| "py_getitem v k = Inl TypeError"

fun py_get :: "pyval \<Rightarrow> string \<Rightarrow> pyval \<Rightarrow> pyerr + pyval" where
  "py_get (PDict kvs) k dflt = Inr (dict_get kvs k dflt)"
| "py_get v k dflt = Inl AttributeError"

text \<open>\<open>k in v\<close> with a string \<open>k\<close>: a key of a dictionary, an element of a list, a substring of a string.\<close>

fun has_infix :: "string \<Rightarrow> string \<Rightarrow> bool" where
  "has_infix p [] = (p = [])"
| "has_infix p (c # cs) = (take (length p) (c # cs) = p \<or> has_infix p cs)"

fun py_contains :: "string \<Rightarrow> pyval \<Rightarrow> pyerr + bool" where
  "py_contains k (PDict kvs) = Inr (dict_has kvs k)"
| "py_contains k (PList xs) = Inr (List.member xs (PStr k))"
| "py_contains k (PStr s) = Inr (has_infix k s)"
| "py_contains k v = Inl TypeError"

text \<open>Numbers: \<open>bool\<close>, \<open>int\<close> and \<open>float\<close> compare and divide by their numeric value.\<close>

fun num_val :: "pyval \<Rightarrow> real option" where
  "num_val (PBool b) = Some (if b then 1 else 0)"
| "num_val (PInt i) = Some (real_of_int i)"
| "num_val (PFloat r) = Some r"
| "num_val v = None"

text \<open>\<open>v / 60\<close>.\<close>

definition div60 :: "pyval \<Rightarrow> pyerr + pyval" where
  "div60 v = (case num_val v of Some x \<Rightarrow> Inr (PFloat (x / 60)) | None \<Rightarrow> Inl TypeError)"

text \<open>
  \<open>a < b\<close>, \<open>sorted(xs)\<close>, \<open>min(xs)\<close> and \<open>max(xs)\<close> on arbitrary values: numbers are
  ordered by value and sorted stably; everything else is left to the runtime.
\<close>

definition py_lt :: "pyrt \<Rightarrow> pyval \<Rightarrow> pyval \<Rightarrow> pyerr + bool" where
  "py_lt rt a b =
     (case (num_val a, num_val b) of
        (Some x, Some y) \<Rightarrow> Inr (x < y)
      | _ \<Rightarrow> rt_lt rt a b)"

definition py_sorted :: "pyrt \<Rightarrow> pyval list \<Rightarrow> pyerr + pyval list" where
  "py_sorted rt xs =
     (if list_all (\<lambda>v. num_val v \<noteq> None) xs
      then Inr (sort_key (\<lambda>v. the (num_val v)) xs)
      else rt_sorted rt xs)"

fun min_scan :: "pyrt \<Rightarrow> pyval \<Rightarrow> pyval list \<Rightarrow> pyerr + pyval" where
  "min_scan rt m [] = Inr m"
| "min_scan rt m (x # xs) = ebind (py_lt rt x m) (\<lambda>b. min_scan rt (if b then x else m) xs)"

fun max_scan :: "pyrt \<Rightarrow> pyval \<Rightarrow> pyval list \<Rightarrow> pyerr + pyval" where
  "max_scan rt m [] = Inr m"
| "max_scan rt m (x # xs) = ebind (py_lt rt m x) (\<lambda>b. max_scan rt (if b then x else m) xs)"

fun py_min_val :: "pyrt \<Rightarrow> pyval list \<Rightarrow> pyerr + pyval" where
  "py_min_val rt [] = Inl ValueError"
| "py_min_val rt (x # xs) = min_scan rt x xs"

fun py_max_val :: "pyrt \<Rightarrow> pyval list \<Rightarrow> pyerr + pyval" where
  "py_max_val rt [] = Inl ValueError"
| "py_max_val rt (x # xs) = max_scan rt x xs"

text \<open>\<open>s.replace(old, "")\<close> for a non-empty \<open>old\<close>.\<close>

fun remove_all :: "string \<Rightarrow> string \<Rightarrow> string" where
  "remove_all old [] = []"
| "remove_all old (c # cs) =
     (if old \<noteq> [] \<and> take (length old) (c # cs) = old
      then remove_all old (drop (length old - 1) cs)
      else c # remove_all old cs)"

text \<open>
  What the adapter finds under \<open>\<langle>dataset\<rangle>/\<langle>subject_id\<rangle>/fitbit\<close>: whether the directory
  exists, and for each JSON file whether it is missing, unreadable as JSON, or the
  document it holds. \<open>pm_heart_rate\<close> lists the files \<open>heart_rate/*.json\<close> by stem, in
  the order of \<open>glob\<close>, or is \<open>None\<close> when there is no such directory.
\<close>

datatype json_file = Missing | Invalid | Json pyval

record pmdata_files =
  pm_available :: bool
  pm_subject_dir :: bool
  pm_sleep :: json_file
  pm_heart_rate :: "(string \<times> pyval option) list option"
  pm_steps :: json_file
  pm_calories :: json_file

definition stage_hours :: "pyval \<Rightarrow> string \<Rightarrow> pyerr + pyval" where
  "stage_hours stages stage =
     ebind (py_get stages stage PNone) (\<lambda>c.
       if truthy c
       then ebind (py_get stages stage (PDict [])) (\<lambda>st.
            ebind (py_get st ''minutes'' (PInt 0)) div60)
       else Inr PNone)"

definition pm_sleep_entry :: "pyval \<Rightarrow> pyerr + pydict" where
  "pm_sleep_entry record =
     ebind (py_get record ''levels'' (PDict [])) (\<lambda>levels.
     ebind (py_get levels ''summary'' (PDict [])) (\<lambda>stages.
     ebind (ebind (py_get record ''minutesAsleep'' PNone) (\<lambda>c.
              if truthy c then ebind (py_get record ''minutesAsleep'' (PInt 0)) div60
              else Inr PNone)) (\<lambda>sleep_duration.
     ebind (py_get record ''efficiency'' PNone) (\<lambda>sleep_score.
     ebind (stage_hours stages ''deep'') (\<lambda>deep_sleep.
     ebind (stage_hours stages ''rem'') (\<lambda>rem_sleep.
     ebind (stage_hours stages ''light'') (\<lambda>light_sleep.
     ebind (stage_hours stages ''wake'') (\<lambda>awake_time.
     Inr [(''sleep_duration'', sleep_duration),
          (''sleep_score'', sleep_score),
          (''deep_sleep'', deep_sleep),
          (''rem_sleep'', rem_sleep),
          (''light_sleep'', light_sleep),
          (''awake_time'', awake_time)]))))))))"

definition json_date :: "pyrt \<Rightarrow> pyval \<Rightarrow> string \<Rightarrow> pyerr + date option" where
  "json_date rt record k =
     try_except
       (ebind (py_getitem record k) (\<lambda>v.
        ebind (py_strptime rt v ''%Y-%m-%d'') (\<lambda>d. Inr (Some d))))
       [ValueError, KeyError]
       (Inr None)"

fun pm_sleep_records ::
    "pyrt \<Rightarrow> pyval list \<Rightarrow> (date \<times> pydict) list \<Rightarrow> pyerr + (date \<times> pydict) list" where
  "pm_sleep_records rt [] result = Inr result"
| "pm_sleep_records rt (record # records) result =
     (case json_date rt record ''dateOfSleep'' of
        Inl e \<Rightarrow> Inl e
      | Inr None \<Rightarrow> pm_sleep_records rt records result
      | Inr (Some record_date) \<Rightarrow>
          (case pm_sleep_entry record of
             Inl e \<Rightarrow> Inl e
           | Inr entry \<Rightarrow> pm_sleep_records rt records (dict_set record_date entry result)))"

definition pm_load_sleep_data :: "pyrt \<Rightarrow> pmdata_files \<Rightarrow> pyerr + (date \<times> pydict) list" where
  "pm_load_sleep_data rt fs =
     (case pm_sleep fs of
        Json sleep_records \<Rightarrow>
          ebind (py_iter sleep_records) (\<lambda>records. pm_sleep_records rt records [])
      | _ \<Rightarrow> Inr [])"

text \<open>
  The loop that extracts the values of one heart-rate file, and the loop applied to the
  document of the file.
\<close>

fun pm_hr_values :: "pyval list \<Rightarrow> pyval list \<Rightarrow> pyerr + pyval list" where
  "pm_hr_values [] hr_values = Inr hr_values"
| "pm_hr_values (record # records) hr_values =
     (case py_contains ''value'' record of
        Inl e \<Rightarrow> Inl e
      | Inr False \<Rightarrow> pm_hr_values records hr_values
      | Inr True \<Rightarrow>
          (case py_getitem record ''value'' of
             Inl e \<Rightarrow> Inl e
           | Inr (PDict kvs) \<Rightarrow> pm_hr_values records (hr_values @ [dict_get kvs ''bpm'' (PInt 0)])
           | Inr v \<Rightarrow> pm_hr_values records (hr_values @ [v])))"

definition pm_file_samples :: "pyval \<Rightarrow> pyerr + pyval list" where
  "pm_file_samples hr_records = ebind (py_iter hr_records) (\<lambda>records. pm_hr_values records [])"

text \<open>The entry of one day, from the non-empty list of its values.\<close>

definition pm_hr_aggregate :: "pyrt \<Rightarrow> pyval list \<Rightarrow> pyerr + pydict" where
  "pm_hr_aggregate rt hr_values =
     ebind (py_sorted rt hr_values) (\<lambda>sorted_hr.
     ebind (list_index sorted_hr (resting_idx (length sorted_hr))) (\<lambda>resting.
     ebind (py_min_val rt hr_values) (\<lambda>lo.
     ebind (py_max_val rt hr_values) (\<lambda>hi.
     Inr [(''resting_hr'', resting), (''hr_min'', lo), (''hr_max'', hi), (''hrv'', PNone)]))))"

fun pm_hr_files ::
    "pyrt \<Rightarrow> (string \<times> pyval option) list \<Rightarrow> (date \<times> pydict) list \<Rightarrow> pyerr + (date \<times> pydict) list" where
  "pm_hr_files rt [] result = Inr result"
| "pm_hr_files rt ((stem, content) # files) result =
     (case rt_strptime rt (remove_all ''heart_rate-'' stem) ''%Y-%m-%d'' of
        None \<Rightarrow> pm_hr_files rt files result
      | Some record_date \<Rightarrow>
          (case content of
             None \<Rightarrow> pm_hr_files rt files result
           | Some hr_records \<Rightarrow>
               if \<not> truthy hr_records then pm_hr_files rt files result
               else (case pm_file_samples hr_records of
                       Inl e \<Rightarrow> Inl e
                     | Inr hr_values \<Rightarrow>
                         if hr_values \<noteq> []
                         then (case pm_hr_aggregate rt hr_values of
                                 Inl e \<Rightarrow> Inl e
                               | Inr entry \<Rightarrow>
                                   pm_hr_files rt files (dict_set record_date entry result))
                         else pm_hr_files rt files result)))"

definition pm_load_hr_data :: "pyrt \<Rightarrow> pmdata_files \<Rightarrow> pyerr + (date \<times> pydict) list" where
  "pm_load_hr_data rt fs =
     (case pm_heart_rate fs of
        None \<Rightarrow> Inr []
      | Some files \<Rightarrow> pm_hr_files rt files [])"

definition pm_step_sample :: "pyrt \<Rightarrow> pyval \<Rightarrow> pyerr + (date \<times> int) option" where
  "pm_step_sample rt record =
     try_except
       (ebind (py_getitem record ''dateTime'') (\<lambda>v.
        ebind (py_strptime rt v ''%Y-%m-%d'') (\<lambda>record_date.
        ebind (py_get record ''value'' (PInt 0)) (\<lambda>x.
        ebind (py_int rt x) (\<lambda>steps. Inr (Some (record_date, steps)))))))
       [ValueError, KeyError]
       (Inr None)"

fun pm_steps_records ::
    "pyrt \<Rightarrow> pyval list \<Rightarrow> (date \<times> pydict) list \<Rightarrow> pyerr + (date \<times> pydict) list" where
  "pm_steps_records rt [] result = Inr result"
| "pm_steps_records rt (record # records) result =
     (case pm_step_sample rt record of
        Inl e \<Rightarrow> Inl e
      | Inr None \<Rightarrow> pm_steps_records rt records result
      | Inr (Some (record_date, steps)) \<Rightarrow>
          pm_steps_records rt records
            (dict_set record_date
               [(''steps'', PInt steps), (''active_calories'', PNone), (''active_minutes'', PNone)]
               result))"

text \<open>
  The calories loop: the entry of the day is created by the \<open>if\<close> statement before
  \<open>int(...)\<close> runs, so it stays when \<open>int(...)\<close> raises \<open>ValueError\<close>.
\<close>

fun pm_calories_records ::
    "pyrt \<Rightarrow> pyval list \<Rightarrow> (date \<times> pydict) list \<Rightarrow> pyerr + (date \<times> pydict) list" where
  "pm_calories_records rt [] result = Inr result"
| "pm_calories_records rt (record # records) result =
     (case json_date rt record ''dateTime'' of
        Inl e \<Rightarrow> Inl e
      | Inr None \<Rightarrow> pm_calories_records rt records result
      | Inr (Some record_date) \<Rightarrow>
          (let result1 = touch record_date
                 [(''steps'', PNone), (''active_calories'', PNone), (''active_minutes'', PNone)]
                 result
           in case try_except
                  (ebind (py_get record ''value'' (PInt 0)) (\<lambda>x.
                   ebind (py_int rt x) (\<lambda>c. Inr (Some c))))
                  [ValueError, KeyError] (Inr None) of
                Inl e \<Rightarrow> Inl e
              | Inr None \<Rightarrow> pm_calories_records rt records result1
              | Inr (Some c) \<Rightarrow>
                  pm_calories_records rt records
                    (dict_set record_date
                       (dict_set ''active_calories'' (PInt c)
                          (case map_of result1 record_date of Some entry \<Rightarrow> entry | None \<Rightarrow> []))
                       result1)))"

definition pm_load_activity_data :: "pyrt \<Rightarrow> pmdata_files \<Rightarrow> pyerr + (date \<times> pydict) list" where
  "pm_load_activity_data rt fs =
     ebind (case pm_steps fs of
              Json steps_records \<Rightarrow>
                ebind (py_iter steps_records) (\<lambda>records. pm_steps_records rt records [])
            | _ \<Rightarrow> Inr []) (\<lambda>result.
       case pm_calories fs of
         Json cal_records \<Rightarrow>
           ebind (py_iter cal_records) (\<lambda>records. pm_calories_records rt records result)
       | _ \<Rightarrow> Inr result)"

definition pm_record ::
    "(date \<times> pydict) list \<Rightarrow> (date \<times> pydict) list \<Rightarrow> (date \<times> pydict) list \<Rightarrow> date \<Rightarrow> pydict" where
  "pm_record sleep_data hr_data activity_data record_date =
     overlay activity_data record_date [''steps'', ''active_calories'', ''active_minutes'']
       (overlay hr_data record_date [''resting_hr'', ''hrv'', ''hr_min'', ''hr_max'']
         (overlay sleep_data record_date
            [''sleep_duration'', ''sleep_score'', ''deep_sleep'', ''rem_sleep'',
             ''light_sleep'', ''awake_time'']
            (create_empty_record record_date)))"

definition pm_load_health_data :: "pyrt \<Rightarrow> pmdata_files \<Rightarrow> pyerr + pydict list" where
  "pm_load_health_data rt fs =
     (if \<not> pm_available fs then Inr []
      else if \<not> pm_subject_dir fs then Inr []
      else
        ebind (pm_load_sleep_data rt fs) (\<lambda>sleep_data.
        ebind (pm_load_hr_data rt fs) (\<lambda>hr_data.
        ebind (pm_load_activity_data rt fs) (\<lambda>activity_data.
        Inr (map (pm_record sleep_data hr_data activity_data)
               (sorted_dates (keys sleep_data @ keys hr_data @ keys activity_data)))))))"

section \<open>OhioT1DM adapter (cgm/ohio_t1dm.py)\<close>

text \<open>
  The patient's XML file as \<open>ElementTree\<close> reads it: a parse error, or the attribute
  dictionaries of the \<open>event\<close> elements under \<open>glucose_level\<close>, \<open>bolus\<close>, \<open>basal\<close>
  and \<open>meal\<close>, in document order.
\<close>

record xml_events =
  glucose_level :: "pydict list"
  bolus :: "pydict list"
  basal :: "pydict list"
  meal :: "pydict list"

datatype xml_file = ParseError | Parsed xml_events

text \<open>
  What the adapter finds on disk: the answer of \<open>is_available()\<close>, the file that
  \<open>_find_patient_xml\<close> returns and the rows of the file that
  \<open>_find_patient_csv(subject_id, 'glucose')\<close> returns (\<open>None\<close>: no such file).
\<close>

record ohio_files =
  oh_available :: bool
  oh_xml :: "xml_file option"
  oh_glucose_csv :: "pydict list option"

text \<open>\<open>a or b\<close>.\<close>

definition py_or :: "pyval \<Rightarrow> pyval \<Rightarrow> pyval" where
  "py_or a b = (if truthy a then a else b)"

definition glucose_xml_sample :: "pyrt \<Rightarrow> pydict \<Rightarrow> pyerr + (date \<times> real) option" where
  "glucose_xml_sample rt event =
     (let ts = dict_get event ''ts'' PNone; v = dict_get event ''value'' PNone
      in if \<not> truthy ts \<or> \<not> truthy v then Inr None
         else try_except
                (ebind (py_strptime rt ts ''%d-%m-%Y %H:%M:%S'') (\<lambda>dt.
                 ebind (py_float rt v) (\<lambda>glucose. Inr (Some (dt, glucose)))))
                [ValueError]
                (Inr None))"

text \<open>\<open>_parse_timestamp\<close>: the formats in their fixed order, then \<open>ValueError\<close>.\<close>

fun try_formats :: "pyrt \<Rightarrow> pyval \<Rightarrow> string list \<Rightarrow> pyerr + date" where
  "try_formats rt ts [] = Inl ValueError"
| "try_formats rt ts (fmt # fmts) =
     try_except (py_strptime rt ts fmt) [ValueError] (try_formats rt ts fmts)"

definition parse_timestamp :: "pyrt \<Rightarrow> pyval \<Rightarrow> pyerr + date" where
  "parse_timestamp rt ts =
     try_formats rt ts
       [''%d-%m-%Y %H:%M:%S'', ''%Y-%m-%d %H:%M:%S'', ''%Y-%m-%dT%H:%M:%S'',
        ''%m/%d/%Y %H:%M:%S'']"

definition glucose_csv_sample :: "pyrt \<Rightarrow> pydict \<Rightarrow> pyerr + (date \<times> real) option" where
  "glucose_csv_sample rt row =
     (let ts = py_or (py_or (dict_get row ''timestamp'' PNone) (dict_get row ''ts'' PNone))
                 (dict_get row ''time'' PNone);
          v = py_or (dict_get row ''value'' PNone) (dict_get row ''glucose'' PNone)
      in if \<not> truthy ts \<or> \<not> truthy v then Inr None
         else try_except
                (ebind (parse_timestamp rt ts) (\<lambda>dt.
                 ebind (py_float rt v) (\<lambda>glucose. Inr (Some (dt, glucose)))))
                [ValueError, TypeError]
                (Inr None))"

fun group_samples ::
    "(pydict \<Rightarrow> pyerr + (date \<times> real) option) \<Rightarrow> pydict list \<Rightarrow> (date \<times> real list) list \<Rightarrow>
     pyerr + (date \<times> real list) list" where
  "group_samples sample [] result = Inr result"
| "group_samples sample (row # rows) result =
     (case sample row of
        Inl e \<Rightarrow> Inl e
      | Inr None \<Rightarrow> group_samples sample rows result
      | Inr (Some (d, glucose)) \<Rightarrow> group_samples sample rows (append_to d glucose result))"

definition ohio_load_glucose_data ::
    "pyrt \<Rightarrow> ohio_files \<Rightarrow> pyerr + (date \<times> real list) list" where
  "ohio_load_glucose_data rt fs =
     ebind (case oh_xml fs of
              Some (Parsed doc) \<Rightarrow> group_samples (glucose_xml_sample rt) (glucose_level doc) []
            | _ \<Rightarrow> Inr []) (\<lambda>result.
       case oh_glucose_csv fs of
         Some rows \<Rightarrow> group_samples (glucose_csv_sample rt) rows result
       | None \<Rightarrow> Inr result)"

text \<open>
  \<open>result[dt.date()][field] += float(value)\<close> on a \<open>defaultdict\<close>: the entry of the day
  is looked up, and so created, before \<open>float(value)\<close> is evaluated. An entry is the
  pair of the two totals of its dictionary.
\<close>

definition entry_of :: "('k \<times> real \<times> real) list \<Rightarrow> 'k \<Rightarrow> real \<times> real" where
  "entry_of d k = (case map_of d k of None \<Rightarrow> (0, 0) | Some e \<Rightarrow> e)"

fun add_doses ::
    "pyrt \<Rightarrow> string \<Rightarrow> bool \<Rightarrow> pydict list \<Rightarrow> (date \<times> real \<times> real) list \<Rightarrow>
     pyerr + (date \<times> real \<times> real) list" where
  "add_doses rt attr first [] result = Inr result"
| "add_doses rt attr first (event # events) result =
     (let ts = dict_get event ''ts'' PNone; v = dict_get event attr PNone
      in if \<not> truthy ts \<or> \<not> truthy v then add_doses rt attr first events result
         else case py_strptime rt ts ''%d-%m-%Y %H:%M:%S'' of
             Inl e \<Rightarrow> if e = ValueError then add_doses rt attr first events result else Inl e
           | Inr d \<Rightarrow>
               (let result1 = touch d (0, 0) result
                in case py_float rt v of
                     Inl e \<Rightarrow> if e = ValueError then add_doses rt attr first events result1 else Inl e
                   | Inr x \<Rightarrow>
                       add_doses rt attr first events
                         (dict_set d
                            (if first then (fst (entry_of result1 d) + x, snd (entry_of result1 d))
                             else (fst (entry_of result1 d), snd (entry_of result1 d) + x))
                            result1)))"

definition ohio_load_insulin_data ::
    "pyrt \<Rightarrow> ohio_files \<Rightarrow> pyerr + (date \<times> real \<times> real) list" where
  "ohio_load_insulin_data rt fs =
     (case oh_xml fs of
        Some (Parsed doc) \<Rightarrow>
          ebind (add_doses rt ''dose'' True (bolus doc) []) (\<lambda>result.
            add_doses rt ''value'' False (basal doc) result)
      | _ \<Rightarrow> Inr [])"

text \<open>The entries of \<open>_load_meal_data\<close> are pairs (carbs, meals).\<close>

fun add_meals ::
    "pyrt \<Rightarrow> pydict list \<Rightarrow> (date \<times> real \<times> real) list \<Rightarrow> pyerr + (date \<times> real \<times> real) list" where
  "add_meals rt [] result = Inr result"
| "add_meals rt (event # events) result =
     (let ts = dict_get event ''ts'' PNone; carbs = dict_get event ''carbs'' PNone
      in if \<not> truthy ts then add_meals rt events result
         else case py_strptime rt ts ''%d-%m-%Y %H:%M:%S'' of
             Inl e \<Rightarrow> if e = ValueError then add_meals rt events result else Inl e
           | Inr d \<Rightarrow>
               (let result1 = touch d (0, 0) result;
                    result2 = dict_set d (fst (entry_of result1 d), snd (entry_of result1 d) + 1) result1
                in if truthy carbs
                   then (case py_float rt carbs of
                           Inl e \<Rightarrow> if e = ValueError then add_meals rt events result2 else Inl e
                         | Inr x \<Rightarrow>
                             add_meals rt events
                               (dict_set d (fst (entry_of result2 d) + x, snd (entry_of result2 d)) result2))
                   else add_meals rt events result2))"

definition ohio_load_meal_data ::
    "pyrt \<Rightarrow> ohio_files \<Rightarrow> pyerr + (date \<times> real \<times> real) list" where
  "ohio_load_meal_data rt fs =
     (case oh_xml fs of
        Some (Parsed doc) \<Rightarrow> add_meals rt (meal doc) []
      | _ \<Rightarrow> Inr [])"

text \<open>The glucose metrics of one day, from the raw samples of the day.\<close>

definition glucose_avg :: "real list \<Rightarrow> real" where
  "glucose_avg glucose_values = sum_list glucose_values / real (length glucose_values)"

definition glucose_std :: "real list \<Rightarrow> real" where
  "glucose_std glucose_values =
     (let mean = glucose_avg glucose_values;
          variance = sum_list (map (\<lambda>x. (x - mean) ^ 2) glucose_values)
                       / real (length glucose_values)
      in sqrt variance)"

definition time_in_range :: "real list \<Rightarrow> real" where
  "time_in_range glucose_values =
     (let in_range = sum_list (map (\<lambda>x. 1) (filter (\<lambda>x. 70 \<le> x \<and> x \<le> 180) glucose_values))
      in (real_of_int in_range / real (length glucose_values)) * 100)"

definition glucose_metrics :: "real list \<Rightarrow> pydict \<Rightarrow> pyerr + pydict" where
  "glucose_metrics glucose_values record =
     (if glucose_values \<noteq> []
      then (let r1 = dict_set ''glucose_avg'' (PFloat (glucose_avg glucose_values)) record
            in ebind (py_min glucose_values) (\<lambda>lo.
               let r2 = dict_set ''glucose_min'' (PFloat lo) r1
               in ebind (py_max glucose_values) (\<lambda>hi.
                  let r3 = dict_set ''glucose_max'' (PFloat hi) r2;
                      r4 = dict_set ''glucose_std'' (PFloat (glucose_std glucose_values)) r3
                  in Inr (dict_set ''time_in_range'' (PFloat (time_in_range glucose_values)) r4))))
      else Inr record)"

definition ohio_record ::
    "(date \<times> real list) list \<Rightarrow> (date \<times> real \<times> real) list \<Rightarrow> date \<Rightarrow> pyerr + pydict" where
  "ohio_record glucose_by_day insulin_by_day record_date =
     ebind (case map_of glucose_by_day record_date of
              None \<Rightarrow> Inr (create_empty_record record_date)
            | Some glucose_values \<Rightarrow>
                glucose_metrics glucose_values (create_empty_record record_date)) (\<lambda>record.
       Inr (case map_of insulin_by_day record_date of
              None \<Rightarrow> record
            | Some ins \<Rightarrow> dict_set ''readiness_score'' PNone record))"

text \<open>A \<open>for\<close> loop that appends one record per day and stops at the first exception.\<close>

fun build_records :: "(date \<Rightarrow> pyerr + pydict) \<Rightarrow> date list \<Rightarrow> pyerr + pydict list" where
  "build_records build [] = Inr []"
| "build_records build (d # ds) =
     (case build d of
        Inl e \<Rightarrow> Inl e
      | Inr record \<Rightarrow>
          (case build_records build ds of
             Inl e \<Rightarrow> Inl e
           | Inr records \<Rightarrow> Inr (record # records)))"

definition ohio_load_health_data :: "pyrt \<Rightarrow> ohio_files \<Rightarrow> pyerr + pydict list" where
  "ohio_load_health_data rt fs =
     (if \<not> oh_available fs then Inr []
      else
        ebind (ohio_load_glucose_data rt fs) (\<lambda>glucose_by_day.
        ebind (ohio_load_insulin_data rt fs) (\<lambda>insulin_by_day.
        ebind (ohio_load_meal_data rt fs) (\<lambda>meals_by_day.
        build_records (ohio_record glucose_by_day insulin_by_day)
          (sorted_dates (keys glucose_by_day @ keys insulin_by_day @ keys meals_by_day))))))"

section \<open>NSRR MESA adapter (sleep/nsrr_mesa.py)\<close>

text \<open>
  What the adapter finds on disk: the answer of \<open>is_available()\<close>, the rows of the file
  that \<open>_find_file("sleep") or _find_file("psg")\<close> returns, and the rows of the file
  that \<open>_find_file("actigraphy") or _find_file("acti")\<close> returns.
\<close>

record mesa_files =
  ms_available :: bool
  ms_sleep :: "pydict list option"
  ms_actigraphy :: "pydict list option"

text \<open>\<open>date(2012, 1, 1)\<close> and \<open>date.max\<close> as ordinals; \<open>d + timedelta(days=n)\<close>.\<close>

definition reference_date :: date where
  "reference_date = 734503"

definition date_max :: date where
  "date_max = 3652059"

definition date_plus_days :: "date \<Rightarrow> nat \<Rightarrow> pyerr + date" where
  "date_plus_days d n = (if d + int n \<le> date_max then Inr (d + int n) else Inl OverflowError)"

definition mesa_subj_id :: "pydict \<Rightarrow> pyval" where
  "mesa_subj_id row =
     py_or (py_or (dict_get row ''mesaid'' PNone) (dict_get row ''nsrrid'' PNone)) (PStr [])"

text \<open>\<open>if x: record[k] = x / 60\<close> and \<open>if eff: record[k] = int(min(100, eff))\<close>.\<close>

definition set_hours :: "string \<Rightarrow> real option \<Rightarrow> pydict \<Rightarrow> pydict" where
  "set_hours k x record = (if nonzero x then dict_set k (PFloat (the x / 60)) record else record)"

definition set_score :: "real option \<Rightarrow> pydict \<Rightarrow> pydict" where
  "set_score eff record =
     (if nonzero eff
      then dict_set ''sleep_score'' (PInt (if the eff < 100 then trunc (the eff) else 100)) record
      else record)"

text \<open>\<open>x or 0\<close> for an optional float.\<close>

definition or_zero :: "real option \<Rightarrow> real" where
  "or_zero x = (if nonzero x then the x else 0)"

definition psg_record :: "pyrt \<Rightarrow> pydict \<Rightarrow> pyerr + pydict" where
  "psg_record rt row =
     (let record = create_empty_record reference_date
      in ebind (safe_float rt (dict_get row ''slpprdp'' PNone)) (\<lambda>tst.
         let record = set_hours ''sleep_duration'' tst record
         in ebind (safe_float rt (dict_get row ''slpeffp'' PNone)) (\<lambda>eff.
         let record = set_score eff record
         in ebind (safe_float rt (dict_get row ''timest3p'' PNone)) (\<lambda>n3.
         let record = set_hours ''deep_sleep'' n3 record
         in ebind (safe_float rt (dict_get row ''timeremp'' PNone)) (\<lambda>rem.
         let record = set_hours ''rem_sleep'' rem record
         in ebind (safe_float rt (dict_get row ''timest1p'' PNone)) (\<lambda>n1_raw.
         ebind (safe_float rt (dict_get row ''timest2p'' PNone)) (\<lambda>n2_raw.
         let n1 = or_zero n1_raw; n2 = or_zero n2_raw;
             record = (if n1 \<noteq> 0 \<or> n2 \<noteq> 0
                       then dict_set ''light_sleep'' (PFloat ((n1 + n2) / 60)) record
                       else record)
         in ebind (safe_float rt (dict_get row ''waso'' PNone)) (\<lambda>waso.
         Inr (set_hours ''awake_time'' waso record)))))))))"

text \<open>\<open>_load_psg_data\<close>: the record of the first row of the subject, or \<open>None\<close>.\<close>

fun psg_rows :: "pyrt \<Rightarrow> string \<Rightarrow> pydict list \<Rightarrow> pyerr + pydict option" where
  "psg_rows rt subject_id [] = Inr None"
| "psg_rows rt subject_id (row # rows) =
     (if mesa_subj_id row \<noteq> PStr subject_id then psg_rows rt subject_id rows
      else ebind (psg_record rt row) (\<lambda>record. Inr (Some record)))"

definition mesa_load_psg_data :: "pyrt \<Rightarrow> mesa_files \<Rightarrow> string \<Rightarrow> pyerr + pydict option" where
  "mesa_load_psg_data rt fs subject_id =
     (case ms_sleep fs of
        None \<Rightarrow> Inr None
      | Some rows \<Rightarrow> psg_rows rt subject_id rows)"

definition actigraphy_record :: "pyrt \<Rightarrow> pydict \<Rightarrow> date \<Rightarrow> pyerr + pydict" where
  "actigraphy_record rt row record_date =
     (let record = create_empty_record record_date
      in ebind (safe_float rt (py_or (dict_get row ''sleepmain'' PNone)
                                 (dict_get row ''sleeptime'' PNone))) (\<lambda>sleep_min.
         let record = set_hours ''sleep_duration'' sleep_min record
         in ebind (safe_float rt (py_or (dict_get row ''efficiency'' PNone)
                                    (dict_get row ''slpeff'' PNone))) (\<lambda>eff.
         let record = set_score eff record
         in ebind (safe_int rt (py_or (dict_get row ''activity'' PNone)
                                  (dict_get row ''actcount'' PNone))) (\<lambda>activity.
         Inr (case activity of
                None \<Rightarrow> record
              | Some a \<Rightarrow> if a \<noteq> 0 then dict_set ''steps'' (PInt a) record else record)))))"

fun actigraphy_rows :: "pyrt \<Rightarrow> string \<Rightarrow> pydict list \<Rightarrow> nat \<Rightarrow> pyerr + pydict list" where
  "actigraphy_rows rt subject_id [] day_num = Inr []"
| "actigraphy_rows rt subject_id (row # rows) day_num =
     (if mesa_subj_id row \<noteq> PStr subject_id then actigraphy_rows rt subject_id rows day_num
      else ebind (date_plus_days reference_date day_num) (\<lambda>record_date.
           ebind (actigraphy_record rt row record_date) (\<lambda>record.
           ebind (actigraphy_rows rt subject_id rows (day_num + 1)) (\<lambda>result.
           Inr (record # result)))))"

definition mesa_load_actigraphy_data :: "pyrt \<Rightarrow> mesa_files \<Rightarrow> string \<Rightarrow> pyerr + pydict list" where
  "mesa_load_actigraphy_data rt fs subject_id =
     (case ms_actigraphy fs of
        None \<Rightarrow> Inr []
      | Some rows \<Rightarrow> actigraphy_rows rt subject_id rows 0)"

text \<open>
  The sort key \<open>x['date']\<close>. Every record that the adapter sorts was made by
  \<open>_create_empty_record\<close> and holds a date under \<open>'date'\<close> (lemma \<open>mesa_records\<close>
  below); the last case is never taken.
\<close>

definition date_key :: "pydict \<Rightarrow> date" where
  "date_key record = (case map_of record ''date'' of Some (PDate d) \<Rightarrow> d | _ \<Rightarrow> 0)"

definition mesa_load_health_data :: "pyrt \<Rightarrow> mesa_files \<Rightarrow> string \<Rightarrow> pyerr + pydict list" where
  "mesa_load_health_data rt fs subject_id =
     (if \<not> ms_available fs then Inr []
      else
        ebind (mesa_load_psg_data rt fs subject_id) (\<lambda>psg_data.
        let records = (case psg_data of None \<Rightarrow> [] | Some record \<Rightarrow> [record])
        in ebind (mesa_load_actigraphy_data rt fs subject_id) (\<lambda>actigraphy_data.
           Inr (sort_key date_key (records @ actigraphy_data)))))"

section \<open>NHANES and 1000 Genomes adapters\<close>

definition nhanes_load_health_data :: "string \<Rightarrow> pyerr + pydict list" where
  "nhanes_load_health_data subject_id = Inr []"

definition thousand_genomes_load_health_data :: "string \<Rightarrow> pyerr + pydict list" where
  "thousand_genomes_load_health_data subject_id = Inr []"

section \<open>1000 Genomes ancestry synthesis (genetics/thousand_genomes.py)\<close>

text \<open>
  The two runtime facts behind \<open>random.seed(hash(pop))\<close>: the hash that this Python
  process gives to a string, and the \<open>n\<close>-th value that \<open>random.uniform(-0.05, 0.05)\<close>
  returns after \<open>random.seed(h)\<close>. Seeding resets the generator, so the draws depend on
  the seed alone.
\<close>

record pyrandom =
  py_hash :: "string \<Rightarrow> int"
  py_uniform :: "int \<Rightarrow> nat \<Rightarrow> real"

definition base_compositions :: "(string \<times> (string \<times> real) list) list" where
  "base_compositions =
     [(''AFR'', [(''African'', 0.85), (''European'', 0.10), (''Other'', 0.05)]),
      (''EUR'', [(''European'', 0.90), (''Middle Eastern'', 0.05), (''Other'', 0.05)]),
      (''EAS'', [(''East Asian'', 0.90), (''Southeast Asian'', 0.07), (''Other'', 0.03)]),
      (''SAS'', [(''South Asian'', 0.85), (''Central Asian'', 0.10), (''Other'', 0.05)]),
      (''AMR'', [(''Indigenous American'', 0.40), (''European'', 0.35), (''African'', 0.20),
                 (''Other'', 0.05)])]"

text \<open>\<open>round(x, 1)\<close>: to one decimal, ties to the even neighbour.\<close>

definition round_half_even :: "real \<Rightarrow> int" where
  "round_half_even y =
     (let f = \<lfloor>y\<rfloor>; d = y - real_of_int f
      in if d < 1 / 2 then f else if 1 / 2 < d then f + 1 else if even f then f else f + 1)"

definition round1 :: "real \<Rightarrow> real" where
  "round1 x = real_of_int (round_half_even (x * 10)) / 10"

fun vary :: "pyrandom \<Rightarrow> int \<Rightarrow> (string \<times> real) list \<Rightarrow> nat \<Rightarrow> (string \<times> real) list" where
  "vary rng seed [] n = []"
| "vary rng seed ((region, pct) # items) n =
     (region, (let x = pct + py_uniform rng seed n in if 0 < x then x else 0))
       # vary rng seed items (n + 1)"

definition generate_ancestry_composition ::
    "pyrandom \<Rightarrow> string \<Rightarrow> string \<Rightarrow> pyerr + (string \<times> real) list" where
  "generate_ancestry_composition rng pop super_pop =
     (let composition = (case map_of base_compositions super_pop of
                           Some c \<Rightarrow> c
                         | None \<Rightarrow> [(''Unknown'', 1)]);
          varied = vary rng (py_hash rng pop) composition 0;
          total = sum_list (map snd varied)
      in if total = 0 then Inl ZeroDivisionError
         else Inr (map (\<lambda>rp. (fst rp, round1 (snd rp / total * 100))) varied))"

text \<open>
  Two processes for the examples: their string hashes differ, and the generator gives
  each seed its own draws.
\<close>

definition example_draws :: "int \<Rightarrow> nat \<Rightarrow> real" where
  "example_draws seed n =
     (if seed = 1 then [0.03, - 0.02, 0.01, 0] ! min n 3
      else [- 0.0006, 0.0003, 0.0003, 0] ! min n 3)"

definition first_run :: pyrandom where
  "first_run = \<lparr>py_hash = (\<lambda>s. 1), py_uniform = example_draws\<rparr>"

definition second_run :: pyrandom where
  "second_run = \<lparr>py_hash = (\<lambda>s. 2), py_uniform = example_draws\<rparr>"

section \<open>All adapters\<close>

text \<open>An adapter together with what it finds on disk for the subject asked for.\<close>

datatype dataset =
    FitbitKaggle fitbit_files
  | PMData pmdata_files
  | OhioT1DM ohio_files
  | NSRRMesa mesa_files
  | NHANES
  | ThousandGenomes

fun adapter_load_health_data :: "pyrt \<Rightarrow> dataset \<Rightarrow> string \<Rightarrow> pyerr + pydict list" where
  "adapter_load_health_data rt (FitbitKaggle fs) subject_id = fitbit_load_health_data rt fs subject_id"
| "adapter_load_health_data rt (PMData fs) subject_id = pm_load_health_data rt fs"
| "adapter_load_health_data rt (OhioT1DM fs) subject_id = ohio_load_health_data rt fs"
| "adapter_load_health_data rt (NSRRMesa fs) subject_id = mesa_load_health_data rt fs subject_id"
| "adapter_load_health_data rt NHANES subject_id = nhanes_load_health_data subject_id"
| "adapter_load_health_data rt ThousandGenomes subject_id =
     thousand_genomes_load_health_data subject_id"

text \<open>The dates of a sequence of records, in order.\<close>

definition record_dates :: "pydict list \<Rightarrow> date list" where
  "record_dates records = map date_key records"

section \<open>A runtime and files for the examples\<close>

text \<open>
  A runtime that reads unsigned decimal integers, knows the dates of the examples, and
  raises \<open>TypeError\<close> when values that are not numbers are compared.
\<close>

fun digits_value :: "string \<Rightarrow> nat \<Rightarrow> nat option" where
  "digits_value [] acc = Some acc"
| "digits_value (c # cs) acc =
     (if 48 \<le> (of_char c :: nat) \<and> (of_char c :: nat) \<le> 57
      then digits_value cs (acc * 10 + (of_char c - 48))
      else None)"

definition read_decimal :: "string \<Rightarrow> nat option" where
  "read_decimal s = (if s = [] then None else digits_value s 0)"

definition example_dates :: "((string \<times> string) \<times> date) list" where
  "example_dates =
     [((''4/12/2016'', ''%m/%d/%Y''), 736066),
      ((''4/13/2016'', ''%m/%d/%Y''), 736067),
      ((''12-04-2016 08:00:00'', ''%d-%m-%Y %H:%M:%S''), 736066),
      ((''12-04-2016 08:05:00'', ''%d-%m-%Y %H:%M:%S''), 736066),
      ((''12-04-2016 08:10:00'', ''%d-%m-%Y %H:%M:%S''), 736066),
      ((''12-04-2016 08:15:00'', ''%d-%m-%Y %H:%M:%S''), 736066),
      ((''12-04-2016 08:20:00'', ''%d-%m-%Y %H:%M:%S''), 736066),
      ((''13-04-2016 12:30:00'', ''%d-%m-%Y %H:%M:%S''), 736067),
      ((''2016-04-12'', ''%Y-%m-%d''), 736066),
      ((''2016-04-13'', ''%Y-%m-%d''), 736067)]"

definition example_rt :: pyrt where
  "example_rt =
     \<lparr>rt_float = (\<lambda>s. map_option real (read_decimal s)),
      rt_int = (\<lambda>s. map_option int (read_decimal s)),
      rt_strptime = (\<lambda>s fmt. map_of example_dates (s, fmt)),
      rt_lt = (\<lambda>a b. Inl TypeError),
      rt_sorted = (\<lambda>xs. Inl TypeError)\<rparr>"

text \<open>
  Fitbit files of subject 1503960366: one activity row for 12 April 2016, one sleep row
  for 13 April, and ten heart-rate rows for 12 April. \<open>dirty_activity_row\<close> is the
  activity row with an empty \<open>VeryActiveMinutes\<close> cell.
\<close>

definition clean_activity_row :: pydict where
  "clean_activity_row =
     [(''Id'', PStr ''1503960366''), (''ActivityDate'', PStr ''4/12/2016''),
      (''TotalSteps'', PStr ''13162''), (''TotalDistance'', PStr ''8''),
      (''VeryActiveMinutes'', PStr ''25''), (''FairlyActiveMinutes'', PStr ''13''),
      (''LightlyActiveMinutes'', PStr ''328''), (''SedentaryMinutes'', PStr ''728''),
      (''Calories'', PStr ''1985'')]"

definition dirty_activity_row :: pydict where
  "dirty_activity_row =
     [(''Id'', PStr ''1503960366''), (''ActivityDate'', PStr ''4/12/2016''),
      (''TotalSteps'', PStr ''13162''), (''TotalDistance'', PStr ''8''),
      (''VeryActiveMinutes'', PStr []), (''FairlyActiveMinutes'', PStr ''13''),
      (''LightlyActiveMinutes'', PStr ''328''), (''SedentaryMinutes'', PStr ''728''),
      (''Calories'', PStr ''1985'')]"

definition example_sleep_row :: pydict where
  "example_sleep_row =
     [(''Id'', PStr ''1503960366''), (''SleepDay'', PStr ''4/13/2016 12:00:00 AM''),
      (''TotalSleepRecords'', PStr ''1''), (''TotalMinutesAsleep'', PStr ''420''),
      (''TotalTimeInBed'', PStr ''480'')]"

definition example_hr_row :: "string \<Rightarrow> pydict" where
  "example_hr_row v =
     [(''Id'', PStr ''1503960366''), (''Time'', PStr ''4/12/2016 7:21:00 AM''),
      (''Value'', PStr v)]"

definition example_fitbit :: fitbit_files where
  "example_fitbit =
     \<lparr>fb_available = True,
      fb_activity = Some [clean_activity_row],
      fb_sleep = Some [example_sleep_row],
      fb_heartrate = Some (map example_hr_row
        [''90'', ''50'', ''85'', ''52'', ''80'', ''55'', ''75'', ''60'', ''70'', ''65''])\<rparr>"

definition dirty_fitbit :: fitbit_files where
  "dirty_fitbit =
     \<lparr>fb_available = True, fb_activity = Some [dirty_activity_row],
      fb_sleep = None, fb_heartrate = None\<rparr>"

text \<open>
  The same directory without \<open>dailyActivity_merged.csv\<close>: \<open>is_available()\<close> looks for
  that file alone and answers \<open>False\<close>, while the sleep and the heart-rate file are
  still found.
\<close>

definition hidden_fitbit :: fitbit_files where
  "hidden_fitbit = example_fitbit\<lparr>fb_available := False, fb_activity := None\<rparr>"

definition example_day1 :: pydict where
  "example_day1 =
     [(''date'', PDate 736066),
      (''sleep_duration'', PNone),
      (''sleep_score'', PNone),
      (''deep_sleep'', PNone),
      (''rem_sleep'', PNone),
      (''light_sleep'', PNone),
      (''awake_time'', PNone),
      (''resting_hr'', PInt 52),
      (''hrv'', PNone),
      (''hr_min'', PInt 50),
      (''hr_max'', PInt 90),
      (''steps'', PInt 13162),
      (''active_calories'', PInt 1985),
      (''total_calories'', PInt 1985),
      (''distance_km'', PFloat 8),
      (''floors_climbed'', PNone),
      (''active_minutes'', PInt 366),
      (''sedentary_minutes'', PInt 728),
      (''glucose_avg'', PNone),
      (''glucose_min'', PNone),
      (''glucose_max'', PNone),
      (''glucose_std'', PNone),
      (''time_in_range'', PNone),
      (''readiness_score'', PNone),
      (''stress_score'', PNone),
      (''recovery_score'', PNone)]"

definition example_day2 :: pydict where
  "example_day2 =
     [(''date'', PDate 736067),
      (''sleep_duration'', PFloat 7),
      (''sleep_score'', PInt 96),
      (''deep_sleep'', PNone),
      (''rem_sleep'', PNone),
      (''light_sleep'', PNone),
      (''awake_time'', PNone),
      (''resting_hr'', PNone),
      (''hrv'', PNone),
      (''hr_min'', PNone),
      (''hr_max'', PNone),
      (''steps'', PNone),
      (''active_calories'', PNone),
      (''total_calories'', PNone),
      (''distance_km'', PNone),
      (''floors_climbed'', PNone),
      (''active_minutes'', PNone),
      (''sedentary_minutes'', PNone),
      (''glucose_avg'', PNone),
      (''glucose_min'', PNone),
      (''glucose_max'', PNone),
      (''glucose_std'', PNone),
      (''time_in_range'', PNone),
      (''readiness_score'', PNone),
      (''stress_score'', PNone),
      (''recovery_score'', PNone)]"

text \<open>
  PMData files of one participant: no sleep, steps or calories file, and one heart-rate
  file for 12 April 2016 with ten samples, with the record of that day.
\<close>

definition bpm_record :: "pyval \<Rightarrow> pyval" where
  "bpm_record v =
     PDict [(''dateTime'', PStr ''2016-04-12 07:21:00''),
            (''value'', PDict [(''bpm'', v), (''confidence'', PInt 2)])]"

definition example_pmdata :: pmdata_files where
  "example_pmdata =
     \<lparr>pm_available = True,
      pm_subject_dir = True,
      pm_sleep = Missing,
      pm_heart_rate = Some
        [(''heart_rate-2016-04-12'',
          Some (PList (map (\<lambda>i. bpm_record (PInt i)) [90, 50, 85, 52, 80, 55, 75, 60, 70, 65])))],
      pm_steps = Missing,
      pm_calories = Missing\<rparr>"

definition pm_day1 :: pydict where
  "pm_day1 =
     [(''date'', PDate 736066),
      (''sleep_duration'', PNone),
      (''sleep_score'', PNone),
      (''deep_sleep'', PNone),
      (''rem_sleep'', PNone),
      (''light_sleep'', PNone),
      (''awake_time'', PNone),
      (''resting_hr'', PInt 52),
      (''hrv'', PNone),
      (''hr_min'', PInt 50),
      (''hr_max'', PInt 90),
      (''steps'', PNone),
      (''active_calories'', PNone),
      (''total_calories'', PNone),
      (''distance_km'', PNone),
      (''floors_climbed'', PNone),
      (''active_minutes'', PNone),
      (''sedentary_minutes'', PNone),
      (''glucose_avg'', PNone),
      (''glucose_min'', PNone),
      (''glucose_max'', PNone),
      (''glucose_std'', PNone),
      (''time_in_range'', PNone),
      (''readiness_score'', PNone),
      (''stress_score'', PNone),
      (''recovery_score'', PNone)]"

text \<open>
  OhioT1DM files of one patient: five glucose readings on 12 April 2016 and one meal on
  13 April, with the record of each day.
\<close>

definition glucose_event :: "string \<Rightarrow> string \<Rightarrow> pydict" where
  "glucose_event ts v = [(''ts'', PStr ts), (''value'', PStr v)]"

definition example_ohio :: ohio_files where
  "example_ohio =
     \<lparr>oh_available = True,
      oh_xml = Some (Parsed
        \<lparr>glucose_level =
           [glucose_event ''12-04-2016 08:00:00'' ''90'',
            glucose_event ''12-04-2016 08:05:00'' ''100'',
            glucose_event ''12-04-2016 08:10:00'' ''110'',
            glucose_event ''12-04-2016 08:15:00'' ''120'',
            glucose_event ''12-04-2016 08:20:00'' ''200''],
         bolus = [],
         basal = [],
         meal = [[(''ts'', PStr ''13-04-2016 12:30:00''), (''carbs'', PStr ''45'')]]\<rparr>),
      oh_glucose_csv = None\<rparr>"

definition ohio_day1 :: pydict where
  "ohio_day1 =
     [(''date'', PDate 736066),
      (''sleep_duration'', PNone),
      (''sleep_score'', PNone),
      (''deep_sleep'', PNone),
      (''rem_sleep'', PNone),
      (''light_sleep'', PNone),
      (''awake_time'', PNone),
      (''resting_hr'', PNone),
      (''hrv'', PNone),
      (''hr_min'', PNone),
      (''hr_max'', PNone),
      (''steps'', PNone),
      (''active_calories'', PNone),
      (''total_calories'', PNone),
      (''distance_km'', PNone),
      (''floors_climbed'', PNone),
      (''active_minutes'', PNone),
      (''sedentary_minutes'', PNone),
      (''glucose_avg'', PFloat 124),
      (''glucose_min'', PFloat 90),
      (''glucose_max'', PFloat 200),
      (''glucose_std'', PFloat (sqrt 1544)),
      (''time_in_range'', PFloat 80),
      (''readiness_score'', PNone),
      (''stress_score'', PNone),
      (''recovery_score'', PNone)]"

text \<open>
  The glucose summary of a day as the specification words it: arithmetic mean, minimum,
  maximum, population standard deviation (divisor \<open>N\<close>) and the percentage of samples
  within 70 to 180 inclusive.
\<close>

definition mean :: "real list \<Rightarrow> real" where
  "mean xs = sum_list xs / real (length xs)"

definition population_std :: "real list \<Rightarrow> real" where
  "population_std xs = sqrt ((\<Sum>x\<leftarrow>xs. (x - mean xs)\<^sup>2) / real (length xs))"

definition percent_in_range :: "real list \<Rightarrow> real" where
  "percent_in_range xs =
     real (length (filter (\<lambda>x. 70 \<le> x \<and> x \<le> 180) xs)) / real (length xs) * 100"

definition has_glucose_summary :: "pydict \<Rightarrow> real list \<Rightarrow> bool" where
  "has_glucose_summary record xs \<longleftrightarrow>
     map_of record ''glucose_avg'' = Some (PFloat (mean xs))
     \<and> map_of record ''glucose_min'' = Some (PFloat (Min (set xs)))
     \<and> map_of record ''glucose_max'' = Some (PFloat (Max (set xs)))
     \<and> map_of record ''glucose_std'' = Some (PFloat (population_std xs))
     \<and> map_of record ''time_in_range'' = Some (PFloat (percent_in_range xs))"

text \<open>
  MESA files with one polysomnography row and two actigraphy rows of subject 1, and the
  three records they give.
\<close>

definition example_mesa :: mesa_files where
  "example_mesa =
     \<lparr>ms_available = True,
      ms_sleep = Some [[(''mesaid'', PStr ''1''), (''slpprdp'', PStr ''420'')]],
      ms_actigraphy = Some [[(''mesaid'', PStr ''1''), (''sleepmain'', PStr ''480'')],
                            [(''mesaid'', PStr ''1''), (''sleepmain'', PStr ''360'')]]\<rparr>"

definition mesa_psg_night :: pydict where
  "mesa_psg_night = dict_set ''sleep_duration'' (PFloat 7) (create_empty_record 734503)"

definition mesa_acti_day0 :: pydict where
  "mesa_acti_day0 = dict_set ''sleep_duration'' (PFloat 8) (create_empty_record 734503)"

definition mesa_acti_day1 :: pydict where
  "mesa_acti_day1 = dict_set ''sleep_duration'' (PFloat 6) (create_empty_record 734504)"

section \<open>Tributaries\<close>

text \<open>
  The days seen across the tributaries of an adapter, as the specification words the
  merge: the keys of the three per-day dictionaries that the adapter loads (for MESA the
  dates of the polysomnography record and of the actigraphy records; the two
  cross-sectional adapters have no tributary). \<open>reads_tributaries\<close> says that the
  adapter passes its availability checks and so reads them.
\<close>

fun reads_tributaries :: "dataset \<Rightarrow> bool" where
  "reads_tributaries (FitbitKaggle fs) = fb_available fs"
| "reads_tributaries (PMData fs) = (pm_available fs \<and> pm_subject_dir fs)"
| "reads_tributaries (OhioT1DM fs) = oh_available fs"
| "reads_tributaries (NSRRMesa fs) = ms_available fs"
| "reads_tributaries NHANES = True"
| "reads_tributaries ThousandGenomes = True"

fun tributary_dates :: "pyrt \<Rightarrow> dataset \<Rightarrow> string \<Rightarrow> pyerr + date list" where
  "tributary_dates rt (FitbitKaggle fs) subject_id =
     ebind (fitbit_load_activity_data rt fs subject_id) (\<lambda>a.
     ebind (fitbit_load_sleep_data rt fs subject_id) (\<lambda>s.
     ebind (fitbit_load_heart_rate_data rt fs subject_id) (\<lambda>h.
     Inr (keys a @ keys s @ keys h))))"
| "tributary_dates rt (PMData fs) subject_id =
     ebind (pm_load_sleep_data rt fs) (\<lambda>s.
     ebind (pm_load_hr_data rt fs) (\<lambda>h.
     ebind (pm_load_activity_data rt fs) (\<lambda>a.
     Inr (keys s @ keys h @ keys a))))"
| "tributary_dates rt (OhioT1DM fs) subject_id =
     ebind (ohio_load_glucose_data rt fs) (\<lambda>g.
     ebind (ohio_load_insulin_data rt fs) (\<lambda>i.
     ebind (ohio_load_meal_data rt fs) (\<lambda>m.
     Inr (keys g @ keys i @ keys m))))"
| "tributary_dates rt (NSRRMesa fs) subject_id =
     ebind (mesa_load_psg_data rt fs subject_id) (\<lambda>p.
     ebind (mesa_load_actigraphy_data rt fs subject_id) (\<lambda>a.
     Inr (record_dates (case p of None \<Rightarrow> [] | Some r \<Rightarrow> [r]) @ record_dates a)))"
| "tributary_dates rt NHANES subject_id = Inr []"
| "tributary_dates rt ThousandGenomes subject_id = Inr []"

text \<open>
  A record carries the fields \<open>names\<close> of a tributary: the tributary's values when the
  tributary has the record's day, and \<open>None\<close> otherwise.
\<close>

definition tributary_fields :: "pydict \<Rightarrow> (date \<times> pydict) list \<Rightarrow> string list \<Rightarrow> bool" where
  "tributary_fields r tributary names =
     list_all (\<lambda>k. map_of r k =
        Some (case map_of tributary (date_key r) of
                None \<Rightarrow> PNone
              | Some src \<Rightarrow> dict_get src k PNone)) names"

definition fields_missing :: "pydict \<Rightarrow> string list \<Rightarrow> bool" where
  "fields_missing r names = list_all (\<lambda>k. map_of r k = Some PNone) names"

section \<open>Session state (storage.py)\<close>

text \<open>
  \<open>st.session_state\<close>, restricted to the keys that the data-loading functions read or
  write. \<open>init_storage\<close> sets every data slot to \<open>None\<close>; a slot later holds whatever
  value the loader stored.
\<close>

record session_state =
  health_data :: pyval
  patient_profile :: pyval
  lab_data :: pyval
  genetic_data :: pyval
  workouts :: pyval
  data_loaded :: bool
  active_dataset :: string
  active_subject :: "string option"

definition SYNTHETIC_DATASET_ID :: string where
  "SYNTHETIC_DATASET_ID = ''synthetic''"

definition set_health_data :: "pyval \<Rightarrow> session_state \<Rightarrow> session_state" where
  "set_health_data v s = s\<lparr>health_data := v\<rparr>"

definition set_patient_profile :: "pyval \<Rightarrow> session_state \<Rightarrow> session_state" where
  "set_patient_profile v s = s\<lparr>patient_profile := v\<rparr>"

definition set_lab_data :: "pyval \<Rightarrow> session_state \<Rightarrow> session_state" where
  "set_lab_data v s = s\<lparr>lab_data := v\<rparr>"

definition set_genetic_data :: "pyval \<Rightarrow> session_state \<Rightarrow> session_state" where
  "set_genetic_data v s = s\<lparr>genetic_data := v\<rparr>"

definition set_workouts :: "pyval \<Rightarrow> session_state \<Rightarrow> session_state" where
  "set_workouts v s = s\<lparr>workouts := v\<rparr>"

definition mark_data_loaded :: "session_state \<Rightarrow> session_state" where
  "mark_data_loaded s = s\<lparr>data_loaded := True\<rparr>"

text \<open>\<open>clear_all_data\<close> assigns exactly four keys, in the source's order.\<close>

definition clear_all_data :: "session_state \<Rightarrow> session_state" where
  "clear_all_data s =
     s\<lparr>health_data := PNone, lab_data := PNone, patient_profile := PNone,
       data_loaded := False\<rparr>"

definition set_active_dataset :: "string \<Rightarrow> session_state \<Rightarrow> session_state" where
  "set_active_dataset dataset_id s = clear_all_data (s\<lparr>active_dataset := dataset_id\<rparr>)"

definition set_active_subject :: "string option \<Rightarrow> session_state \<Rightarrow> session_state" where
  "set_active_subject subject_id s = clear_all_data (s\<lparr>active_subject := subject_id\<rparr>)"

subsection \<open>The adapter interface and the orchestrated load\<close>

text \<open>
  \<open>Subject\<close> of base.py. The field \<open>id\<close> is named \<open>id_subject\<close> here, since \<open>id\<close> is
  the identity function of HOL.
\<close>

record subject =
  id_subject :: string
  display_name :: string
  date_range :: "string option"
  record_count :: int
  metadata :: pydict

text \<open>
  What \<open>load_dataset_data\<close> sees of an adapter: the outcome of each method it calls,
  a returned value or a raised exception. The adapters only read the file system, so
  their outcomes do not depend on the session state.
\<close>

record adapter =
  is_available :: "pyerr + bool"
  list_subjects :: "pyerr + subject list"
  load_health_data :: "string \<Rightarrow> pyerr + pyval"
  load_lab_data :: "string \<Rightarrow> pyerr + pyval"
  load_genetic_data :: "string \<Rightarrow> pyerr + pyval"
  load_workouts :: "string \<Rightarrow> pyerr + pyval"
  get_subject_profile :: "string \<Rightarrow> pyerr + pyval"

text \<open>
  The output of the synthetic generators (external collaborators): the patient object
  with its three data attributes, and the dictionary that \<open>_load_synthetic_data\<close>
  builds from the genetic profile.
\<close>

record synthetic =
  syn_patient :: pyval
  syn_health_data :: pyval
  syn_lab_data :: pyval
  syn_genetic :: pyval
  syn_workouts :: pyval

definition load_synthetic_data :: "synthetic \<Rightarrow> session_state \<Rightarrow> (pyerr + bool) \<times> session_state" where
  "load_synthetic_data g s =
     (Inr True,
      mark_data_loaded
        (set_workouts (syn_workouts g)
          (set_genetic_data (syn_genetic g)
            (set_lab_data (syn_lab_data g)
              (set_health_data (syn_health_data g)
                (set_patient_profile (syn_patient g) s))))))"

text \<open>
  One optional pull of \<open>load_dataset_data\<close>: \<open>x = adapter.load_x(subject_id)\<close>, then
  \<open>if x: set_x(x)\<close>. An exception leaves the state as it is at that point.
\<close>

definition pull :: "(pyerr + pyval) \<Rightarrow> (pyval \<Rightarrow> session_state \<Rightarrow> session_state) \<Rightarrow>
    session_state \<Rightarrow> pyerr + session_state" where
  "pull r setter s =
     (case r of Inl e \<Rightarrow> Inl e
      | Inr v \<Rightarrow> Inr (if truthy v then setter v s else s))"

text \<open>
  \<open>load_dataset_data\<close>. The first argument is \<open>registry.get\<close> after
  \<open>register_all_adapters()\<close>. The result pairs the outcome (the returned flag or the
  exception that escapes) with the session state at that moment.
\<close>

definition load_from_adapter :: "adapter \<Rightarrow> string \<Rightarrow> session_state \<Rightarrow> (pyerr + bool) \<times> session_state" where
  "load_from_adapter a subject_id s =
     (case pull (load_health_data a subject_id) set_health_data s of
        Inl e \<Rightarrow> (Inl e, s)
      | Inr s1 \<Rightarrow>
     (case pull (load_lab_data a subject_id) set_lab_data s1 of
        Inl e \<Rightarrow> (Inl e, s1)
      | Inr s2 \<Rightarrow>
     (case pull (load_genetic_data a subject_id) set_genetic_data s2 of
        Inl e \<Rightarrow> (Inl e, s2)
      | Inr s3 \<Rightarrow>
     (case pull (load_workouts a subject_id) set_workouts s3 of
        Inl e \<Rightarrow> (Inl e, s3)
      | Inr s4 \<Rightarrow>
     (case pull (get_subject_profile a subject_id) set_patient_profile s4 of
        Inl e \<Rightarrow> (Inl e, s4)
      | Inr s5 \<Rightarrow> (Inr True, mark_data_loaded s5))))))"

definition load_dataset_data ::
    "(string \<Rightarrow> adapter option) \<Rightarrow> synthetic \<Rightarrow> string \<Rightarrow> string option \<Rightarrow>
     session_state \<Rightarrow> (pyerr + bool) \<times> session_state" where
  "load_dataset_data registry_get g dataset_id subject_id s =
     (if dataset_id = SYNTHETIC_DATASET_ID then load_synthetic_data g s
      else case registry_get dataset_id of
        None \<Rightarrow> (Inr False, s)
      | Some a \<Rightarrow>
          (case is_available a of
             Inl e \<Rightarrow> (Inl e, s)
           | Inr avail \<Rightarrow>
               if \<not> avail then (Inr False, s)
               else (case subject_id of
                  Some sid \<Rightarrow> load_from_adapter a sid s
                | None \<Rightarrow>
                    (case list_subjects a of
                       Inl e \<Rightarrow> (Inl e, s)
                     | Inr subjects \<Rightarrow>
                         (case subjects of
                            [] \<Rightarrow> (Inr False, s)
                          | sub # _ \<Rightarrow> load_from_adapter a (id_subject sub) s)))))"

text \<open>A session in which a full load has happened, and an adapter for the examples.\<close>

definition loaded_session :: session_state where
  "loaded_session =
     \<lparr>health_data = PList [PDict [(''date'', PDate 734503), (''steps'', PInt 9000)]],
      patient_profile = PDict [(''sex'', PStr ''female'')],
      lab_data = PList [PDict [(''name'', PStr ''glucose''), (''value'', PFloat 92)]],
      genetic_data = PDict [(''population'', PStr ''CEU'')],
      workouts = PList [PDict [(''type'', PStr ''run'')]],
      data_loaded = True,
      active_dataset = ''synthetic'',
      active_subject = None\<rparr>"

definition absent_adapter :: adapter where
  "absent_adapter =
     \<lparr>is_available = Inr False, list_subjects = Inr [],
      load_health_data = (\<lambda>_. Inr (PList [])), load_lab_data = (\<lambda>_. Inr PNone),
      load_genetic_data = (\<lambda>_. Inr PNone), load_workouts = (\<lambda>_. Inr PNone),
      get_subject_profile = (\<lambda>_. Inr PNone)\<rparr>"

definition example_registry :: "string \<Rightarrow> adapter option" where
  "example_registry d =
     (if d = ''nhanes'' then Some absent_adapter
      else if d = ''pmdata'' then Some (absent_adapter\<lparr>is_available := Inr True\<rparr>)
      else None)"

definition example_synthetic :: synthetic where
  "example_synthetic =
     \<lparr>syn_patient = PNone, syn_health_data = PList [], syn_lab_data = PList [],
      syn_genetic = PDict [], syn_workouts = PList []\<rparr>"

section \<open>Switching dataset or subject\<close>

lemma clear_all_data_slots:
  "health_data (clear_all_data s) = PNone"
  "lab_data (clear_all_data s) = PNone"
  "patient_profile (clear_all_data s) = PNone"
  "data_loaded (clear_all_data s) = False"
  "genetic_data (clear_all_data s) = genetic_data s"
  "workouts (clear_all_data s) = workouts s"
  by (simp_all add: clear_all_data_def)

text \<open>
  C1. Switching the active dataset or the active subject should clear every data slot.
  The setters call \<open>clear_all_data\<close>, which resets the health data, the lab data, the
  profile and the loaded flag, and leaves the genetic data and the workouts of the
  previous selection in place: on a session with all slots loaded, both survive the
  switch.
\<close>

theorem switch_keeps_genetic_data_and_workouts:
  "genetic_data (set_active_dataset ''pmdata'' loaded_session) = PDict [(''population'', PStr ''CEU'')]
   \<and> workouts (set_active_dataset ''pmdata'' loaded_session) = PList [PDict [(''type'', PStr ''run'')]]
   \<and> genetic_data (set_active_subject (Some ''p01'') loaded_session) = PDict [(''population'', PStr ''CEU'')]
   \<and> workouts (set_active_subject (Some ''p01'') loaded_session) = PList [PDict [(''type'', PStr ''run'')]]
   \<and> health_data (set_active_dataset ''pmdata'' loaded_session) = PNone
   \<and> lab_data (set_active_dataset ''pmdata'' loaded_session) = PNone
   \<and> patient_profile (set_active_dataset ''pmdata'' loaded_session) = PNone
   \<and> data_loaded (set_active_dataset ''pmdata'' loaded_session) = False"
  by (simp add: set_active_dataset_def set_active_subject_def clear_all_data_def
      loaded_session_def)

section \<open>Failure of the orchestrated load\<close>

text \<open>
  C9. For a dataset id other than the synthetic one, when the registry has no adapter
  for the id, or the adapter reports that it is not available, or no subject id is given
  and the adapter lists no subjects, \<open>load_dataset_data\<close> returns \<open>False\<close>, raises
  nothing, and leaves the session state as it was.
\<close>

theorem load_dataset_data_failure:
  assumes "dataset_id \<noteq> SYNTHETIC_DATASET_ID"
    and "registry_get dataset_id = None
         \<or> (\<exists>a. registry_get dataset_id = Some a
              \<and> (is_available a = Inr False
                 \<or> (is_available a = Inr True \<and> subject_id = None \<and> list_subjects a = Inr [])))"
  shows "load_dataset_data registry_get g dataset_id subject_id s = (Inr False, s)"
  using assms by (auto simp: load_dataset_data_def)

theorem load_dataset_data_failure_witness:
  "load_dataset_data example_registry example_synthetic ''ohio_t1dm'' None loaded_session
     = (Inr False, loaded_session)
   \<and> load_dataset_data example_registry example_synthetic ''nhanes'' (Some ''93703'') loaded_session
     = (Inr False, loaded_session)
   \<and> load_dataset_data example_registry example_synthetic ''pmdata'' None loaded_session
     = (Inr False, loaded_session)"
proof -
  have syn: "\<And>d. d \<in> {''ohio_t1dm'', ''nhanes'', ''pmdata''} \<Longrightarrow> d \<noteq> SYNTHETIC_DATASET_ID"
    by (auto simp: SYNTHETIC_DATASET_ID_def)
  have a: "example_registry ''ohio_t1dm'' = None"
    by (simp add: example_registry_def)
  have b: "example_registry ''nhanes'' = Some absent_adapter \<and> is_available absent_adapter = Inr False"
    by (simp add: example_registry_def absent_adapter_def)
  have c: "example_registry ''pmdata'' = Some (absent_adapter\<lparr>is_available := Inr True\<rparr>)
      \<and> is_available (absent_adapter\<lparr>is_available := Inr True\<rparr>) = Inr True
      \<and> list_subjects (absent_adapter\<lparr>is_available := Inr True\<rparr>) = Inr []"
    by (simp add: example_registry_def absent_adapter_def)
  show ?thesis
    using load_dataset_data_failure [of "''ohio_t1dm''" example_registry None example_synthetic loaded_session]
      load_dataset_data_failure [of "''nhanes''" example_registry "Some ''93703''" example_synthetic loaded_session]
      load_dataset_data_failure [of "''pmdata''" example_registry None example_synthetic loaded_session]
      syn a b c
    by simp
qed

section \<open>Dictionaries and exceptions\<close>

lemma map_of_dict_set: "map_of (dict_set k v d) = (map_of d)(k \<mapsto> v)"
  by (simp add: dict_set_def update_conv')

lemma keys_dict_set_mem: "k \<in> set (keys d) \<Longrightarrow> keys (dict_set k v d) = keys d"
  by (simp add: dict_set_def keys_def update_keys)

lemma set_keys_dict_set: "set (keys (dict_set k v d)) = insert k (set (keys d))"
  by (auto simp: dict_set_def keys_def update_keys)

lemma keys_fold_set:
  "set ks \<subseteq> set (keys r) \<Longrightarrow> keys (fold (\<lambda>k r. dict_set k (f k) r) ks r) = keys r"
  by (induction ks arbitrary: r) (simp_all add: keys_dict_set_mem)

lemma map_of_fold_set_other:
  "k \<notin> set ks \<Longrightarrow> map_of (fold (\<lambda>k r. dict_set k (f k) r) ks r) k = map_of r k"
  by (induction ks arbitrary: r) (simp_all add: map_of_dict_set)

lemma map_of_fold_set_in:
  "k \<in> set ks \<Longrightarrow> map_of (fold (\<lambda>k r. dict_set k (f k) r) ks r) k = Some (f k)"
proof (induction ks arbitrary: r)
  case Nil
  then show ?case by simp
next
  case (Cons a ks)
  show ?case
  proof (cases "k \<in> set ks")
    case True
    then show ?thesis using Cons.IH by simp
  next
    case False
    with Cons.prems have "a = k" by simp
    with False show ?thesis by (simp add: map_of_fold_set_other map_of_dict_set)
  qed
qed

lemma keys_overlay: "set ks \<subseteq> set (keys r) \<Longrightarrow> keys (overlay t d ks r) = keys r"
  by (simp add: overlay_def keys_fold_set split: option.splits)

lemma map_of_overlay_other:
  "k \<notin> set ks \<Longrightarrow> map_of (overlay t d ks r) k = map_of r k"
  by (simp add: overlay_def map_of_fold_set_other split: option.splits)

lemma map_of_overlay_in:
  "k \<in> set ks \<Longrightarrow> map_of (overlay t d ks r) k =
     (case map_of t d of None \<Rightarrow> map_of r k | Some src \<Rightarrow> Some (dict_get src k PNone))"
  by (simp add: overlay_def map_of_fold_set_in split: option.splits)

lemma keys_create_empty_record: "keys (create_empty_record d) = canonical_fields"
  by (simp add: keys_def create_empty_record_def canonical_fields_def)

lemma ebind_Inr: "ebind m f = Inr y \<longleftrightarrow> (\<exists>x. m = Inr x \<and> f x = Inr y)"
  by (cases m) (simp_all add: ebind_def)

lemma ebind_simps: "ebind (Inr x) f = f x" "ebind (Inl e) f = Inl e"
  by (simp_all add: ebind_def)

lemma sorted_dates_props:
  "sorted (sorted_dates ds)" "distinct (sorted_dates ds)" "set (sorted_dates ds) = set ds"
  by (simp_all add: sorted_dates_def)

section \<open>The example runtime\<close>

lemma safe_int_empty: "safe_int rt (PStr []) = Inr None"
  by (simp add: safe_int_def)

lemma safe_int_example:
  "read_decimal s = Some n \<Longrightarrow> s \<noteq> [] \<Longrightarrow> safe_int example_rt (PStr s) = Inr (Some (int n))"
  by (simp add: safe_int_def example_rt_def ebind_def try_except_def trunc_def)

lemma safe_float_example:
  "read_decimal s = Some n \<Longrightarrow> s \<noteq> [] \<Longrightarrow> safe_float example_rt (PStr s) = Inr (Some (real n))"
  by (simp add: safe_float_def example_rt_def ebind_def try_except_def)

lemma py_int_example: "read_decimal s = Some n \<Longrightarrow> py_int example_rt (PStr s) = Inr (int n)"
  by (simp add: example_rt_def)

lemma py_split_example:
  "py_split ''4/13/2016 12:00:00 AM'' = [''4/13/2016'', ''12:00:00'', ''AM'']"
  "py_split ''4/12/2016 7:21:00 AM'' = [''4/12/2016'', ''7:21:00'', ''AM'']"
  by (simp_all add: py_split_def is_space_def)

section \<open>Fitbit Kaggle adapter: the records of a load\<close>

lemma keys_fitbit_record: "keys (fitbit_record a s h d) = canonical_fields"
  unfolding fitbit_record_def
  by (simp add: keys_overlay keys_create_empty_record canonical_fields_def)

lemma date_fitbit_record: "map_of (fitbit_record a s h d) ''date'' = Some (PDate d)"
  unfolding fitbit_record_def
  by (simp add: map_of_overlay_other create_empty_record_def)

lemma calories_fitbit_record:
  "map_of (fitbit_record a s h d) ''active_calories'' =
     (case map_of a d of None \<Rightarrow> Some PNone
      | Some src \<Rightarrow> Some (dict_get src ''active_calories'' PNone))"
  "map_of (fitbit_record a s h d) ''total_calories'' =
     (case map_of a d of None \<Rightarrow> Some PNone
      | Some src \<Rightarrow> Some (dict_get src ''total_calories'' PNone))"
  unfolding fitbit_record_def
  by (simp_all add: map_of_overlay_other map_of_overlay_in create_empty_record_def
      split: option.splits)

lemma date_key_fitbit_record: "date_key (fitbit_record a s h d) = d"
  by (simp add: date_key_def date_fitbit_record)

lemma record_dates_fitbit: "record_dates (map (fitbit_record a s h) ds) = ds"
  by (simp add: record_dates_def date_key_fitbit_record comp_def)

lemma fitbit_load_health_data_Inr:
  "fitbit_load_health_data rt fs sid = Inr records \<longleftrightarrow>
     (\<not> fb_available fs \<and> records = []) \<or>
     (fb_available fs \<and> (\<exists>a s h. fitbit_load_activity_data rt fs sid = Inr a
        \<and> fitbit_load_sleep_data rt fs sid = Inr s
        \<and> fitbit_load_heart_rate_data rt fs sid = Inr h
        \<and> records = map (fitbit_record a s h) (sorted_dates (keys a @ keys s @ keys h))))"
  by (auto simp: fitbit_load_health_data_def ebind_Inr)

lemma activity_entry_calories:
  "activity_entry rt row = Inr e \<Longrightarrow>
     dict_get e ''active_calories'' PNone = dict_get e ''total_calories'' PNone"
  by (auto simp: activity_entry_def ebind_Inr dict_get_def)

text \<open>A property of every entry that the activity loop stores holds of every entry of its result.\<close>

lemma load_activity_rows_inv:
  assumes "load_activity_rows rt sid rows result = Inr res"
    and "\<And>d e. map_of result d = Some e \<Longrightarrow> P e"
    and "\<And>row e. activity_entry rt row = Inr e \<Longrightarrow> P e"
    and "map_of res d = Some e"
  shows "P e"
  using assms
proof (induction rows arbitrary: result)
  case Nil
  then show ?case by simp
next
  case (Cons row rows)
  show ?case
  proof (cases "dict_get row ''Id'' PNone \<noteq> PStr sid")
    case True
    with Cons show ?thesis by simp
  next
    case False
    show ?thesis
    proof (cases "activity_date rt row")
      case (Inl err)
      with False Cons.prems(1) show ?thesis by simp
    next
      case (Inr od)
      show ?thesis
      proof (cases od)
        case None
        with Inr False Cons show ?thesis by simp
      next
        case (Some rd)
        show ?thesis
        proof (cases "activity_entry rt row")
          case (Inl err)
          with Some Inr False Cons.prems(1) show ?thesis by simp
        next
          case (Inr entry)
          have step: "load_activity_rows rt sid rows (dict_set rd entry result) = Inr res"
            using Cons.prems(1) False \<open>activity_date rt row = Inr od\<close> Some Inr by simp
          have "\<And>d e. map_of (dict_set rd entry result) d = Some e \<Longrightarrow> P e"
            using Cons.prems(2) Cons.prems(3)[OF Inr]
            by (auto simp: map_of_dict_set split: if_splits)
          from Cons.IH[OF step this Cons.prems(3) Cons.prems(4)] show ?thesis .
        qed
      qed
    qed
  qed
qed

subsection \<open>The example files\<close>

lemma example_activity:
  "fitbit_load_activity_data example_rt example_fitbit ''1503960366'' =
     Inr [(736066, [(''steps'', PInt 13162), (''distance_km'', PFloat 8),
        (''active_calories'', PInt 1985), (''total_calories'', PInt 1985),
        (''active_minutes'', PInt 366), (''sedentary_minutes'', PInt 728)])]"
proof -
  have id: "dict_get clean_activity_row ''Id'' PNone = PStr ''1503960366''"
    by (simp add: clean_activity_row_def dict_get_def)
  have d: "activity_date example_rt clean_activity_row = Inr (Some 736066)"
    by (simp add: activity_date_def clean_activity_row_def dict_index_def ebind_def
        try_except_def example_rt_def example_dates_def)
  have e: "activity_entry example_rt clean_activity_row =
     Inr [(''steps'', PInt 13162), (''distance_km'', PFloat 8),
        (''active_calories'', PInt 1985), (''total_calories'', PInt 1985),
        (''active_minutes'', PInt 366), (''sedentary_minutes'', PInt 728)]"
    by (simp add: activity_entry_def clean_activity_row_def dict_get_def safe_int_example
        safe_float_example read_decimal_def ebind_def add_opt_def opt_int_def opt_float_def)
  show ?thesis
    by (simp add: fitbit_load_activity_data_def example_fitbit_def id d e dict_set_def)
qed

lemma example_sleep:
  "fitbit_load_sleep_data example_rt example_fitbit ''1503960366'' =
     Inr [(736067, [(''sleep_duration'', PFloat 7), (''sleep_score'', PInt 96)])]"
proof -
  have id: "dict_get example_sleep_row ''Id'' PNone = PStr ''1503960366''"
    by (simp add: example_sleep_row_def dict_get_def)
  have d: "sleep_date example_rt example_sleep_row ''SleepDay'' = Inr (Some 736067)"
    by (simp add: sleep_date_def example_sleep_row_def dict_index_def py_split_example
        ebind_def try_except_def example_rt_def example_dates_def)
  have sc: "sleep_score_of 420 (Some 480) = PInt 96"
    by (simp add: sleep_score_of_def trunc_def)
  have e: "sleep_entry example_rt example_sleep_row =
     Inr [(''sleep_duration'', PFloat 7), (''sleep_score'', PInt 96)]"
    by (simp add: sleep_entry_def example_sleep_row_def dict_get_def safe_float_example
        read_decimal_def ebind_def nonzero_def sc)
  show ?thesis
    by (simp add: fitbit_load_sleep_data_def example_fitbit_def id d e dict_set_def)
qed

lemma example_hr_sample:
  "read_decimal v = Some n \<Longrightarrow> hr_sample example_rt (example_hr_row v) = Inr (Some (736066, int n))"
  by (simp add: hr_sample_def example_hr_row_def dict_index_def py_split_example
      py_int_example ebind_def try_except_def)
     (simp add: example_rt_def example_dates_def)

lemma example_hr_id: "dict_get (example_hr_row v) ''Id'' PNone = PStr ''1503960366''"
  by (simp add: example_hr_row_def dict_get_def)

lemma group_hr_step:
  "dict_get row ''Id'' PNone = PStr sid \<Longrightarrow> hr_sample rt row = Inr (Some (d, v)) \<Longrightarrow>
   group_hr_rows rt sid (row # rows) daily = group_hr_rows rt sid rows (append_to d v daily)"
  by simp

lemma append_to_same: "append_to d v ((d, vs) # rest) = (d, vs @ [v]) # rest"
  by (simp add: append_to_def dict_set_def)

lemma append_to_nil: "append_to d v [] = [(d, [v])]"
  by (simp add: append_to_def dict_set_def)

lemma example_daily_hr:
  "fitbit_daily_hr example_rt example_fitbit ''1503960366'' =
     Inr [(736066, [90, 50, 85, 52, 80, 55, 75, 60, 70, 65])]"
proof -
  have s: "hr_sample example_rt (example_hr_row v) = Inr (Some (736066, int n))"
    if "read_decimal v = Some n" for v n
    using that by (rule example_hr_sample)
  have r: "read_decimal ''90'' = Some 90" "read_decimal ''50'' = Some 50"
    "read_decimal ''85'' = Some 85" "read_decimal ''52'' = Some 52"
    "read_decimal ''80'' = Some 80" "read_decimal ''55'' = Some 55"
    "read_decimal ''75'' = Some 75" "read_decimal ''60'' = Some 60"
    "read_decimal ''70'' = Some 70" "read_decimal ''65'' = Some 65"
    by (simp_all add: read_decimal_def)
  show ?thesis
    by (simp add: fitbit_daily_hr_def example_fitbit_def
        group_hr_step[OF example_hr_id s[OF r(1)]] group_hr_step[OF example_hr_id s[OF r(2)]]
        group_hr_step[OF example_hr_id s[OF r(3)]] group_hr_step[OF example_hr_id s[OF r(4)]]
        group_hr_step[OF example_hr_id s[OF r(5)]] group_hr_step[OF example_hr_id s[OF r(6)]]
        group_hr_step[OF example_hr_id s[OF r(7)]] group_hr_step[OF example_hr_id s[OF r(8)]]
        group_hr_step[OF example_hr_id s[OF r(9)]] group_hr_step[OF example_hr_id s[OF r(10)]]
        append_to_same append_to_nil
        del: group_hr_rows.simps(2))
qed

lemma example_hr_aggregate:
  "hr_aggregate [90, 50, 85, 52, 80, 55, 75, 60, 70, 65] =
     Inr [(''resting_hr'', PInt 52), (''hr_min'', PInt 50), (''hr_max'', PInt 90)]"
  by (simp add: hr_aggregate_def resting_idx_def trunc_def list_index_def ebind_def)

lemma example_hr:
  "fitbit_load_heart_rate_data example_rt example_fitbit ''1503960366'' =
     Inr [(736066, [(''resting_hr'', PInt 52), (''hr_min'', PInt 50), (''hr_max'', PInt 90)])]"
  by (simp add: fitbit_load_heart_rate_data_def example_daily_hr ebind_def example_hr_aggregate
      dict_set_def)

lemma example_fitbit_load:
  "fitbit_load_health_data example_rt example_fitbit ''1503960366'' = Inr [example_day1, example_day2]"
proof -
  have ds: "sorted_dates [736066, 736067, 736066] = [736066, 736067]"
    by (simp add: sorted_dates_def)
  show ?thesis
    unfolding fitbit_load_health_data_def example_activity example_sleep example_hr ebind_simps
    by (simp add: example_fitbit_def keys_def ds fitbit_record_def overlay_def
        create_empty_record_def dict_set_def dict_get_def example_day1_def example_day2_def)
qed

section \<open>Dirty rows\<close>

text \<open>
  C2. \<open>load_health_data\<close> should never raise on dirty data. In the Fitbit adapter the
  sum for \<open>active_minutes\<close> adds the results of \<open>_safe_int\<close>, which is \<open>None\<close> for an
  empty or non-numeric cell: an activity row of the subject with a valid date and an
  empty \<open>VeryActiveMinutes\<close> cell makes the whole load raise \<open>TypeError\<close>.
\<close>

theorem fitbit_empty_cell_raises:
  "fitbit_load_health_data example_rt dirty_fitbit ''1503960366'' = Inl TypeError"
proof -
  have id: "dict_get dirty_activity_row ''Id'' PNone = PStr ''1503960366''"
    by (simp add: dirty_activity_row_def dict_get_def)
  have d: "activity_date example_rt dirty_activity_row = Inr (Some 736066)"
    by (simp add: activity_date_def dirty_activity_row_def dict_index_def ebind_def
        try_except_def example_rt_def example_dates_def)
  have e: "activity_entry example_rt dirty_activity_row = Inl TypeError"
    by (simp add: activity_entry_def dirty_activity_row_def dict_get_def safe_int_empty
        safe_int_example safe_float_example read_decimal_def ebind_def add_opt_def)
  have "load_activity_rows example_rt ''1503960366'' [dirty_activity_row] [] = Inl TypeError"
    by (simp add: id d e)
  then show ?thesis
    by (simp add: fitbit_load_health_data_def dirty_fitbit_def fitbit_load_activity_data_def
        ebind_def)
qed

section \<open>Calories in the Fitbit adapter\<close>

text \<open>
  C10. Every record that the Fitbit adapter's \<open>load_health_data\<close> returns carries the
  same value under \<open>active_calories\<close> and under \<open>total_calories\<close> (both come from the
  \<open>Calories\<close> column, or both are \<open>None\<close>), and both keys are present.
\<close>

theorem fitbit_active_calories_eq_total_calories:
  assumes "fitbit_load_health_data rt fs sid = Inr records" and "r \<in> set records"
  shows "map_of r ''active_calories'' = map_of r ''total_calories''
       \<and> map_of r ''active_calories'' \<noteq> None"
proof -
  from assms obtain a s h d where
    a: "fitbit_load_activity_data rt fs sid = Inr a" and r: "r = fitbit_record a s h d"
    by (auto simp: fitbit_load_health_data_Inr)
  have ent: "dict_get e ''active_calories'' PNone = dict_get e ''total_calories'' PNone"
    if "map_of a d = Some e" for d e
  proof (cases "fb_activity fs")
    case None
    with a that show ?thesis by (simp add: fitbit_load_activity_data_def)
  next
    case (Some rows)
    with a have "load_activity_rows rt sid rows [] = Inr a"
      by (simp add: fitbit_load_activity_data_def)
    from load_activity_rows_inv[OF this _ _ that,
        where P = "\<lambda>e. dict_get e ''active_calories'' PNone = dict_get e ''total_calories'' PNone"]
    show ?thesis by (simp add: activity_entry_calories)
  qed
  show ?thesis
    unfolding r calories_fitbit_record
    by (auto split: option.splits dest: ent)
qed

theorem fitbit_active_calories_eq_total_calories_witness:
  "fitbit_load_health_data example_rt example_fitbit ''1503960366'' = Inr [example_day1, example_day2]
   \<and> example_day1 \<in> set [example_day1, example_day2]
   \<and> map_of example_day1 ''active_calories'' = map_of example_day1 ''total_calories''
   \<and> map_of example_day1 ''active_calories'' \<noteq> None"
proof -
  have m: "example_day1 \<in> set [example_day1, example_day2]"
    by simp
  from fitbit_active_calories_eq_total_calories [OF example_fitbit_load m] example_fitbit_load m
  show ?thesis by blast
qed

section \<open>Resting heart rate\<close>

lemma resting_idx_div: "resting_idx n = int (n div 10)"
proof -
  have "real n * 0.1 = real n / real 10" by simp
  then have "\<lfloor>real n * 0.1\<rfloor> = int (n div 10)"
    by (simp only: floor_divide_of_nat_eq)
  then show ?thesis
    by (simp add: resting_idx_def trunc_def)
qed

lemma list_index_nat: "i < length xs \<Longrightarrow> list_index xs (int i) = Inr (xs ! i)"
  by (simp add: list_index_def)

lemma if_less_min: "(\<lambda>y m. if y < m then y else m) = (min :: 'a::linorder \<Rightarrow> 'a \<Rightarrow> 'a)"
  by (auto simp: fun_eq_iff min_def)

lemma if_less_max: "(\<lambda>y m. if m < y then y else m) = (max :: 'a::linorder \<Rightarrow> 'a \<Rightarrow> 'a)"
  by (auto simp: fun_eq_iff max_def)

lemma py_min_Min: "xs \<noteq> [] \<Longrightarrow> py_min xs = Inr (Min (set xs))"
proof (cases xs)
  case Nil
  assume "xs \<noteq> []"
  with Nil show ?thesis by simp
next
  case (Cons x ys)
  have "Min (set (x # ys)) = fold min ys x" by (rule Min.set_eq_fold)
  with Cons show ?thesis by (simp only: py_min.simps if_less_min)
qed

lemma py_max_Max: "xs \<noteq> [] \<Longrightarrow> py_max xs = Inr (Max (set xs))"
proof (cases xs)
  case Nil
  assume "xs \<noteq> []"
  with Nil show ?thesis by simp
next
  case (Cons x ys)
  have "Max (set (x # ys)) = fold max ys x" by (rule Max.set_eq_fold)
  with Cons show ?thesis by (simp only: py_max.simps if_less_max)
qed

lemma hr_aggregate_eq:
  assumes "hr_values \<noteq> []"
  shows "hr_aggregate hr_values =
     Inr [(''resting_hr'', PInt (sort hr_values ! (length hr_values div 10))),
          (''hr_min'', PInt (Min (set hr_values))),
          (''hr_max'', PInt (Max (set hr_values)))]"
proof -
  have "length hr_values div 10 < length (sort hr_values)"
    using assms by (cases hr_values) simp_all
  then show ?thesis
    using assms
    by (simp add: hr_aggregate_def Let_def resting_idx_div list_index_nat ebind_simps
        py_min_Min py_max_Max)
qed

lemma insort_key_PInt:
  "insort_key (\<lambda>v. the (num_val v)) (PInt x) (map PInt ys) = map PInt (insort x ys)"
  by (induction ys) simp_all

lemma sort_key_PInt: "sort_key (\<lambda>v. the (num_val v)) (map PInt xs) = map PInt (sort xs)"
  by (induction xs) (simp_all add: insort_key_PInt)

lemma py_sorted_PInt: "py_sorted rt (map PInt xs) = Inr (map PInt (sort xs))"
  by (simp add: py_sorted_def sort_key_PInt list_all_iff)

lemma min_scan_PInt: "min_scan rt (PInt m) (map PInt xs) = Inr (PInt (fold min xs m))"
proof (induction xs arbitrary: m)
  case Nil
  then show ?case by simp
next
  case (Cons x xs)
  have "(if x < m then x else m) = min x m" by (simp add: min_def)
  with Cons show ?case
    by (simp add: py_lt_def ebind_simps if_distrib[of PInt, symmetric] del: if_distrib)
qed

lemma max_scan_PInt: "max_scan rt (PInt m) (map PInt xs) = Inr (PInt (fold max xs m))"
proof (induction xs arbitrary: m)
  case Nil
  then show ?case by simp
next
  case (Cons x xs)
  have "(if m < x then x else m) = max x m" by (simp add: max_def)
  with Cons show ?case
    by (simp add: py_lt_def ebind_simps if_distrib[of PInt, symmetric])
qed

lemma py_min_val_PInt: "xs \<noteq> [] \<Longrightarrow> py_min_val rt (map PInt xs) = Inr (PInt (Min (set xs)))"
proof (cases xs)
  case Nil
  assume "xs \<noteq> []"
  with Nil show ?thesis by simp
next
  case (Cons x ys)
  have "Min (set (x # ys)) = fold min ys x" by (rule Min.set_eq_fold)
  with Cons show ?thesis by (simp add: min_scan_PInt del: set_simps)
qed

lemma py_max_val_PInt: "xs \<noteq> [] \<Longrightarrow> py_max_val rt (map PInt xs) = Inr (PInt (Max (set xs)))"
proof (cases xs)
  case Nil
  assume "xs \<noteq> []"
  with Nil show ?thesis by simp
next
  case (Cons x ys)
  have "Max (set (x # ys)) = fold max ys x" by (rule Max.set_eq_fold)
  with Cons show ?thesis by (simp add: max_scan_PInt del: set_simps)
qed

lemma pm_hr_aggregate_eq:
  assumes "hr_values \<noteq> []"
  shows "pm_hr_aggregate rt (map PInt hr_values) =
     Inr [(''resting_hr'', PInt (sort hr_values ! (length hr_values div 10))),
          (''hr_min'', PInt (Min (set hr_values))),
          (''hr_max'', PInt (Max (set hr_values))),
          (''hrv'', PNone)]"
proof -
  have "length hr_values div 10 < length (sort hr_values)"
    using assms by (cases hr_values) simp_all
  then show ?thesis
    using assms
    by (simp add: pm_hr_aggregate_def py_sorted_PInt resting_idx_div list_index_nat ebind_simps
        py_min_val_PInt py_max_val_PInt)
qed

lemma distinct_keys_dict_set: "distinct (keys d) \<Longrightarrow> distinct (keys (dict_set k v d))"
  by (simp add: keys_def dict_set_def distinct_update)

lemma map_of_append_to:
  "map_of (append_to k v daily) =
     (map_of daily)(k \<mapsto> (case map_of daily k of None \<Rightarrow> [] | Some vs \<Rightarrow> vs) @ [v])"
  by (simp add: append_to_def map_of_dict_set)

lemma group_hr_rows_inv:
  assumes "group_hr_rows rt sid rows daily = Inr res"
    and "distinct (keys daily)"
    and "\<And>d vs. map_of daily d = Some vs \<Longrightarrow> vs \<noteq> []"
  shows "distinct (keys res) \<and> (\<forall>d vs. map_of res d = Some vs \<longrightarrow> vs \<noteq> [])"
  using assms
proof (induction rows arbitrary: daily)
  case Nil
  then show ?case by auto
next
  case (Cons row rows)
  show ?case
  proof (cases "dict_get row ''Id'' PNone \<noteq> PStr sid")
    case True
    with Cons.prems have "group_hr_rows rt sid rows daily = Inr res" by simp
    from Cons.IH[OF this Cons.prems(2,3)] show ?thesis by simp
  next
    case False
    show ?thesis
    proof (cases "hr_sample rt row")
      case (Inl err)
      with False Cons.prems(1) show ?thesis by simp
    next
      case (Inr od)
      show ?thesis
      proof (cases od)
        case None
        with Inr False Cons.prems have "group_hr_rows rt sid rows daily = Inr res" by simp
        from Cons.IH[OF this Cons.prems(2,3)] show ?thesis by simp
      next
        case (Some dv)
        obtain d v where dv: "dv = (d, v)" by (cases dv)
        have step: "group_hr_rows rt sid rows (append_to d v daily) = Inr res"
          using Cons.prems(1) False Inr Some dv by simp
        have dist: "distinct (keys (append_to d v daily))"
          using Cons.prems(2) by (simp add: append_to_def distinct_keys_dict_set)
        have ne: "\<And>d' vs. map_of (append_to d v daily) d' = Some vs \<Longrightarrow> vs \<noteq> []"
          using Cons.prems(3) by (auto simp: map_of_append_to split: if_splits)
        from Cons.IH[OF step dist ne] show ?thesis by simp
      qed
    qed
  qed
qed

lemma fitbit_daily_hr_props:
  assumes "fitbit_daily_hr rt fs sid = Inr daily"
  shows "distinct (keys daily)" and "map_of daily d = Some vs \<Longrightarrow> vs \<noteq> []"
proof -
  have "distinct (keys daily) \<and> (\<forall>d vs. map_of daily d = Some vs \<longrightarrow> vs \<noteq> [])"
  proof (cases "fb_heartrate fs")
    case None
    with assms show ?thesis by (simp add: fitbit_daily_hr_def keys_def)
  next
    case (Some rows)
    with assms have "group_hr_rows rt sid rows [] = Inr daily"
      by (simp add: fitbit_daily_hr_def)
    from group_hr_rows_inv[OF this] show ?thesis by (simp add: keys_def)
  qed
  then show "distinct (keys daily)" and "map_of daily d = Some vs \<Longrightarrow> vs \<noteq> []"
    by auto
qed

lemma aggregate_hr_days_lookup:
  assumes "aggregate_hr_days days result = Inr h" and "distinct (keys days)"
  shows "(\<forall>d vs. (d, vs) \<in> set days \<and> vs \<noteq> [] \<longrightarrow> hr_aggregate vs = Inr (the (map_of h d)) \<and> map_of h d \<noteq> None)
       \<and> (\<forall>d. d \<notin> set (keys days) \<longrightarrow> map_of h d = map_of result d)"
  using assms
proof (induction days arbitrary: result)
  case Nil
  then show ?case by (simp add: keys_def)
next
  case (Cons day days)
  obtain d0 vs0 where day: "day = (d0, vs0)" by (cases day)
  from Cons.prems(2) day have d0: "d0 \<notin> set (keys days)" and dist: "distinct (keys days)"
    by (simp_all add: keys_def)
  show ?case
  proof (cases "vs0 = []")
    case True
    with Cons.prems(1) day have "aggregate_hr_days days result = Inr h" by simp
    from Cons.IH[OF this dist] True day show ?thesis
      by (auto simp: keys_def)
  next
    case False
    then obtain e0 where e0: "hr_aggregate vs0 = Inr e0"
      using hr_aggregate_eq by blast
    with Cons.prems(1) day False
    have step: "aggregate_hr_days days (dict_set d0 e0 result) = Inr h" by simp
    note ih = Cons.IH[OF step dist]
    from ih d0 have h0: "map_of h d0 = Some e0"
      by (simp add: map_of_dict_set)
    show ?thesis
    proof (intro conjI allI impI)
      fix d vs
      assume a: "(d, vs) \<in> set (day # days) \<and> vs \<noteq> []"
      show "hr_aggregate vs = Inr (the (map_of h d))"
        using a ih day e0 h0 by auto
      show "map_of h d \<noteq> None"
        using a ih day e0 h0 by auto
    next
      fix d
      assume "d \<notin> set (keys (day # days))"
      then show "map_of h d = map_of result d"
        using ih day by (simp add: keys_def map_of_dict_set)
    qed
  qed
qed

lemma map_of_keys: "map_of d k = Some v \<Longrightarrow> k \<in> set (keys d)"
  by (auto simp: keys_def dest: map_of_SomeD intro: rev_image_eqI)

lemma resting_fitbit_record:
  "map_of (fitbit_record a s h d) ''resting_hr'' =
     (case map_of h d of None \<Rightarrow> Some PNone
      | Some src \<Rightarrow> Some (dict_get src ''resting_hr'' PNone))"
  unfolding fitbit_record_def
  by (simp add: map_of_overlay_other map_of_overlay_in create_empty_record_def
      split: option.splits)

lemma fitbit_resting_hr_record:
  assumes "fitbit_load_health_data rt fs sid = Inr records"
    and "fb_available fs"
    and "fitbit_daily_hr rt fs sid = Inr daily"
    and "map_of daily d = Some hr_values"
  shows "\<exists>r\<in>set records. date_key r = d
           \<and> map_of r ''resting_hr'' = Some (PInt (sort hr_values ! (length hr_values div 10)))"
proof -
  from assms(1,2) obtain a s h where
    h: "fitbit_load_heart_rate_data rt fs sid = Inr h"
    and recs: "records = map (fitbit_record a s h) (sorted_dates (keys a @ keys s @ keys h))"
    by (auto simp: fitbit_load_health_data_Inr)
  from h assms(3) have agg: "aggregate_hr_days daily [] = Inr h"
    by (simp add: fitbit_load_heart_rate_data_def ebind_simps)
  have ne: "hr_values \<noteq> []" and dist: "distinct (keys daily)"
    using fitbit_daily_hr_props[OF assms(3)] assms(4) by auto
  have mem: "(d, hr_values) \<in> set daily"
    using assms(4) by (rule map_of_SomeD)
  from aggregate_hr_days_lookup[OF agg dist] mem ne
  have "hr_aggregate hr_values = Inr (the (map_of h d))" and "map_of h d \<noteq> None"
    by auto
  then obtain e where e: "map_of h d = Some e" and "hr_aggregate hr_values = Inr e"
    by auto
  with hr_aggregate_eq[OF ne]
  have rest: "dict_get e ''resting_hr'' PNone = PInt (sort hr_values ! (length hr_values div 10))"
    by (auto simp: dict_get_def)
  have "d \<in> set (sorted_dates (keys a @ keys s @ keys h))"
    using map_of_keys[OF e] by (simp add: sorted_dates_props)
  then have "fitbit_record a s h d \<in> set records"
    by (simp add: recs)
  moreover have "date_key (fitbit_record a s h d) = d"
    by (rule date_key_fitbit_record)
  moreover have "map_of (fitbit_record a s h d) ''resting_hr''
      = Some (PInt (sort hr_values ! (length hr_values div 10)))"
    by (simp add: resting_fitbit_record e rest)
  ultimately show ?thesis by blast
qed

subsection \<open>PMData: from the heart-rate file of a day to the record of the day\<close>

lemma keys_pm_record: "keys (pm_record s h a d) = canonical_fields"
  unfolding pm_record_def
  by (simp add: keys_overlay keys_create_empty_record canonical_fields_def)

lemma date_pm_record: "map_of (pm_record s h a d) ''date'' = Some (PDate d)"
  unfolding pm_record_def
  by (simp add: map_of_overlay_other create_empty_record_def)

lemma date_key_pm_record: "date_key (pm_record s h a d) = d"
  by (simp add: date_key_def date_pm_record)

lemma record_dates_pm: "record_dates (map (pm_record s h a) ds) = ds"
  by (simp add: record_dates_def date_key_pm_record comp_def)

lemma pm_load_health_data_Inr:
  "pm_load_health_data rt fs = Inr records \<longleftrightarrow>
     (\<not> (pm_available fs \<and> pm_subject_dir fs) \<and> records = []) \<or>
     (pm_available fs \<and> pm_subject_dir fs
      \<and> (\<exists>s h a. pm_load_sleep_data rt fs = Inr s
        \<and> pm_load_hr_data rt fs = Inr h
        \<and> pm_load_activity_data rt fs = Inr a
        \<and> records = map (pm_record s h a) (sorted_dates (keys s @ keys h @ keys a))))"
  by (auto simp: pm_load_health_data_def ebind_Inr)

lemma pm_hr_files_append:
  "pm_hr_files rt (xs @ ys) result = ebind (pm_hr_files rt xs result) (pm_hr_files rt ys)"
proof (induction xs arbitrary: result)
  case Nil
  then show ?case by (simp add: ebind_simps)
next
  case (Cons f xs)
  obtain stem content where f: "f = (stem, content)" by (cases f)
  show ?case
    unfolding f
    by (simp add: Cons.IH ebind_simps split: option.splits sum.splits)
qed

lemma pm_hr_files_other_days:
  assumes "pm_hr_files rt files result = Inr res"
    and "\<forall>f\<in>set files. rt_strptime rt (remove_all ''heart_rate-'' (fst f)) ''%Y-%m-%d'' \<noteq> Some d"
  shows "map_of res d = map_of result d"
  using assms
proof (induction files arbitrary: result)
  case Nil
  then show ?case by simp
next
  case (Cons f files)
  obtain stem content where f: "f = (stem, content)" by (cases f)
  from Cons.prems(2) have rest: "\<forall>f\<in>set files. rt_strptime rt (remove_all ''heart_rate-'' (fst f)) ''%Y-%m-%d'' \<noteq> Some d"
    and here: "rt_strptime rt (remove_all ''heart_rate-'' stem) ''%Y-%m-%d'' \<noteq> Some d"
    by (simp_all add: f)
  from Cons.prems(1) consider
      (skip) "pm_hr_files rt files result = Inr res"
    | (store) d' entry where "rt_strptime rt (remove_all ''heart_rate-'' stem) ''%Y-%m-%d'' = Some d'"
        "pm_hr_files rt files (dict_set d' entry result) = Inr res"
    unfolding f by (auto split: option.splits sum.splits if_splits)
  then show ?case
  proof cases
    case skip
    from Cons.IH[OF skip rest] show ?thesis .
  next
    case store
    with here have "d' \<noteq> d" by auto
    with Cons.IH[OF store(2) rest] show ?thesis by (simp add: map_of_dict_set)
  qed
qed

lemma pm_hr_files_day:
  assumes "pm_hr_files rt (before @ (stem, Some doc) # after) result = Inr h"
    and "rt_strptime rt (remove_all ''heart_rate-'' stem) ''%Y-%m-%d'' = Some d"
    and "\<forall>f\<in>set after. rt_strptime rt (remove_all ''heart_rate-'' (fst f)) ''%Y-%m-%d'' \<noteq> Some d"
    and "truthy doc" and "pm_file_samples doc = Inr samples" and "samples \<noteq> []"
  shows "\<exists>entry. pm_hr_aggregate rt samples = Inr entry \<and> map_of h d = Some entry"
proof -
  from assms(1) obtain r1 where
    r1: "pm_hr_files rt ((stem, Some doc) # after) r1 = Inr h"
    by (auto simp: pm_hr_files_append ebind_Inr)
  with assms(2,4,5,6) obtain entry where
    e: "pm_hr_aggregate rt samples = Inr entry"
    and rest: "pm_hr_files rt after (dict_set d entry r1) = Inr h"
    by (auto split: sum.splits)
  from pm_hr_files_other_days[OF rest assms(3)] have "map_of h d = Some entry"
    by (simp add: map_of_dict_set)
  with e show ?thesis by blast
qed

lemma list_index_Inr_nat: "list_index xs (int i) = Inr x \<Longrightarrow> i < length xs \<and> x = xs ! i"
  by (auto simp: list_index_def split: if_splits)

lemma pm_hr_aggregate_Inr:
  assumes "pm_hr_aggregate rt samples = Inr entry"
  shows "\<exists>sorted_hr. py_sorted rt samples = Inr sorted_hr
           \<and> length sorted_hr div 10 < length sorted_hr
           \<and> dict_get entry ''resting_hr'' PNone = sorted_hr ! (length sorted_hr div 10)"
proof -
  from assms obtain sorted_hr resting lo hi where
    s: "py_sorted rt samples = Inr sorted_hr"
    and i: "list_index sorted_hr (resting_idx (length sorted_hr)) = Inr resting"
    and e: "entry = [(''resting_hr'', resting), (''hr_min'', lo), (''hr_max'', hi), (''hrv'', PNone)]"
    by (auto simp: pm_hr_aggregate_def ebind_Inr)
  from i have "length sorted_hr div 10 < length sorted_hr
      \<and> resting = sorted_hr ! (length sorted_hr div 10)"
    unfolding resting_idx_div by (rule list_index_Inr_nat)
  with s e show ?thesis by (simp add: dict_get_def)
qed

lemma resting_pm_record:
  "map_of (pm_record s h a d) ''resting_hr'' =
     (case map_of h d of None \<Rightarrow> Some PNone
      | Some src \<Rightarrow> Some (dict_get src ''resting_hr'' PNone))"
  unfolding pm_record_def
  by (simp add: map_of_overlay_other map_of_overlay_in create_empty_record_def
      split: option.splits)

text \<open>Numbers are sorted by value, in a stable way.\<close>

lemma py_sorted_numbers:
  "list_all (\<lambda>v. num_val v \<noteq> None) samples \<Longrightarrow>
     py_sorted rt samples = Inr (sort_key (\<lambda>v. the (num_val v)) samples)"
  by (simp add: py_sorted_def)

lemma pm_resting_hr_record:
  assumes "pm_load_health_data rt fs = Inr records"
    and "pm_available fs" and "pm_subject_dir fs"
    and "pm_heart_rate fs = Some (before @ (stem, Some doc) # after)"
    and "rt_strptime rt (remove_all ''heart_rate-'' stem) ''%Y-%m-%d'' = Some d"
    and "\<forall>f\<in>set after. rt_strptime rt (remove_all ''heart_rate-'' (fst f)) ''%Y-%m-%d'' \<noteq> Some d"
    and "truthy doc" and "pm_file_samples doc = Inr samples" and "samples \<noteq> []"
  shows "\<exists>sorted_hr. py_sorted rt samples = Inr sorted_hr
           \<and> length sorted_hr div 10 < length sorted_hr
           \<and> (\<exists>r\<in>set records. date_key r = d
                 \<and> map_of r ''resting_hr'' = Some (sorted_hr ! (length sorted_hr div 10)))"
proof -
  from assms(1,2,3) obtain s h a where
    h: "pm_load_hr_data rt fs = Inr h"
    and recs: "records = map (pm_record s h a) (sorted_dates (keys s @ keys h @ keys a))"
    by (auto simp: pm_load_health_data_Inr)
  from h assms(4) have "pm_hr_files rt (before @ (stem, Some doc) # after) [] = Inr h"
    by (simp add: pm_load_hr_data_def)
  from pm_hr_files_day[OF this assms(5-9)] obtain entry where
    e: "pm_hr_aggregate rt samples = Inr entry" and m: "map_of h d = Some entry"
    by blast
  from pm_hr_aggregate_Inr[OF e] obtain sorted_hr where
    s: "py_sorted rt samples = Inr sorted_hr"
    and l: "length sorted_hr div 10 < length sorted_hr"
    and v: "dict_get entry ''resting_hr'' PNone = sorted_hr ! (length sorted_hr div 10)"
    by blast
  have "d \<in> set (sorted_dates (keys s @ keys h @ keys a))"
    using map_of_keys[OF m] by (simp add: sorted_dates_props)
  then have "pm_record s h a d \<in> set records"
    by (simp add: recs)
  moreover have "date_key (pm_record s h a d) = d"
    by (rule date_key_pm_record)
  moreover have "map_of (pm_record s h a d) ''resting_hr''
      = Some (sorted_hr ! (length sorted_hr div 10))"
    by (simp add: resting_pm_record m v)
  ultimately show ?thesis using s l by blast
qed


subsection \<open>The example files\<close>

lemma pm_hr_values_step:
  "pm_hr_values (bpm_record v # records) hr_values = pm_hr_values records (hr_values @ [v])"
  by (simp add: bpm_record_def dict_has_def dict_index_def dict_get_def)

lemma example_pm_samples:
  "pm_file_samples (PList (map (\<lambda>i. bpm_record (PInt i)) [90, 50, 85, 52, 80, 55, 75, 60, 70, 65]))
     = Inr (map PInt [90, 50, 85, 52, 80, 55, 75, 60, 70, 65])"
  by (simp add: pm_file_samples_def ebind_simps pm_hr_values_step del: pm_hr_values.simps(2))

lemma example_pm_aggregate:
  "pm_hr_aggregate example_rt (map PInt [90, 50, 85, 52, 80, 55, 75, 60, 70, 65]) =
     Inr [(''resting_hr'', PInt 52), (''hr_min'', PInt 50), (''hr_max'', PInt 90), (''hrv'', PNone)]"
proof -
  have ne: "[90, 50, 85, 52, 80, 55, 75, 60, 70, 65] \<noteq> ([] :: int list)"
    by simp
  show ?thesis
    unfolding pm_hr_aggregate_eq[OF ne] by simp
qed

lemma example_pm_stem:
  "rt_strptime example_rt (remove_all ''heart_rate-'' ''heart_rate-2016-04-12'') ''%Y-%m-%d''
     = Some 736066"
  by (simp add: example_rt_def example_dates_def)

lemma example_pm_hr:
  "pm_load_hr_data example_rt example_pmdata =
     Inr [(736066, [(''resting_hr'', PInt 52), (''hr_min'', PInt 50), (''hr_max'', PInt 90),
                    (''hrv'', PNone)])]"
proof -
  have d: "rt_strptime example_rt ''2016-04-12'' ''%Y-%m-%d'' = Some 736066"
    by (simp add: example_rt_def example_dates_def)
  show ?thesis
    unfolding pm_load_hr_data_def example_pmdata_def
    by (simp add: d example_pm_samples example_pm_aggregate dict_set_def
        del: map_map list.map)
qed

lemma example_pm_load: "pm_load_health_data example_rt example_pmdata = Inr [pm_day1]"
proof -
  have s: "pm_load_sleep_data example_rt example_pmdata = Inr []"
    by (simp add: pm_load_sleep_data_def example_pmdata_def)
  have a: "pm_load_activity_data example_rt example_pmdata = Inr []"
    by (simp add: pm_load_activity_data_def example_pmdata_def ebind_simps)
  have ds: "sorted_dates [736066] = [736066]"
    by (simp add: sorted_dates_def)
  have g: "pm_available example_pmdata" "pm_subject_dir example_pmdata"
    by (simp_all add: example_pmdata_def)
  show ?thesis
    unfolding pm_load_health_data_def s a example_pm_hr ebind_simps
    by (simp add: g keys_def ds pm_record_def overlay_def create_empty_record_def dict_set_def
        dict_get_def pm_day1_def)
qed

text \<open>
  C8. The samples of one day are never empty when the adapter aggregates them. For the
  list of \<open>n\<close> heart-rate samples that the Fitbit adapter groups under a day, and for
  the list that the PMData adapter extracts from the heart-rate file of a day (the last
  file of that day, when several are named for it), the record of the day that
  \<open>load_health_data\<close> returns has as \<open>resting_hr\<close> the element at index
  \<open>floor(n * 0.1)\<close>, which is \<open>n div 10\<close>, of the sorted samples. PMData samples are
  JSON values: numbers of either kind are sorted by value, keeping the order of equal
  ones. For the samples 50, 52, 55, 60, 65, 70, 75, 80, 85, 90 the value is 52, neither
  the minimum 50 nor the mean.
\<close>

theorem resting_hr_tenth_percentile:
  "int (n div 10) = \<lfloor>real n * 0.1\<rfloor>
   \<and> (fb_available ffs \<and> fitbit_load_health_data rt ffs sid = Inr frecords
        \<and> fitbit_daily_hr rt ffs sid = Inr daily \<and> map_of daily d = Some hr_values
      \<longrightarrow> hr_values \<noteq> []
          \<and> (\<exists>r\<in>set frecords. date_key r = d
                \<and> map_of r ''resting_hr''
                    = Some (PInt (sort hr_values ! (length hr_values div 10)))))
   \<and> (pm_available pfs \<and> pm_subject_dir pfs \<and> pm_load_health_data rt pfs = Inr precords
        \<and> pm_heart_rate pfs = Some (before @ (stem, Some doc) # after)
        \<and> rt_strptime rt (remove_all ''heart_rate-'' stem) ''%Y-%m-%d'' = Some d
        \<and> (\<forall>f\<in>set after.
              rt_strptime rt (remove_all ''heart_rate-'' (fst f)) ''%Y-%m-%d'' \<noteq> Some d)
        \<and> truthy doc \<and> pm_file_samples doc = Inr samples \<and> samples \<noteq> []
      \<longrightarrow> (\<exists>sorted_hr. py_sorted rt samples = Inr sorted_hr
              \<and> (list_all (\<lambda>v. num_val v \<noteq> None) samples
                   \<longrightarrow> sorted_hr = sort_key (\<lambda>v. the (num_val v)) samples)
              \<and> length sorted_hr div 10 < length sorted_hr
              \<and> (\<exists>r\<in>set precords. date_key r = d
                    \<and> map_of r ''resting_hr'' = Some (sorted_hr ! (length sorted_hr div 10)))))"
proof (intro conjI impI)
  have "real n * 0.1 = real n / real 10"
    by simp
  then show "int (n div 10) = \<lfloor>real n * 0.1\<rfloor>"
    by (simp only: floor_divide_of_nat_eq)
next
  assume a: "fb_available ffs \<and> fitbit_load_health_data rt ffs sid = Inr frecords
      \<and> fitbit_daily_hr rt ffs sid = Inr daily \<and> map_of daily d = Some hr_values"
  then show "hr_values \<noteq> []"
    using fitbit_daily_hr_props(2) by blast
  from a show "\<exists>r\<in>set frecords. date_key r = d
      \<and> map_of r ''resting_hr'' = Some (PInt (sort hr_values ! (length hr_values div 10)))"
    using fitbit_resting_hr_record by blast
next
  assume a: "pm_available pfs \<and> pm_subject_dir pfs \<and> pm_load_health_data rt pfs = Inr precords
      \<and> pm_heart_rate pfs = Some (before @ (stem, Some doc) # after)
      \<and> rt_strptime rt (remove_all ''heart_rate-'' stem) ''%Y-%m-%d'' = Some d
      \<and> (\<forall>f\<in>set after.
            rt_strptime rt (remove_all ''heart_rate-'' (fst f)) ''%Y-%m-%d'' \<noteq> Some d)
      \<and> truthy doc \<and> pm_file_samples doc = Inr samples \<and> samples \<noteq> []"
  then obtain sorted_hr where
    s: "py_sorted rt samples = Inr sorted_hr"
    and r: "length sorted_hr div 10 < length sorted_hr
      \<and> (\<exists>r\<in>set precords. date_key r = d
            \<and> map_of r ''resting_hr'' = Some (sorted_hr ! (length sorted_hr div 10)))"
    using pm_resting_hr_record[of rt pfs precords before stem doc after d samples] by blast
  have "sorted_hr = sort_key (\<lambda>v. the (num_val v)) samples"
    if "list_all (\<lambda>v. num_val v \<noteq> None) samples"
    using py_sorted_numbers[OF that, of rt] s by simp
  with s r show "\<exists>sorted_hr. py_sorted rt samples = Inr sorted_hr
      \<and> (list_all (\<lambda>v. num_val v \<noteq> None) samples
           \<longrightarrow> sorted_hr = sort_key (\<lambda>v. the (num_val v)) samples)
      \<and> length sorted_hr div 10 < length sorted_hr
      \<and> (\<exists>r\<in>set precords. date_key r = d
            \<and> map_of r ''resting_hr'' = Some (sorted_hr ! (length sorted_hr div 10)))"
    by blast
qed

theorem resting_hr_tenth_percentile_witness:
  "fitbit_load_health_data example_rt example_fitbit ''1503960366'' = Inr [example_day1, example_day2]
   \<and> fitbit_daily_hr example_rt example_fitbit ''1503960366'' =
     Inr [(736066, [90, 50, 85, 52, 80, 55, 75, 60, 70, 65])]
   \<and> map_of example_day1 ''resting_hr'' = Some (PInt 52)
   \<and> map_of example_day1 ''hr_min'' = Some (PInt 50)
   \<and> pm_load_health_data example_rt example_pmdata = Inr [pm_day1]
   \<and> pm_file_samples (PList (map (\<lambda>i. bpm_record (PInt i)) [90, 50, 85, 52, 80, 55, 75, 60, 70, 65]))
     = Inr (map PInt [90, 50, 85, 52, 80, 55, 75, 60, 70, 65])
   \<and> map_of pm_day1 ''resting_hr'' = Some (PInt 52)
   \<and> map_of pm_day1 ''hr_min'' = Some (PInt 50)
   \<and> int (10 div 10) = \<lfloor>real 10 * 0.1\<rfloor>"
proof -
  note t = resting_hr_tenth_percentile [of 10 example_fitbit example_rt "''1503960366''"
      "[example_day1, example_day2]" "[(736066, [90, 50, 85, 52, 80, 55, 75, 60, 70, 65])]" 736066
      "[90, 50, 85, 52, 80, 55, 75, 60, 70, 65]" example_pmdata "[pm_day1]" "[]"
      "''heart_rate-2016-04-12''"
      "PList (map (\<lambda>i. bpm_record (PInt i)) [90, 50, 85, 52, 80, 55, 75, 60, 70, 65])" "[]"
      "map PInt [90, 50, 85, 52, 80, 55, 75, 60, 70, 65]"]
  have av: "fb_available example_fitbit"
    by (simp add: example_fitbit_def)
  have look: "map_of [(736066 :: date, [90, 50, 85, 52, 80, 55, 75, 60, 70, 65 :: int])] 736066
      = Some [90, 50, 85, 52, 80, 55, 75, 60, 70, 65]"
    by simp
  have srt: "sort [90, 50, 85, 52, 80, 55, 75, 60, 70, 65 :: int]
      ! (length [90, 50, 85, 52, 80, 55, 75, 60, 70, 65 :: int] div 10) = 52"
    by simp
  from t av example_fitbit_load example_daily_hr look srt
  have "\<exists>r\<in>set [example_day1, example_day2]. date_key r = 736066
      \<and> map_of r ''resting_hr'' = Some (PInt 52)"
    by simp
  moreover have "date_key example_day2 \<noteq> 736066"
    by (simp add: date_key_def example_day2_def)
  ultimately have f: "map_of example_day1 ''resting_hr'' = Some (PInt 52)"
    by auto
  have g: "pm_available example_pmdata" "pm_subject_dir example_pmdata"
    "pm_heart_rate example_pmdata = Some ([] @
       (''heart_rate-2016-04-12'',
        Some (PList (map (\<lambda>i. bpm_record (PInt i)) [90, 50, 85, 52, 80, 55, 75, 60, 70, 65]))) # [])"
    by (simp_all add: example_pmdata_def)
  have tr: "truthy (PList (map (\<lambda>i. bpm_record (PInt i)) [90, 50, 85, 52, 80, 55, 75, 60, 70, 65]))"
    by simp
  have ne: "map PInt [90, 50, 85, 52, 80, 55, 75, 60, 70, 65] \<noteq> []"
    by simp
  have af: "\<forall>f\<in>set ([] :: (string \<times> pyval option) list).
      rt_strptime example_rt (remove_all ''heart_rate-'' (fst f)) ''%Y-%m-%d'' \<noteq> Some 736066"
    by simp
  from t g example_pm_load example_pm_stem af tr example_pm_samples ne
  obtain sorted_hr where
    s: "py_sorted example_rt (map PInt [90, 50, 85, 52, 80, 55, 75, 60, 70, 65]) = Inr sorted_hr"
    and r: "\<exists>r\<in>set [pm_day1]. date_key r = 736066
        \<and> map_of r ''resting_hr'' = Some (sorted_hr ! (length sorted_hr div 10))"
    by blast
  from s py_sorted_PInt[of example_rt "[90, 50, 85, 52, 80, 55, 75, 60, 70, 65]"]
  have "sorted_hr = map PInt (sort [90, 50, 85, 52, 80, 55, 75, 60, 70, 65])"
    by simp
  then have "sorted_hr ! (length sorted_hr div 10) = PInt 52"
    by simp
  with r have p: "map_of pm_day1 ''resting_hr'' = Some (PInt 52)"
    by simp
  have m: "map_of example_day1 ''hr_min'' = Some (PInt 50)" "map_of pm_day1 ''hr_min'' = Some (PInt 50)"
    by (simp_all add: example_day1_def pm_day1_def)
  from t have "int (10 div 10) = \<lfloor>real 10 * 0.1\<rfloor>"
    by blast
  with example_fitbit_load example_daily_hr f m example_pm_load example_pm_samples p
  show ?thesis
    by (intro conjI)
qed

section \<open>Glucose aggregation\<close>

lemma glucose_avg_mean: "glucose_avg xs = mean xs"
  by (simp add: glucose_avg_def mean_def)

lemma glucose_std_population: "glucose_std xs = population_std xs"
  by (simp add: glucose_std_def population_std_def Let_def glucose_avg_mean)

lemma sum_ones_length: "sum_list (map (\<lambda>x. 1::int) ys) = int (length ys)"
  by (induction ys) simp_all

lemma time_in_range_percent: "time_in_range xs = percent_in_range xs"
  by (simp add: time_in_range_def percent_in_range_def Let_def sum_ones_length)

lemma glucose_metrics_eq:
  "xs \<noteq> [] \<Longrightarrow> glucose_metrics xs record =
     Inr (dict_set ''time_in_range'' (PFloat (percent_in_range xs))
          (dict_set ''glucose_std'' (PFloat (population_std xs))
          (dict_set ''glucose_max'' (PFloat (Max (set xs)))
          (dict_set ''glucose_min'' (PFloat (Min (set xs)))
          (dict_set ''glucose_avg'' (PFloat (mean xs)) record)))))"
  by (simp add: glucose_metrics_def Let_def ebind_simps py_min_Min py_max_Max
      glucose_avg_mean glucose_std_population time_in_range_percent)

lemma glucose_metrics_Inr:
  assumes "glucose_metrics xs record = Inr r" and "keys record = canonical_fields"
  shows "keys r = canonical_fields" and "map_of r ''date'' = map_of record ''date''"
proof -
  have mem: "''glucose_avg'' \<in> set canonical_fields" "''glucose_min'' \<in> set canonical_fields"
    "''glucose_max'' \<in> set canonical_fields" "''glucose_std'' \<in> set canonical_fields"
    "''time_in_range'' \<in> set canonical_fields"
    by (simp_all add: canonical_fields_def)
  show "keys r = canonical_fields"
  proof (cases "xs = []")
    case True
    with assms show ?thesis by (simp add: glucose_metrics_def)
  next
    case False
    from assms(1) glucose_metrics_eq[OF False, of "record"] assms(2) mem
    show ?thesis by (auto simp: keys_dict_set_mem)
  qed
  show "map_of r ''date'' = map_of record ''date''"
  proof (cases "xs = []")
    case True
    with assms show ?thesis by (simp add: glucose_metrics_def)
  next
    case False
    from assms(1) glucose_metrics_eq[OF False, of "record"]
    show ?thesis by (auto simp: map_of_dict_set)
  qed
qed

lemma glucose_metrics_summary:
  "xs \<noteq> [] \<Longrightarrow> glucose_metrics xs record = Inr r \<Longrightarrow> has_glucose_summary r xs"
  by (auto simp: glucose_metrics_eq has_glucose_summary_def map_of_dict_set)

lemma ohio_record_Inr:
  assumes "ohio_record g i d = Inr r"
  shows "keys r = canonical_fields" and "date_key r = d"
    and "map_of g d = Some xs \<Longrightarrow> xs \<noteq> [] \<Longrightarrow> has_glucose_summary r xs"
proof -
  from assms obtain r0 where
    r0: "(case map_of g d of None \<Rightarrow> Inr (create_empty_record d)
          | Some xs \<Rightarrow> glucose_metrics xs (create_empty_record d)) = Inr r0"
    and r: "r = (case map_of i d of None \<Rightarrow> r0 | Some ins \<Rightarrow> dict_set ''readiness_score'' PNone r0)"
    by (auto simp: ohio_record_def ebind_Inr)
  have e0: "map_of (create_empty_record d) ''date'' = Some (PDate d)"
    by (simp add: create_empty_record_def)
  have k0: "keys r0 = canonical_fields"
  proof (cases "map_of g d")
    case None
    with r0 show ?thesis by (auto simp: keys_create_empty_record)
  next
    case (Some ys)
    with r0 have "glucose_metrics ys (create_empty_record d) = Inr r0" by simp
    from glucose_metrics_Inr(1)[OF this keys_create_empty_record] show ?thesis .
  qed
  have d0: "map_of r0 ''date'' = Some (PDate d)"
  proof (cases "map_of g d")
    case None
    with r0 e0 show ?thesis by auto
  next
    case (Some ys)
    with r0 have "glucose_metrics ys (create_empty_record d) = Inr r0" by simp
    from glucose_metrics_Inr(2)[OF this keys_create_empty_record] e0 show ?thesis by simp
  qed
  have "''readiness_score'' \<in> set canonical_fields"
    by (simp add: canonical_fields_def)
  with k0 show "keys r = canonical_fields"
    by (simp add: r keys_dict_set_mem split: option.splits)
  show "date_key r = d"
    using d0 by (simp add: r date_key_def map_of_dict_set split: option.splits)
  show "has_glucose_summary r xs" if "map_of g d = Some xs" "xs \<noteq> []"
  proof -
    from r0 that have "has_glucose_summary r0 xs"
      by (simp add: glucose_metrics_summary)
    then show ?thesis
      by (simp add: r has_glucose_summary_def map_of_dict_set split: option.splits)
  qed
qed

lemma build_records_Inr:
  "build_records build ds = Inr rs \<Longrightarrow> list_all2 (\<lambda>d r. build d = Inr r) ds rs"
proof (induction ds arbitrary: rs)
  case Nil
  then show ?case by simp
next
  case (Cons d ds)
  then show ?case by (auto split: sum.splits)
qed

lemma list_all2_left_ex: "list_all2 P xs ys \<Longrightarrow> x \<in> set xs \<Longrightarrow> \<exists>y\<in>set ys. P x y"
  by (induction rule: list_all2_induct) auto

lemma list_all2_right_ex: "list_all2 P xs ys \<Longrightarrow> y \<in> set ys \<Longrightarrow> \<exists>x\<in>set xs. P x y"
  by (induction rule: list_all2_induct) auto

lemma ohio_load_health_data_Inr:
  "ohio_load_health_data rt fs = Inr records \<longleftrightarrow>
     (\<not> oh_available fs \<and> records = []) \<or>
     (oh_available fs \<and> (\<exists>g i m. ohio_load_glucose_data rt fs = Inr g
        \<and> ohio_load_insulin_data rt fs = Inr i
        \<and> ohio_load_meal_data rt fs = Inr m
        \<and> build_records (ohio_record g i) (sorted_dates (keys g @ keys i @ keys m)) = Inr records))"
  by (auto simp: ohio_load_health_data_def ebind_Inr)

lemma ohio_glucose_record:
  assumes "ohio_load_health_data rt fs = Inr records"
    and "oh_available fs"
    and "ohio_load_glucose_data rt fs = Inr g"
    and "map_of g d = Some xs" and "xs \<noteq> []"
  shows "\<exists>r\<in>set records. date_key r = d \<and> has_glucose_summary r xs"
proof -
  from assms(1,2,3) obtain i and m :: "(date \<times> real \<times> real) list" where
    b: "build_records (ohio_record g i) (sorted_dates (keys g @ keys i @ keys m)) = Inr records"
    by (auto simp: ohio_load_health_data_Inr)
  have "d \<in> set (sorted_dates (keys g @ keys i @ keys m))"
    using map_of_keys[OF assms(4)] by (simp add: sorted_dates_props)
  with list_all2_left_ex[OF build_records_Inr[OF b]]
  obtain r where "r \<in> set records" "ohio_record g i d = Inr r"
    by blast
  with ohio_record_Inr[of g i d r] assms(4,5) show ?thesis by blast
qed

subsection \<open>The example files\<close>

lemma glucose_xml_sample_example:
  assumes "map_of example_dates (ts, ''%d-%m-%Y %H:%M:%S'') = Some d"
    and "read_decimal v = Some n" and "ts \<noteq> []" and "v \<noteq> []"
  shows "glucose_xml_sample example_rt (glucose_event ts v) = Inr (Some (d, real n))"
  using assms
  by (simp add: glucose_xml_sample_def glucose_event_def dict_get_def Let_def ebind_def
      try_except_def example_rt_def)

lemma group_samples_step:
  "sample row = Inr (Some (d, x)) \<Longrightarrow>
   group_samples sample (row # rows) result = group_samples sample rows (append_to d x result)"
  by simp

lemma example_glucose:
  "ohio_load_glucose_data example_rt example_ohio = Inr [(736066, [90, 100, 110, 120, 200])]"
proof -
  have s1: "glucose_xml_sample example_rt (glucose_event ''12-04-2016 08:00:00'' ''90'') = Inr (Some (736066, 90))"
    using glucose_xml_sample_example[of "''12-04-2016 08:00:00''" 736066 "''90''" 90]
    by (simp add: example_dates_def read_decimal_def)
  have s2: "glucose_xml_sample example_rt (glucose_event ''12-04-2016 08:05:00'' ''100'') = Inr (Some (736066, 100))"
    using glucose_xml_sample_example[of "''12-04-2016 08:05:00''" 736066 "''100''" 100]
    by (simp add: example_dates_def read_decimal_def)
  have s3: "glucose_xml_sample example_rt (glucose_event ''12-04-2016 08:10:00'' ''110'') = Inr (Some (736066, 110))"
    using glucose_xml_sample_example[of "''12-04-2016 08:10:00''" 736066 "''110''" 110]
    by (simp add: example_dates_def read_decimal_def)
  have s4: "glucose_xml_sample example_rt (glucose_event ''12-04-2016 08:15:00'' ''120'') = Inr (Some (736066, 120))"
    using glucose_xml_sample_example[of "''12-04-2016 08:15:00''" 736066 "''120''" 120]
    by (simp add: example_dates_def read_decimal_def)
  have s5: "glucose_xml_sample example_rt (glucose_event ''12-04-2016 08:20:00'' ''200'') = Inr (Some (736066, 200))"
    using glucose_xml_sample_example[of "''12-04-2016 08:20:00''" 736066 "''200''" 200]
    by (simp add: example_dates_def read_decimal_def)
  show ?thesis
    by (simp add: ohio_load_glucose_data_def example_ohio_def ebind_simps
        group_samples_step[of "glucose_xml_sample example_rt", OF s1]
        group_samples_step[of "glucose_xml_sample example_rt", OF s2]
        group_samples_step[of "glucose_xml_sample example_rt", OF s3]
        group_samples_step[of "glucose_xml_sample example_rt", OF s4]
        group_samples_step[of "glucose_xml_sample example_rt", OF s5]
        append_to_same append_to_nil
        del: group_samples.simps(2))
qed

lemma example_insulin: "ohio_load_insulin_data example_rt example_ohio = Inr []"
  by (simp add: ohio_load_insulin_data_def example_ohio_def ebind_simps)

lemma example_meal: "ohio_load_meal_data example_rt example_ohio = Inr [(736067, (45, 1))]"
proof -
  have f: "py_float example_rt (PStr ''45'') = Inr 45"
    by (simp add: example_rt_def read_decimal_def)
  have d: "py_strptime example_rt (PStr ''13-04-2016 12:30:00'') ''%d-%m-%Y %H:%M:%S'' = Inr 736067"
    by (simp add: example_rt_def example_dates_def)
  show ?thesis
    by (simp add: ohio_load_meal_data_def example_ohio_def dict_get_def Let_def d f touch_def
        dict_set_def entry_of_def del: py_float.simps py_strptime.simps)
qed

lemma example_summary:
  "mean [90, 100, 110, 120, 200] = 124"
  "Min (set [90, 100, 110, 120, 200 :: real]) = 90"
  "Max (set [90, 100, 110, 120, 200 :: real]) = 200"
  "population_std [90, 100, 110, 120, 200] = sqrt 1544"
  "percent_in_range [90, 100, 110, 120, 200] = 80"
  by (simp_all add: mean_def population_std_def percent_in_range_def power2_eq_square)

lemma example_ohio_load:
  "ohio_load_health_data example_rt example_ohio = Inr [ohio_day1, create_empty_record 736067]"
proof -
  have ds: "sorted_dates [736066, 736067] = [736066, 736067]"
    by (simp add: sorted_dates_def)
  have ne: "[90, 100, 110, 120, 200] \<noteq> ([] :: real list)"
    by simp
  have r1: "ohio_record [(736066, [90, 100, 110, 120, 200])] [] 736066 = Inr ohio_day1"
    by (simp add: ohio_record_def glucose_metrics_eq[OF ne] example_summary ebind_simps
        create_empty_record_def dict_set_def ohio_day1_def)
  have r2: "ohio_record [(736066, [90, 100, 110, 120, 200])] [] 736067
      = Inr (create_empty_record 736067)"
    by (simp add: ohio_record_def ebind_simps)
  show ?thesis
    unfolding ohio_load_health_data_def example_glucose example_insulin example_meal ebind_simps
    by (simp add: example_ohio_def keys_def ds r1 r2)
qed

text \<open>
  The glucose summary in exact arithmetic, where floats are real numbers: for a
  non-empty list of glucose samples of one day the record of the day has
  \<open>glucose_avg\<close> the arithmetic mean, \<open>glucose_min\<close> and \<open>glucose_max\<close> the minimum and
  the maximum, \<open>glucose_std\<close> the population standard deviation (divisor \<open>N\<close>) and
  \<open>time_in_range\<close> the percentage of samples within 70 to 180 inclusive. For the
  samples 90, 100, 110, 120, 200 the values are 124, 90, 200, the square root of 1544,
  and 80.
\<close>

theorem glucose_daily_summary:
  assumes "glucose_values \<noteq> []"
  shows "(\<exists>r. glucose_metrics glucose_values (create_empty_record d) = Inr r
            \<and> has_glucose_summary r glucose_values)
       \<and> (oh_available fs \<and> ohio_load_health_data rt fs = Inr records
            \<and> ohio_load_glucose_data rt fs = Inr g \<and> map_of g d = Some glucose_values
          \<longrightarrow> (\<exists>r\<in>set records. date_key r = d \<and> has_glucose_summary r glucose_values))"
proof -
  obtain r where r: "glucose_metrics glucose_values (create_empty_record d) = Inr r"
    using glucose_metrics_eq[OF assms] by blast
  from glucose_metrics_summary[OF assms r] r
  have "\<exists>r. glucose_metrics glucose_values (create_empty_record d) = Inr r
          \<and> has_glucose_summary r glucose_values"
    by blast
  then show ?thesis
    using ohio_glucose_record[of rt fs records g d glucose_values] assms by blast
qed

theorem glucose_daily_summary_witness:
  "ohio_load_health_data example_rt example_ohio = Inr [ohio_day1, create_empty_record 736067]
   \<and> has_glucose_summary ohio_day1 [90, 100, 110, 120, 200]
   \<and> mean [90, 100, 110, 120, 200] = 124
   \<and> Min (set [90, 100, 110, 120, 200 :: real]) = 90
   \<and> Max (set [90, 100, 110, 120, 200 :: real]) = 200
   \<and> population_std [90, 100, 110, 120, 200] = sqrt 1544
   \<and> percent_in_range [90, 100, 110, 120, 200] = 80"
proof -
  have ne: "[90, 100, 110, 120, 200] \<noteq> ([] :: real list)"
    by simp
  have av: "oh_available example_ohio"
    by (simp add: example_ohio_def)
  have look: "map_of [(736066 :: date, [90, 100, 110, 120, 200 :: real])] 736066
      = Some [90, 100, 110, 120, 200]"
    by simp
  have "\<exists>r\<in>set [ohio_day1, create_empty_record 736067]. date_key r = 736066
      \<and> has_glucose_summary r [90, 100, 110, 120, 200]"
    using glucose_daily_summary [OF ne, of 736066 example_ohio example_rt
        "[ohio_day1, create_empty_record 736067]" "[(736066, [90, 100, 110, 120, 200])]"]
      av example_ohio_load example_glucose look
    by blast
  moreover have "date_key (create_empty_record 736067) \<noteq> 736066"
    by (simp add: date_key_def create_empty_record_def)
  ultimately have "has_glucose_summary ohio_day1 [90, 100, 110, 120, 200]"
    by auto
  with example_ohio_load example_summary show ?thesis by simp
qed

section \<open>Records of every adapter\<close>

text \<open>A record with all fields of the schema, dated \<open>d\<close>, stays so when a field other than the date is set.\<close>

lemma schema_create_empty_record:
  "keys (create_empty_record d) = canonical_fields
   \<and> map_of (create_empty_record d) ''date'' = Some (PDate d)"
  by (simp add: keys_create_empty_record) (simp add: create_empty_record_def)

lemma schema_dict_set:
  assumes "keys r = canonical_fields \<and> map_of r ''date'' = Some (PDate d)"
    and "k \<in> set canonical_fields" and "k \<noteq> ''date''"
  shows "keys (dict_set k v r) = canonical_fields
       \<and> map_of (dict_set k v r) ''date'' = Some (PDate d)"
  using assms by (simp add: keys_dict_set_mem map_of_dict_set)

lemma schema_set_hours:
  assumes "keys r = canonical_fields \<and> map_of r ''date'' = Some (PDate d)"
    and "k \<in> set canonical_fields" and "k \<noteq> ''date''"
  shows "keys (set_hours k x r) = canonical_fields
       \<and> map_of (set_hours k x r) ''date'' = Some (PDate d)"
  using schema_dict_set[OF assms] assms(1) by (simp add: set_hours_def)

lemma schema_set_score:
  assumes "keys r = canonical_fields \<and> map_of r ''date'' = Some (PDate d)"
  shows "keys (set_score x r) = canonical_fields
       \<and> map_of (set_score x r) ''date'' = Some (PDate d)"
proof -
  have "''sleep_score'' \<in> set canonical_fields" "''sleep_score'' \<noteq> ''date''"
    by (simp_all add: canonical_fields_def)
  from schema_dict_set[OF assms this] assms show ?thesis
    by (simp add: set_score_def)
qed

lemma canonical_members:
  "''sleep_duration'' \<in> set canonical_fields" "''deep_sleep'' \<in> set canonical_fields"
  "''rem_sleep'' \<in> set canonical_fields" "''light_sleep'' \<in> set canonical_fields"
  "''awake_time'' \<in> set canonical_fields" "''steps'' \<in> set canonical_fields"
  by (simp_all add: canonical_fields_def)

lemma psg_record_schema:
  assumes "psg_record rt row = Inr r"
  shows "keys r = canonical_fields \<and> map_of r ''date'' = Some (PDate reference_date)"
proof -
  from assms obtain tst eff n3 rm n1 n2 waso b where
    b: "b = set_hours ''rem_sleep'' rm
             (set_hours ''deep_sleep'' n3
               (set_score eff
                 (set_hours ''sleep_duration'' tst (create_empty_record reference_date))))"
    and r: "r = set_hours ''awake_time'' waso
          (if or_zero n1 \<noteq> 0 \<or> or_zero n2 \<noteq> 0
           then dict_set ''light_sleep'' (PFloat ((or_zero n1 + or_zero n2) / 60)) b
           else b)"
    by (auto simp: psg_record_def ebind_Inr Let_def)
  note s0 = schema_create_empty_record[of reference_date]
  note s1 = schema_set_hours[OF s0 canonical_members(1), of tst]
  note s2 = schema_set_score[OF s1[simplified], of eff]
  note s3 = schema_set_hours[OF s2 canonical_members(2), of n3]
  note s4 = schema_set_hours[OF s3[simplified] canonical_members(3), of rm]
  have sb: "keys b = canonical_fields \<and> map_of b ''date'' = Some (PDate reference_date)"
    using s4 by (simp add: b)
  have s5: "keys (if or_zero n1 \<noteq> 0 \<or> or_zero n2 \<noteq> 0
           then dict_set ''light_sleep'' (PFloat ((or_zero n1 + or_zero n2) / 60)) b
           else b) = canonical_fields
      \<and> map_of (if or_zero n1 \<noteq> 0 \<or> or_zero n2 \<noteq> 0
           then dict_set ''light_sleep'' (PFloat ((or_zero n1 + or_zero n2) / 60)) b
           else b) ''date'' = Some (PDate reference_date)"
    using sb schema_dict_set[OF sb canonical_members(4)]
    by simp
  from schema_set_hours[OF s5 canonical_members(5), of waso] show ?thesis
    by (simp add: r)
qed

lemma actigraphy_record_schema:
  assumes "actigraphy_record rt row d = Inr r"
  shows "keys r = canonical_fields \<and> map_of r ''date'' = Some (PDate d)"
proof -
  from assms obtain sleep_min eff activity b where
    b: "b = set_score eff (set_hours ''sleep_duration'' sleep_min (create_empty_record d))"
    and r: "r = (case activity of None \<Rightarrow> b
             | Some a \<Rightarrow> if a \<noteq> 0 then dict_set ''steps'' (PInt a) b else b)"
    by (auto simp: actigraphy_record_def ebind_Inr Let_def)
  note s0 = schema_create_empty_record[of d]
  note s1 = schema_set_hours[OF s0 canonical_members(1), of sleep_min]
  note s2 = schema_set_score[OF s1[simplified], of eff]
  have sb: "keys b = canonical_fields \<and> map_of b ''date'' = Some (PDate d)"
    using s2 by (simp add: b)
  show ?thesis
    using sb schema_dict_set[OF sb canonical_members(6)]
    by (simp add: r split: option.splits)
qed

lemma date_key_schema: "map_of r ''date'' = Some (PDate d) \<Longrightarrow> date_key r = d"
  by (simp add: date_key_def)

lemma date_plus_days_Inr: "date_plus_days d n = Inr d' \<Longrightarrow> d' = d + int n"
  by (simp add: date_plus_days_def split: if_splits)

lemma actigraphy_rows_Inr:
  "actigraphy_rows rt sid rows n = Inr rs \<Longrightarrow>
     (\<forall>r\<in>set rs. keys r = canonical_fields \<and> map_of r ''date'' = Some (PDate (date_key r)))
     \<and> record_dates rs = map (\<lambda>i. reference_date + int i) [n..<n + length rs]"
proof (induction rows arbitrary: n rs)
  case Nil
  then show ?case by (simp add: record_dates_def)
next
  case (Cons row rows)
  show ?case
  proof (cases "mesa_subj_id row \<noteq> PStr sid")
    case True
    with Cons.prems have "actigraphy_rows rt sid rows n = Inr rs" by simp
    from Cons.IH[OF this] show ?thesis .
  next
    case False
    with Cons.prems obtain d r rest where
      d: "date_plus_days reference_date n = Inr d"
      and r: "actigraphy_record rt row d = Inr r"
      and rest: "actigraphy_rows rt sid rows (n + 1) = Inr rest"
      and rs: "rs = r # rest"
      by (auto simp: ebind_Inr)
    from actigraphy_record_schema[OF r] date_plus_days_Inr[OF d]
    have sr: "keys r = canonical_fields" "map_of r ''date'' = Some (PDate (reference_date + int n))"
      by simp_all
    then have dk: "date_key r = reference_date + int n"
      by (simp add: date_key_schema)
    have "[n..<n + length rs] = n # [Suc n..<Suc n + length rest]"
      unfolding rs by (subst upt_rec) simp
    with Cons.IH[OF rest] sr dk show ?thesis
      by (simp add: rs record_dates_def)
  qed
qed

lemma psg_rows_Inr:
  "psg_rows rt sid rows = Inr (Some r) \<Longrightarrow>
     keys r = canonical_fields \<and> map_of r ''date'' = Some (PDate reference_date)"
proof (induction rows)
  case Nil
  then show ?case by simp
next
  case (Cons row rows)
  then show ?case
    by (auto simp: ebind_Inr psg_record_schema split: if_splits)
qed

lemma mesa_load_psg_data_Inr:
  "mesa_load_psg_data rt fs sid = Inr (Some r) \<Longrightarrow>
     keys r = canonical_fields \<and> map_of r ''date'' = Some (PDate reference_date)"
  by (auto simp: mesa_load_psg_data_def psg_rows_Inr split: option.splits)

lemma mesa_load_actigraphy_data_Inr:
  "mesa_load_actigraphy_data rt fs sid = Inr rs \<Longrightarrow>
     (\<forall>r\<in>set rs. keys r = canonical_fields \<and> map_of r ''date'' = Some (PDate (date_key r)))
     \<and> record_dates rs = map (\<lambda>i. reference_date + int i) [0..<length rs]"
proof (cases "ms_actigraphy fs")
  case None
  assume "mesa_load_actigraphy_data rt fs sid = Inr rs"
  with None show ?thesis by (simp add: mesa_load_actigraphy_data_def record_dates_def)
next
  case (Some rows)
  assume "mesa_load_actigraphy_data rt fs sid = Inr rs"
  with Some have "actigraphy_rows rt sid rows 0 = Inr rs"
    by (simp add: mesa_load_actigraphy_data_def)
  from actigraphy_rows_Inr[OF this] show ?thesis by simp
qed

lemma mesa_load_health_data_Inr:
  "mesa_load_health_data rt fs sid = Inr records \<longleftrightarrow>
     (\<not> ms_available fs \<and> records = []) \<or>
     (ms_available fs \<and> (\<exists>p a. mesa_load_psg_data rt fs sid = Inr p
        \<and> mesa_load_actigraphy_data rt fs sid = Inr a
        \<and> records = sort_key date_key ((case p of None \<Rightarrow> [] | Some r \<Rightarrow> [r]) @ a)))"
  by (auto simp: mesa_load_health_data_def ebind_Inr Let_def)

lemma count_list_insort_key:
  "count_list (map f (insort_key f x xs)) y = count_list (map f (x # xs)) y"
  by (induction xs) auto

lemma count_list_sort_key: "count_list (map f (sort_key f xs)) y = count_list (map f xs) y"
  by (induction xs) (simp_all add: count_list_insort_key)

lemma distinct_count_list_le: "distinct xs \<Longrightarrow> count_list xs y \<le> 1"
  by (induction xs) (auto simp: count_list_0_iff)

lemma count_list_append': "count_list (xs @ ys) y = count_list xs y + count_list ys y"
  by (induction xs) auto

lemma mesa_records:
  assumes "mesa_load_health_data rt fs sid = Inr records"
  shows "\<forall>r\<in>set records. keys r = canonical_fields \<and> map_of r ''date'' = Some (PDate (date_key r))"
    and "sorted (record_dates records)"
    and "count_list (record_dates records) d \<le> (if d = reference_date then 2 else 1)"
proof -
  show "\<forall>r\<in>set records. keys r = canonical_fields \<and> map_of r ''date'' = Some (PDate (date_key r))"
  proof (cases "ms_available fs")
    case False
    with assms show ?thesis by (simp add: mesa_load_health_data_Inr)
  next
    case True
    with assms obtain p a where p: "mesa_load_psg_data rt fs sid = Inr p"
      and a: "mesa_load_actigraphy_data rt fs sid = Inr a"
      and recs: "records = sort_key date_key ((case p of None \<Rightarrow> [] | Some r \<Rightarrow> [r]) @ a)"
      by (auto simp: mesa_load_health_data_Inr)
    show ?thesis
      using mesa_load_actigraphy_data_Inr[OF a] mesa_load_psg_data_Inr[of rt fs sid] p
      by (auto simp: recs date_key_schema split: option.splits)
  qed
  show "sorted (record_dates records)"
    using assms by (auto simp: mesa_load_health_data_Inr record_dates_def sorted_sort_key)
  show "count_list (record_dates records) d \<le> (if d = reference_date then 2 else 1)"
  proof (cases "ms_available fs")
    case False
    with assms show ?thesis by (simp add: mesa_load_health_data_Inr record_dates_def)
  next
    case True
    with assms obtain p a where p: "mesa_load_psg_data rt fs sid = Inr p"
      and a: "mesa_load_actigraphy_data rt fs sid = Inr a"
      and recs: "records = sort_key date_key ((case p of None \<Rightarrow> [] | Some r \<Rightarrow> [r]) @ a)"
      by (auto simp: mesa_load_health_data_Inr)
    have "distinct (map (\<lambda>i. reference_date + int i) [0..<length a])"
      by (simp add: distinct_map inj_on_def)
    with mesa_load_actigraphy_data_Inr[OF a] have "distinct (record_dates a)"
      by simp
    then have ca: "count_list (map date_key a) d \<le> 1"
      unfolding record_dates_def by (rule distinct_count_list_le)
    have cp: "count_list (map date_key (case p of None \<Rightarrow> [] | Some r \<Rightarrow> [r])) d
        \<le> (if d = reference_date then 1 else 0)"
      using mesa_load_psg_data_Inr[of rt fs sid] p
      by (auto simp: date_key_schema split: option.splits)
    have "count_list (record_dates records) d
        = count_list (map date_key (case p of None \<Rightarrow> [] | Some r \<Rightarrow> [r])) d
          + count_list (map date_key a) d"
      by (simp add: recs record_dates_def count_list_sort_key count_list_append')
    with ca cp show ?thesis by (simp split: if_splits)
  qed
qed

lemma ohio_record_date:
  assumes "ohio_record g i d = Inr r"
  shows "map_of r ''date'' = Some (PDate d)"
proof -
  from assms obtain r0 where
    r0: "(case map_of g d of None \<Rightarrow> Inr (create_empty_record d)
          | Some xs \<Rightarrow> glucose_metrics xs (create_empty_record d)) = Inr r0"
    and r: "r = (case map_of i d of None \<Rightarrow> r0 | Some ins \<Rightarrow> dict_set ''readiness_score'' PNone r0)"
    by (auto simp: ohio_record_def ebind_Inr)
  have e0: "map_of (create_empty_record d) ''date'' = Some (PDate d)"
    by (simp add: create_empty_record_def)
  have d0: "map_of r0 ''date'' = Some (PDate d)"
  proof (cases "map_of g d")
    case None
    with r0 e0 show ?thesis by auto
  next
    case (Some ys)
    with r0 have "glucose_metrics ys (create_empty_record d) = Inr r0" by simp
    from glucose_metrics_Inr(2)[OF this keys_create_empty_record] e0 show ?thesis by simp
  qed
  then show ?thesis
    by (simp add: r map_of_dict_set split: option.splits)
qed

lemma ohio_record_no_glucose:
  assumes "ohio_record g i d = Inr r" and "map_of g d = None"
  shows "fields_missing r [''glucose_avg'', ''glucose_min'', ''glucose_max'', ''glucose_std'', ''time_in_range'']"
proof -
  from assms have
    "r = (case map_of i d of None \<Rightarrow> create_empty_record d
          | Some ins \<Rightarrow> dict_set ''readiness_score'' PNone (create_empty_record d))"
    by (auto simp: ohio_record_def ebind_Inr)
  then show ?thesis
    by (simp add: fields_missing_def map_of_dict_set create_empty_record_def split: option.splits)
qed

lemma build_records_dates:
  assumes "build_records build ds = Inr rs" and "\<And>d r. build d = Inr r \<Longrightarrow> date_key r = d"
  shows "record_dates rs = ds"
  using assms
proof (induction ds arbitrary: rs)
  case Nil
  then show ?case by (simp add: record_dates_def)
next
  case (Cons d ds)
  then show ?case by (auto simp: record_dates_def split: sum.splits)
qed

lemma ohio_records:
  assumes "build_records (ohio_record g i) ds = Inr records"
  shows "record_dates records = ds"
    and "r \<in> set records \<Longrightarrow> keys r = canonical_fields \<and> map_of r ''date'' = Some (PDate (date_key r))"
    and "r \<in> set records \<Longrightarrow> map_of g (date_key r) = None \<Longrightarrow>
      fields_missing r [''glucose_avg'', ''glucose_min'', ''glucose_max'', ''glucose_std'', ''time_in_range'']"
proof -
  show "record_dates records = ds"
    using assms ohio_record_Inr(2) by (rule build_records_dates)
  assume "r \<in> set records"
  with list_all2_right_ex[OF build_records_Inr[OF assms]]
  obtain d where d: "ohio_record g i d = Inr r" by blast
  from ohio_record_Inr(1)[OF d] ohio_record_date[OF d]
  show "keys r = canonical_fields \<and> map_of r ''date'' = Some (PDate (date_key r))"
    by (simp add: date_key_schema)
  assume "map_of g (date_key r) = None"
  with ohio_record_no_glucose[OF d] ohio_record_Inr(2)[OF d]
  show "fields_missing r [''glucose_avg'', ''glucose_min'', ''glucose_max'', ''glucose_std'', ''time_in_range'']"
    by simp
qed

lemma fitbit_record_fields:
  "tributary_fields (fitbit_record a s h d) a
     [''steps'', ''distance_km'', ''active_calories'', ''total_calories'', ''active_minutes'',
      ''sedentary_minutes'']"
  "tributary_fields (fitbit_record a s h d) s [''sleep_duration'', ''sleep_score'']"
  "tributary_fields (fitbit_record a s h d) h [''resting_hr'', ''hr_min'', ''hr_max'']"
  unfolding tributary_fields_def date_key_fitbit_record
  unfolding fitbit_record_def
  by (simp_all add: map_of_overlay_other map_of_overlay_in create_empty_record_def
      split: option.splits)

lemma pm_record_fields:
  "tributary_fields (pm_record s h a d) s
     [''sleep_duration'', ''sleep_score'', ''deep_sleep'', ''rem_sleep'', ''light_sleep'',
      ''awake_time'']"
  "tributary_fields (pm_record s h a d) h [''resting_hr'', ''hrv'', ''hr_min'', ''hr_max'']"
  "tributary_fields (pm_record s h a d) a [''steps'', ''active_calories'', ''active_minutes'']"
  unfolding tributary_fields_def date_key_pm_record
  unfolding pm_record_def
  by (simp_all add: map_of_overlay_other map_of_overlay_in create_empty_record_def
      split: option.splits)

lemma length_sorted_dates: "length (sorted_dates ds) = card (set ds)"
  by (simp add: sorted_dates_def length_remdups_card_conv)

lemma schema_fitbit_record:
  "keys (fitbit_record a s h d) = canonical_fields
   \<and> map_of (fitbit_record a s h d) ''date'' = Some (PDate (date_key (fitbit_record a s h d)))"
  by (simp add: keys_fitbit_record date_fitbit_record date_key_fitbit_record)

lemma schema_pm_record:
  "keys (pm_record s h a d) = canonical_fields
   \<and> map_of (pm_record s h a d) ''date'' = Some (PDate (date_key (pm_record s h a d)))"
  by (simp add: keys_pm_record date_pm_record date_key_pm_record)

text \<open>What every adapter's records have in common.\<close>

lemma adapter_records_schema:
  assumes "adapter_load_health_data rt ds sid = Inr records" and "r \<in> set records"
  shows "keys r = canonical_fields \<and> map_of r ''date'' = Some (PDate (date_key r))"
proof (cases ds)
  case (FitbitKaggle fs)
  with assms show ?thesis
    by (auto simp: fitbit_load_health_data_Inr schema_fitbit_record)
next
  case (PMData fs)
  with assms show ?thesis
    by (auto simp: pm_load_health_data_Inr schema_pm_record)
next
  case (OhioT1DM fs)
  with assms show ?thesis
    by (auto simp: ohio_load_health_data_Inr dest: ohio_records(2))
next
  case (NSRRMesa fs)
  with assms mesa_records(1)[of rt fs sid records] show ?thesis
    by auto
next
  case NHANES
  with assms show ?thesis by (simp add: nhanes_load_health_data_def)
next
  case ThousandGenomes
  with assms show ?thesis by (simp add: thousand_genomes_load_health_data_def)
qed

lemma adapter_records_dates:
  assumes "adapter_load_health_data rt ds sid = Inr records"
  shows "sorted (record_dates records)"
    and "(\<forall>fs. ds \<noteq> NSRRMesa fs) \<Longrightarrow> distinct (record_dates records)"
proof -
  have "sorted (record_dates records)
      \<and> ((\<forall>fs. ds \<noteq> NSRRMesa fs) \<longrightarrow> distinct (record_dates records))"
  proof (cases ds)
    case (FitbitKaggle fs)
    with assms show ?thesis
      by (auto simp: fitbit_load_health_data_Inr record_dates_fitbit sorted_dates_props)
         (simp_all add: record_dates_def)
  next
    case (PMData fs)
    with assms show ?thesis
      by (auto simp: pm_load_health_data_Inr record_dates_pm sorted_dates_props)
         (simp_all add: record_dates_def)
  next
    case (OhioT1DM fs)
    with assms show ?thesis
      by (auto simp: ohio_load_health_data_Inr ohio_records(1) sorted_dates_props)
         (simp_all add: record_dates_def)
  next
    case (NSRRMesa fs)
    with assms mesa_records(2)[of rt fs sid records] show ?thesis
      by auto
  next
    case NHANES
    with assms show ?thesis by (simp add: nhanes_load_health_data_def record_dates_def)
  next
    case ThousandGenomes
    with assms show ?thesis
      by (simp add: thousand_genomes_load_health_data_def record_dates_def)
  qed
  then show "sorted (record_dates records)"
    and "(\<forall>fs. ds \<noteq> NSRRMesa fs) \<Longrightarrow> distinct (record_dates records)"
    by auto
qed

text \<open>
  C5. Every record that any adapter's \<open>load_health_data\<close> returns has exactly the 26
  field names of the schema as its keys, in the order of the schema; a field without
  data is present (with \<open>None\<close>), never absent.
\<close>

theorem schema_complete:
  assumes "adapter_load_health_data rt ds sid = Inr records" and "r \<in> set records"
  shows "keys r = canonical_fields
       \<and> (\<forall>k\<in>set canonical_fields. map_of r k \<noteq> None)
       \<and> length canonical_fields = 26 \<and> distinct canonical_fields"
proof -
  from adapter_records_schema[OF assms] have k: "keys r = canonical_fields" by simp
  have "map_of r k \<noteq> None" if "k \<in> set canonical_fields" for k
  proof -
    from that k have "k \<in> set (map fst r)" by (simp add: keys_def)
    then have "k \<in> fst ` set r" by simp
    then show ?thesis by (simp only: map_of_eq_None_iff not_False_eq_True not_not)
  qed
  moreover have "length canonical_fields = 26 \<and> distinct canonical_fields"
    by (simp add: canonical_fields_def)
  ultimately show ?thesis using k by blast
qed

text \<open>
  C3, as the code has it. The sequence that an adapter's \<open>load_health_data\<close> returns is
  sorted ascending by date, and every record holds a date. No two records share a date
  for any adapter but NSRR MESA; there only the placeholder date 2012-01-01 can occur
  twice (the polysomnography night and the first actigraphy day), and no date occurs more
  than that.
\<close>

theorem dates_ascending:
  assumes "adapter_load_health_data rt ds sid = Inr records"
  shows "sorted (record_dates records)
       \<and> (\<forall>r\<in>set records. map_of r ''date'' = Some (PDate (date_key r)))
       \<and> ((\<forall>fs. ds \<noteq> NSRRMesa fs) \<longrightarrow> distinct (record_dates records))
       \<and> (\<forall>d. count_list (record_dates records) d \<le> (if d = reference_date then 2 else 1))"
proof -
  have c: "count_list (record_dates records) d \<le> (if d = reference_date then 2 else 1)" for d
  proof (cases "\<forall>fs. ds \<noteq> NSRRMesa fs")
    case True
    from distinct_count_list_le[OF adapter_records_dates(2)[OF assms True], of d]
    show ?thesis by (cases "d = reference_date") simp_all
  next
    case False
    then obtain fs where "ds = NSRRMesa fs" by blast
    with assms mesa_records(3)[of rt fs sid records d] show ?thesis by simp
  qed
  show ?thesis
    using adapter_records_dates[OF assms] adapter_records_schema[OF assms] c
    by blast
qed

subsection \<open>The MESA example\<close>

lemma example_mesa_load:
  "adapter_load_health_data example_rt (NSRRMesa example_mesa) ''1'' =
     Inr [mesa_psg_night, mesa_acti_day0, mesa_acti_day1]"
proof -
  have sf: "safe_float example_rt (PStr ''420'') = Inr (Some 420)"
    "safe_float example_rt (PStr ''480'') = Inr (Some 480)"
    "safe_float example_rt (PStr ''360'') = Inr (Some 360)"
    "safe_float example_rt PNone = Inr None"
    "safe_int example_rt PNone = Inr None"
    using safe_float_example[of "''420''" 420] safe_float_example[of "''480''" 480]
      safe_float_example[of "''360''" 360]
    by (simp_all add: read_decimal_def safe_float_def safe_int_def)
  have psg: "psg_record example_rt [(''mesaid'', PStr ''1''), (''slpprdp'', PStr ''420'')]
      = Inr mesa_psg_night"
    by (simp add: psg_record_def dict_get_def sf ebind_simps Let_def set_hours_def set_score_def
        nonzero_def or_zero_def reference_date_def mesa_psg_night_def)
  have a0: "actigraphy_record example_rt [(''mesaid'', PStr ''1''), (''sleepmain'', PStr ''480'')] 734503
      = Inr mesa_acti_day0"
    by (simp add: actigraphy_record_def dict_get_def py_or_def sf ebind_simps Let_def
        set_hours_def set_score_def nonzero_def mesa_acti_day0_def)
  have a1: "actigraphy_record example_rt [(''mesaid'', PStr ''1''), (''sleepmain'', PStr ''360'')] 734504
      = Inr mesa_acti_day1"
    by (simp add: actigraphy_record_def dict_get_def py_or_def sf ebind_simps Let_def
        set_hours_def set_score_def nonzero_def mesa_acti_day1_def)
  have id: "mesa_subj_id [(''mesaid'', PStr ''1''), (''slpprdp'', PStr ''420'')] = PStr ''1''"
    "mesa_subj_id [(''mesaid'', PStr ''1''), (''sleepmain'', PStr ''480'')] = PStr ''1''"
    "mesa_subj_id [(''mesaid'', PStr ''1''), (''sleepmain'', PStr ''360'')] = PStr ''1''"
    by (simp_all add: mesa_subj_id_def dict_get_def py_or_def)
  have d: "date_plus_days reference_date 0 = Inr 734503"
    "date_plus_days reference_date (Suc 0) = Inr 734504"
    by (simp_all add: date_plus_days_def reference_date_def date_max_def)
  have p: "mesa_load_psg_data example_rt example_mesa ''1'' = Inr (Some mesa_psg_night)"
    by (simp add: mesa_load_psg_data_def example_mesa_def id psg ebind_simps)
  have a: "mesa_load_actigraphy_data example_rt example_mesa ''1''
      = Inr [mesa_acti_day0, mesa_acti_day1]"
    by (simp add: mesa_load_actigraphy_data_def example_mesa_def id d a0 a1 ebind_simps)
  have k: "date_key mesa_psg_night = 734503" "date_key mesa_acti_day0 = 734503"
    "date_key mesa_acti_day1 = 734504"
    by (simp_all add: date_key_def mesa_psg_night_def mesa_acti_day0_def mesa_acti_day1_def
        map_of_dict_set create_empty_record_def)
  show ?thesis
    by (simp add: mesa_load_health_data_def p a ebind_simps k) (simp add: example_mesa_def)
qed

lemma example_mesa_dates:
  "record_dates [mesa_psg_night, mesa_acti_day0, mesa_acti_day1] = [734503, 734503, 734504]"
  by (simp add: record_dates_def date_key_def mesa_psg_night_def mesa_acti_day0_def
      mesa_acti_day1_def map_of_dict_set create_empty_record_def)

lemma example_fitbit_adapter_load:
  "adapter_load_health_data example_rt (FitbitKaggle example_fitbit) ''1503960366''
     = Inr [example_day1, example_day2]"
  by (simp add: example_fitbit_load)

lemma example_ohio_adapter_load:
  "adapter_load_health_data example_rt (OhioT1DM example_ohio) ''559''
     = Inr [ohio_day1, create_empty_record 736067]"
  by (simp add: example_ohio_load)

theorem schema_complete_witness:
  "adapter_load_health_data example_rt (FitbitKaggle example_fitbit) ''1503960366''
     = Inr [example_day1, example_day2]
   \<and> example_day2 \<in> set [example_day1, example_day2]
   \<and> keys example_day2 = canonical_fields
   \<and> map_of example_day2 ''steps'' = Some PNone"
proof -
  have m: "example_day2 \<in> set [example_day1, example_day2]"
    by simp
  have "map_of example_day2 ''steps'' = Some PNone"
    by (simp add: example_day2_def)
  with schema_complete [OF example_fitbit_adapter_load m] example_fitbit_adapter_load m
  show ?thesis by blast
qed

text \<open>
  C3 as stated fails for NSRR MESA: with one polysomnography row and two actigraphy
  rows of the subject, the first two records are both dated 2012-01-01.
\<close>

theorem mesa_shared_placeholder_date:
  "adapter_load_health_data example_rt (NSRRMesa example_mesa) ''1''
     = Inr [mesa_psg_night, mesa_acti_day0, mesa_acti_day1]
   \<and> record_dates [mesa_psg_night, mesa_acti_day0, mesa_acti_day1] = [734503, 734503, 734504]
   \<and> \<not> distinct (record_dates [mesa_psg_night, mesa_acti_day0, mesa_acti_day1])"
  using example_mesa_load by (simp add: example_mesa_dates)

theorem dates_ascending_witness:
  "adapter_load_health_data example_rt (NSRRMesa example_mesa) ''1''
     = Inr [mesa_psg_night, mesa_acti_day0, mesa_acti_day1]
   \<and> sorted (record_dates [mesa_psg_night, mesa_acti_day0, mesa_acti_day1])
   \<and> count_list (record_dates [mesa_psg_night, mesa_acti_day0, mesa_acti_day1]) reference_date = 2
   \<and> adapter_load_health_data example_rt (FitbitKaggle example_fitbit) ''1503960366''
     = Inr [example_day1, example_day2]
   \<and> distinct (record_dates [example_day1, example_day2])"
proof -
  have c: "count_list (record_dates [mesa_psg_night, mesa_acti_day0, mesa_acti_day1]) reference_date = 2"
    by (simp add: example_mesa_dates reference_date_def)
  have "\<forall>fs. FitbitKaggle example_fitbit \<noteq> NSRRMesa fs"
    by simp
  with dates_ascending [OF example_mesa_load] dates_ascending [OF example_fitbit_adapter_load]
    example_mesa_load example_fitbit_adapter_load c
  show ?thesis by blast
qed

lemma set_record_dates_sort_key:
  "set (record_dates (sort_key date_key xs)) = set (record_dates xs)"
  by (simp add: record_dates_def)

lemma record_dates_append: "record_dates (xs @ ys) = record_dates xs @ record_dates ys"
  by (simp add: record_dates_def)

lemma tributary_dates_union:
  assumes "reads_tributaries ds" and "adapter_load_health_data rt ds sid = Inr records"
  shows "\<exists>dates. tributary_dates rt ds sid = Inr dates
           \<and> set (record_dates records) = set dates
           \<and> ((\<forall>fs. ds \<noteq> NSRRMesa fs) \<longrightarrow> length records = card (set dates))"
proof (cases ds)
  case (FitbitKaggle fs)
  with assms obtain a s h where
    t: "fitbit_load_activity_data rt fs sid = Inr a" "fitbit_load_sleep_data rt fs sid = Inr s"
      "fitbit_load_heart_rate_data rt fs sid = Inr h"
    and r: "records = map (fitbit_record a s h) (sorted_dates (keys a @ keys s @ keys h))"
    by (auto simp: fitbit_load_health_data_Inr)
  have "tributary_dates rt ds sid = Inr (keys a @ keys s @ keys h)"
    by (simp add: FitbitKaggle t ebind_simps)
  then show ?thesis
    by (simp add: r record_dates_fitbit sorted_dates_props length_sorted_dates)
next
  case (PMData fs)
  with assms obtain s h a where
    t: "pm_load_sleep_data rt fs = Inr s" "pm_load_hr_data rt fs = Inr h"
      "pm_load_activity_data rt fs = Inr a"
    and r: "records = map (pm_record s h a) (sorted_dates (keys s @ keys h @ keys a))"
    by (auto simp: pm_load_health_data_Inr)
  have "tributary_dates rt ds sid = Inr (keys s @ keys h @ keys a)"
    by (simp add: PMData t ebind_simps)
  then show ?thesis
    by (simp add: r record_dates_pm sorted_dates_props length_sorted_dates)
next
  case (OhioT1DM fs)
  with assms obtain g i m where
    t: "ohio_load_glucose_data rt fs = Inr g" "ohio_load_insulin_data rt fs = Inr i"
      "ohio_load_meal_data rt fs = Inr m"
    and b: "build_records (ohio_record g i) (sorted_dates (keys g @ keys i @ keys m)) = Inr records"
    by (auto simp: ohio_load_health_data_Inr)
  have "tributary_dates rt ds sid = Inr (keys g @ keys i @ keys m)"
    by (simp add: OhioT1DM t ebind_simps)
  moreover have "length records = length (record_dates records)"
    by (simp add: record_dates_def)
  ultimately show ?thesis
    using ohio_records(1)[OF b]
    by (simp add: sorted_dates_props length_sorted_dates)
next
  case (NSRRMesa fs)
  with assms obtain p a where
    t: "mesa_load_psg_data rt fs sid = Inr p" "mesa_load_actigraphy_data rt fs sid = Inr a"
    and r: "records = sort_key date_key ((case p of None \<Rightarrow> [] | Some r \<Rightarrow> [r]) @ a)"
    by (auto simp: mesa_load_health_data_Inr)
  have "tributary_dates rt ds sid
      = Inr (record_dates (case p of None \<Rightarrow> [] | Some r \<Rightarrow> [r]) @ record_dates a)"
    by (simp add: NSRRMesa t ebind_simps)
  then show ?thesis
    by (simp add: r NSRRMesa set_record_dates_sort_key record_dates_append)
next
  case NHANES
  with assms show ?thesis by (simp add: nhanes_load_health_data_def record_dates_def)
next
  case ThousandGenomes
  with assms show ?thesis
    by (simp add: thousand_genomes_load_health_data_def record_dates_def)
qed

lemma closed_gate_empty:
  assumes "\<not> reads_tributaries ds" and "adapter_load_health_data rt ds sid = Inr records"
  shows "records = []"
  using assms
  by (cases ds)
     (auto simp: fitbit_load_health_data_Inr pm_load_health_data_Inr ohio_load_health_data_Inr
        mesa_load_health_data_Inr)

lemma hidden_fitbit_tributaries:
  "tributary_dates example_rt (FitbitKaggle hidden_fitbit) ''1503960366'' = Inr [736067, 736066]"
proof -
  have s: "fitbit_load_sleep_data example_rt hidden_fitbit ''1503960366''
      = fitbit_load_sleep_data example_rt example_fitbit ''1503960366''"
    by (simp add: fitbit_load_sleep_data_def hidden_fitbit_def)
  have h: "fitbit_load_heart_rate_data example_rt hidden_fitbit ''1503960366''
      = fitbit_load_heart_rate_data example_rt example_fitbit ''1503960366''"
    by (simp add: fitbit_load_heart_rate_data_def fitbit_daily_hr_def hidden_fitbit_def)
  have a: "fitbit_load_activity_data example_rt hidden_fitbit ''1503960366'' = Inr []"
    by (simp add: fitbit_load_activity_data_def hidden_fitbit_def)
  show ?thesis
    by (simp add: a s h example_sleep example_hr ebind_simps keys_def)
qed

lemma hidden_fitbit_load:
  "adapter_load_health_data example_rt (FitbitKaggle hidden_fitbit) ''1503960366'' = Inr []"
  by (simp add: fitbit_load_health_data_def hidden_fitbit_def)

text \<open>
  C6 as stated fails behind a closed availability gate. A Fitbit directory that holds
  the sleep file (one night, 13 April 2016) and the heart-rate file (ten samples on
  12 April) but no daily-activity file is not available to the adapter:
  \<open>load_health_data\<close> returns the empty sequence, while the tributaries hold two days.
\<close>

theorem closed_gate_hides_tributary_days:
  "adapter_load_health_data example_rt (FitbitKaggle hidden_fitbit) ''1503960366'' = Inr []
   \<and> tributary_dates example_rt (FitbitKaggle hidden_fitbit) ''1503960366'' = Inr [736067, 736066]
   \<and> set (record_dates []) \<noteq> set [736067 :: date, 736066]"
proof -
  have "set (record_dates []) \<noteq> set [736067 :: date, 736066]"
    by (simp add: record_dates_def)
  with hidden_fitbit_load hidden_fitbit_tributaries show ?thesis
    by (intro conjI)
qed

text \<open>
  C6, as the code has it. An adapter whose availability check fails (for PMData also:
  whose subject directory is missing) reads no tributary and returns the empty
  sequence. Otherwise the set of dates of the returned records is the union of the days
  seen across the tributaries, with one record per day for the merging adapters. Each
  record of the Fitbit and PMData adapters carries, for every tributary, the
  tributary's fields of its day, or \<open>None\<close> in all of them when the tributary has no
  such day; a record of the CGM adapter for a day without glucose samples has all
  glucose fields \<open>None\<close>. So a day seen only by tributary A and a day seen only by
  tributary B give exactly two records, each with the other's fields missing.
\<close>

theorem merge_union_of_days:
  assumes "adapter_load_health_data rt ds sid = Inr records"
  shows "(\<not> reads_tributaries ds \<longrightarrow> records = [])
       \<and> (reads_tributaries ds \<longrightarrow>
            (\<exists>dates. tributary_dates rt ds sid = Inr dates
               \<and> set (record_dates records) = set dates
               \<and> ((\<forall>fs. ds \<noteq> NSRRMesa fs) \<longrightarrow> length records = card (set dates))))
       \<and> (\<forall>fs a s h. ds = FitbitKaggle fs \<and> fitbit_load_activity_data rt fs sid = Inr a
              \<and> fitbit_load_sleep_data rt fs sid = Inr s
              \<and> fitbit_load_heart_rate_data rt fs sid = Inr h
            \<longrightarrow> (\<forall>r\<in>set records.
                  tributary_fields r a
                    [''steps'', ''distance_km'', ''active_calories'', ''total_calories'',
                     ''active_minutes'', ''sedentary_minutes'']
                  \<and> tributary_fields r s [''sleep_duration'', ''sleep_score'']
                  \<and> tributary_fields r h [''resting_hr'', ''hr_min'', ''hr_max'']))
       \<and> (\<forall>fs s h a. ds = PMData fs \<and> pm_load_sleep_data rt fs = Inr s
              \<and> pm_load_hr_data rt fs = Inr h \<and> pm_load_activity_data rt fs = Inr a
            \<longrightarrow> (\<forall>r\<in>set records.
                  tributary_fields r s
                    [''sleep_duration'', ''sleep_score'', ''deep_sleep'', ''rem_sleep'',
                     ''light_sleep'', ''awake_time'']
                  \<and> tributary_fields r h [''resting_hr'', ''hrv'', ''hr_min'', ''hr_max'']
                  \<and> tributary_fields r a [''steps'', ''active_calories'', ''active_minutes'']))
       \<and> (\<forall>fs g. ds = OhioT1DM fs \<and> ohio_load_glucose_data rt fs = Inr g
            \<longrightarrow> (\<forall>r\<in>set records. map_of g (date_key r) = None
                  \<longrightarrow> fields_missing r
                        [''glucose_avg'', ''glucose_min'', ''glucose_max'', ''glucose_std'',
                         ''time_in_range'']))"
proof (intro conjI allI impI ballI)
  assume "\<not> reads_tributaries ds"
  then show "records = []"
    using assms by (rule closed_gate_empty)
next
  assume "reads_tributaries ds"
  then show "\<exists>dates. tributary_dates rt ds sid = Inr dates
            \<and> set (record_dates records) = set dates
            \<and> ((\<forall>fs. ds \<noteq> NSRRMesa fs) \<longrightarrow> length records = card (set dates))"
    using assms by (rule tributary_dates_union)
next
  fix fs a s h r
  assume c: "ds = FitbitKaggle fs \<and> fitbit_load_activity_data rt fs sid = Inr a
      \<and> fitbit_load_sleep_data rt fs sid = Inr s
      \<and> fitbit_load_heart_rate_data rt fs sid = Inr h"
    and r: "r \<in> set records"
  with assms obtain d where rd: "r = fitbit_record a s h d"
    by (auto simp: fitbit_load_health_data_Inr)
  show "tributary_fields r a
     [''steps'', ''distance_km'', ''active_calories'', ''total_calories'', ''active_minutes'',
      ''sedentary_minutes'']"
    unfolding rd by (rule fitbit_record_fields)
  show "tributary_fields r s [''sleep_duration'', ''sleep_score'']"
    unfolding rd by (rule fitbit_record_fields)
  show "tributary_fields r h [''resting_hr'', ''hr_min'', ''hr_max'']"
    unfolding rd by (rule fitbit_record_fields)
next
  fix fs s h a r
  assume c: "ds = PMData fs \<and> pm_load_sleep_data rt fs = Inr s
      \<and> pm_load_hr_data rt fs = Inr h \<and> pm_load_activity_data rt fs = Inr a"
    and r: "r \<in> set records"
  with assms obtain d where rd: "r = pm_record s h a d"
    by (auto simp: pm_load_health_data_Inr)
  show "tributary_fields r s
     [''sleep_duration'', ''sleep_score'', ''deep_sleep'', ''rem_sleep'', ''light_sleep'',
      ''awake_time'']"
    unfolding rd by (rule pm_record_fields)
  show "tributary_fields r h [''resting_hr'', ''hrv'', ''hr_min'', ''hr_max'']"
    unfolding rd by (rule pm_record_fields)
  show "tributary_fields r a [''steps'', ''active_calories'', ''active_minutes'']"
    unfolding rd by (rule pm_record_fields)
next
  fix fs g r
  assume c: "ds = OhioT1DM fs \<and> ohio_load_glucose_data rt fs = Inr g"
    and r: "r \<in> set records" and n: "map_of g (date_key r) = None"
  show "fields_missing r
     [''glucose_avg'', ''glucose_min'', ''glucose_max'', ''glucose_std'', ''time_in_range'']"
  proof (cases "oh_available fs")
    case False
    with assms c r show ?thesis by (simp add: ohio_load_health_data_Inr)
  next
    case True
    with assms c obtain i and m :: "(date \<times> real \<times> real) list" where
      b: "build_records (ohio_record g i) (sorted_dates (keys g @ keys i @ keys m)) = Inr records"
      by (auto simp: ohio_load_health_data_Inr)
    from ohio_records(3)[OF b r n] show ?thesis .
  qed
qed

theorem merge_union_of_days_witness:
  "adapter_load_health_data example_rt (OhioT1DM example_ohio) ''559''
     = Inr [ohio_day1, create_empty_record 736067]
   \<and> tributary_dates example_rt (OhioT1DM example_ohio) ''559'' = Inr [736066, 736067]
   \<and> set (record_dates [ohio_day1, create_empty_record 736067]) = {736066, 736067}
   \<and> fields_missing (create_empty_record 736067)
        [''glucose_avg'', ''glucose_min'', ''glucose_max'', ''glucose_std'', ''time_in_range'']
   \<and> adapter_load_health_data example_rt (FitbitKaggle example_fitbit) ''1503960366''
     = Inr [example_day1, example_day2]
   \<and> tributary_fields example_day1
        [(736067, [(''sleep_duration'', PFloat 7), (''sleep_score'', PInt 96)])]
        [''sleep_duration'', ''sleep_score'']
   \<and> map_of example_day1 ''sleep_duration'' = Some PNone
   \<and> \<not> reads_tributaries (FitbitKaggle hidden_fitbit)
   \<and> adapter_load_health_data example_rt (FitbitKaggle hidden_fitbit) ''1503960366'' = Inr []"
proof -
  have rt_o: "reads_tributaries (OhioT1DM example_ohio)"
    by (simp add: example_ohio_def)
  have rt_f: "reads_tributaries (FitbitKaggle example_fitbit)"
    by (simp add: example_fitbit_def)
  have rt_h: "\<not> reads_tributaries (FitbitKaggle hidden_fitbit)"
    by (simp add: hidden_fitbit_def)
  have td: "tributary_dates example_rt (OhioT1DM example_ohio) ''559'' = Inr [736066, 736067]"
    by (simp add: example_glucose example_insulin example_meal ebind_simps keys_def)
  note o = merge_union_of_days [OF example_ohio_adapter_load]
  note f = merge_union_of_days [OF example_fitbit_adapter_load]
  from o rt_o td have s: "set (record_dates [ohio_day1, create_empty_record 736067]) = {736066, 736067}"
    by auto
  have n: "map_of [(736066 :: date, [90, 100, 110, 120, 200 :: real])]
      (date_key (create_empty_record 736067)) = None"
    by (simp add: date_key_def create_empty_record_def)
  from o example_glucose n
  have m: "fields_missing (create_empty_record 736067)
        [''glucose_avg'', ''glucose_min'', ''glucose_max'', ''glucose_std'', ''time_in_range'']"
    by auto
  from f example_activity example_sleep example_hr
  have t: "tributary_fields example_day1
        [(736067, [(''sleep_duration'', PFloat 7), (''sleep_score'', PInt 96)])]
        [''sleep_duration'', ''sleep_score'']"
    by auto
  have "map_of example_day1 ''sleep_duration'' = Some PNone"
    by (simp add: example_day1_def)
  with example_ohio_adapter_load td s m example_fitbit_adapter_load t rt_h hidden_fitbit_load
  show ?thesis
    by blast
qed

section \<open>Ancestry synthesis\<close>

lemma round1_examples:
  "round1 (0.93 / 1.02 * 100) = 91.2" "round1 (0.03 / 1.02 * 100) = 2.9"
  "round1 (0.06 / 1.02 * 100) = 5.9"
  "round1 (0.8994 / 1 * 100) = 89.9" "round1 (0.0503 / 1 * 100) = 5"
  by (simp_all add: round1_def round_half_even_def Let_def)

text \<open>
  C4. The ancestry synthesis should give the same percentages for the same population
  code in every run, summing to 100. The generator is seeded with Python's \<open>hash\<close> of
  the code, which differs from process to process, so two runs draw differently; and
  each percentage is rounded on its own, so the rounded values need not sum to 100 (here
  89.9 + 5 + 5).
\<close>

theorem ancestry_depends_on_process_hash:
  "generate_ancestry_composition first_run ''CEU'' ''EUR'' =
     Inr [(''European'', 91.2), (''Middle Eastern'', 2.9), (''Other'', 5.9)]
   \<and> generate_ancestry_composition second_run ''CEU'' ''EUR'' =
     Inr [(''European'', 89.9), (''Middle Eastern'', 5), (''Other'', 5)]
   \<and> sum_list (map snd [(''European'', 89.9 :: real), (''Middle Eastern'', 5), (''Other'', 5)]) = 99.9"
proof -
  have v1: "vary first_run 1 [(''European'', 0.90), (''Middle Eastern'', 0.05), (''Other'', 0.05)] 0
      = [(''European'', 0.93), (''Middle Eastern'', 0.03), (''Other'', 0.06)]"
    by (simp add: first_run_def example_draws_def)
  have v2: "vary second_run 2 [(''European'', 0.90), (''Middle Eastern'', 0.05), (''Other'', 0.05)] 0
      = [(''European'', 0.8994), (''Middle Eastern'', 0.0503), (''Other'', 0.0503)]"
    by (simp add: second_run_def example_draws_def)
  have h: "py_hash first_run ''CEU'' = 1" "py_hash second_run ''CEU'' = 2"
    by (simp_all add: first_run_def second_run_def)
  have b: "map_of base_compositions ''EUR''
      = Some [(''European'', 0.90), (''Middle Eastern'', 0.05), (''Other'', 0.05)]"
    by (simp add: base_compositions_def)
  have g1: "generate_ancestry_composition first_run ''CEU'' ''EUR'' =
     Inr [(''European'', 91.2), (''Middle Eastern'', 2.9), (''Other'', 5.9)]"
    unfolding generate_ancestry_composition_def b h option.case Let_def v1
    using round1_examples by simp
  have g2: "generate_ancestry_composition second_run ''CEU'' ''EUR'' =
     Inr [(''European'', 89.9), (''Middle Eastern'', 5), (''Other'', 5)]"
    unfolding generate_ancestry_composition_def b h option.case Let_def v2
    using round1_examples by simp
  from g1 g2 show ?thesis by simp
qed

end
